(* ===== verification/Py_Prelude.thy ===== *)
theory Py_Prelude
  imports Main "HOL-Library.Sublist"
begin

text \<open>
  Shared vocabulary of the development: the Python string operations the chatbot
  uses (\<open>str.lower\<close>, \<open>str.capitalize\<close>, \<open>str.strip\<close>, the substring test
  \<open>x in s\<close>, \<open>str.endswith\<close>, \<open>str.replace\<close>, \<open>sep.join\<close>, \<open>str.split\<close>),
  the rendering of an optional value inside an f-string, and the generic lemmas about
  them that the component theories share.  Strings are \<open>char list\<close>, so characters
  are bytes: case mapping and whitespace are those of the ASCII range, which is all
  the configuration strings and keywords of the program use.
\<close>

named_theorems py_str_simps \<open>evaluation lemmas for the Python string operations\<close>

type_synonym py_str = string

text \<open>A JSON-like \<open>Dict[str, List[str]]\<close> of the chatbot's \<open>options\<close>, in insertion order.\<close>
type_synonym py_options = "(string \<times> string list) list"

definition nl :: string where
  "nl = [CHR 0x0A]"

subsection \<open>Case mapping\<close>

definition py_lower_char :: "char \<Rightarrow> char" where
  "py_lower_char c =
     (let n = (of_char c :: nat) in if 65 \<le> n \<and> n \<le> 90 then char_of (n + 32) else c)"

definition py_upper_char :: "char \<Rightarrow> char" where
  "py_upper_char c =
     (let n = (of_char c :: nat) in if 97 \<le> n \<and> n \<le> 122 then char_of (n - 32) else c)"

definition py_lower :: "string \<Rightarrow> string" where
  "py_lower s = map py_lower_char s"

text \<open>\<open>str.capitalize\<close>: first character upper case, the rest lower case.\<close>
fun py_capitalize :: "string \<Rightarrow> string" where
  "py_capitalize [] = []"
| "py_capitalize (c # cs) = py_upper_char c # py_lower cs"

declare py_capitalize.simps [simp del]

subsection \<open>Whitespace and strip\<close>

text \<open>\<open>str.isspace\<close> on one ASCII character: \<open>\t \n \v \f \r\<close>, the four
  separator controls \<open>0x1C..0x1F\<close> and the space.\<close>
definition py_is_space :: "char \<Rightarrow> bool" where
  "py_is_space c =
     (let n = (of_char c :: nat) in (9 \<le> n \<and> n \<le> 13) \<or> (28 \<le> n \<and> n \<le> 32))"

definition py_strip :: "string \<Rightarrow> string" where
  "py_strip s = rev (dropWhile py_is_space (rev (dropWhile py_is_space s)))"

subsection \<open>Substrings\<close>

text \<open>\<open>x in s\<close> for two strings, and \<open>s.endswith(x)\<close>.\<close>
definition py_in :: "string \<Rightarrow> string \<Rightarrow> bool" where
  "py_in x s = sublist x s"

definition py_endswith :: "string \<Rightarrow> string \<Rightarrow> bool" where
  "py_endswith s x = suffix x s"

text \<open>\<open>s.replace(old, new)\<close>: every non-overlapping occurrence, left to right. The
  program only calls it with a non-empty literal \<open>old\<close>; on the empty pattern the
  model leaves the string unchanged.\<close>
function py_replace :: "string \<Rightarrow> string \<Rightarrow> string \<Rightarrow> string" where
  "py_replace old new [] = []"
| "py_replace old new (c # cs) =
     (if old \<noteq> [] \<and> prefix old (c # cs)
      then new @ py_replace old new (drop (length old) (c # cs))
      else c # py_replace old new cs)"
  by pat_completeness auto
termination
  by (relation "measure (\<lambda>(old, new, s). length s)") auto

text \<open>\<open>sep.join(xs)\<close>.\<close>
fun py_join :: "string \<Rightarrow> string list \<Rightarrow> string" where
  "py_join sep [] = []"
| "py_join sep [x] = x"
| "py_join sep (x # y # zs) = x @ sep @ py_join sep (y # zs)"

text \<open>An optional string inside an f-string: \<open>None\<close> prints as \<open>None\<close>.\<close>
fun py_str_opt :: "string option \<Rightarrow> string" where
  "py_str_opt None = ''None''"
| "py_str_opt (Some s) = s"

text \<open>The text python-docx callers build from a document's paragraphs:
  \<open>"\n".join(p.text for p in doc.paragraphs if p.text.strip())\<close>.\<close>
definition docx_text :: "string list \<Rightarrow> string" where
  "docx_text paragraphs = py_join nl [p \<leftarrow> paragraphs. py_strip p \<noteq> []]"

subsection \<open>Dictionaries in insertion order\<close>

text \<open>A Python \<open>dict\<close> whose key order is observable (\<open>list(d.keys())\<close>): an
  association list; assigning an existing key keeps its position, a new key goes last.\<close>
type_synonym ('k, 'v) py_dict = "('k \<times> 'v) list"

definition dict_get :: "('k, 'v) py_dict \<Rightarrow> 'k \<Rightarrow> 'v option" where
  "dict_get d k = map_of d k"

definition dict_set :: "'k \<Rightarrow> 'v \<Rightarrow> ('k, 'v) py_dict \<Rightarrow> ('k, 'v) py_dict" where
  "dict_set k v d =
     (if k \<in> set (map fst d) then map (\<lambda>(k', v'). (k', if k' = k then v else v')) d
      else d @ [(k, v)])"

text \<open>In-place mutation of the value stored under a key (\<open>f(d[k])\<close> on a mutable value).\<close>
definition dict_modify :: "'k \<Rightarrow> ('v \<Rightarrow> 'v) \<Rightarrow> ('k, 'v) py_dict \<Rightarrow> ('k, 'v) py_dict" where
  "dict_modify k f d = map (\<lambda>(k', v). (k', if k' = k then f v else v)) d"

subsection \<open>Lemmas on the string operations\<close>

lemma py_lower_Nil [simp, py_str_simps]: "py_lower [] = []"
  by (simp add: py_lower_def)

lemma py_lower_Cons [py_str_simps]:
  "py_lower (c # cs) = py_lower_char c # py_lower cs"
  by (simp add: py_lower_def)

lemma py_lower_append [simp]: "py_lower (xs @ ys) = py_lower xs @ py_lower ys"
  by (simp add: py_lower_def)

lemma length_py_lower [simp]: "length (py_lower s) = length s"
  by (simp add: py_lower_def)

lemma py_lower_char_idem [simp]: "py_lower_char (py_lower_char c) = py_lower_char c"
proof -
  have "of_char c < (256::nat)" by (rule nat_of_char_less_256)
  then show ?thesis
    by (auto simp: py_lower_char_def Let_def)
qed

lemma py_lower_idem [simp]: "py_lower (py_lower s) = py_lower s"
  by (induction s) (simp_all add: py_lower_Cons)

lemma py_in_refl [simp]: "py_in s s"
  by (simp add: py_in_def)

lemma py_in_Nil [simp]: "py_in [] s"
  by (simp add: py_in_def)

lemma py_in_append_left [intro]: "py_in x s \<Longrightarrow> py_in x (s @ t)"
  unfolding py_in_def sublist_def by (metis append.assoc)

subsection \<open>Lemmas on dictionaries\<close>

lemma map_of_map_update:
  "map_of (map (\<lambda>(k', v'). (k', if k' = k then g v' else v')) d) x =
   (if x = k then map_option g (map_of d x) else map_of d x)"
  by (induction d) auto

lemma dict_get_set [simp]:
  "dict_get (dict_set k v d) x = (if x = k then Some v else dict_get d x)"
proof (cases "k \<in> set (map fst d)")
  case True
  then have "map_of d k \<noteq> None" by (simp add: map_of_eq_None_iff)
  with True show ?thesis
    using map_of_map_update [of k "\<lambda>_. v" d x]
    by (auto simp: dict_get_def dict_set_def)
next
  case False
  then have "map_of d k = None" by (simp add: map_of_eq_None_iff)
  with False show ?thesis by (auto simp: dict_get_def dict_set_def map_add_def split: option.splits)
qed

lemma dict_get_modify [simp]:
  "dict_get (dict_modify k f d) x = (if x = k then map_option f (dict_get d x) else dict_get d x)"
  using map_of_map_update [of k f d x] by (simp add: dict_get_def dict_modify_def)

lemma dict_keys_set:
  "map fst (dict_set k v d) = (if k \<in> set (map fst d) then map fst d else map fst d @ [k])"
  by (auto simp: dict_set_def comp_def case_prod_beta)

lemma dict_keys_modify [simp]: "map fst (dict_modify k f d) = map fst d"
  by (simp add: dict_modify_def comp_def case_prod_beta)

lemma distinct_dict_set [simp]:
  "distinct (map fst d) \<Longrightarrow> distinct (map fst (dict_set k v d))"
  by (simp add: dict_keys_set)

lemma dict_set_existing:
  "dict_get d k \<noteq> None \<Longrightarrow> map fst (dict_set k v d) = map fst d"
  by (simp add: dict_keys_set dict_get_def map_of_eq_None_iff)

lemma dropWhile_hd_keep: "xs \<noteq> [] \<Longrightarrow> \<not> P (hd xs) \<Longrightarrow> dropWhile P xs = xs"
  by (cases xs) auto

lemma py_strip_idem [simp]: "py_strip (py_strip s) = py_strip s"
proof -
  let ?u = "dropWhile py_is_space s"
  let ?v = "dropWhile py_is_space (rev ?u)"
  have strip: "py_strip s = rev ?v" by (simp add: py_strip_def)
  have keep: "dropWhile py_is_space (rev ?v) = rev ?v"
  proof (cases "?v = []")
    case True
    then show ?thesis by (simp only: rev.simps dropWhile.simps)
  next
    case False
    have u: "?u \<noteq> []"
    proof
      assume e: "?u = []"
      have "?v = []" by (simp only: e rev.simps(1) dropWhile.simps(1))
      with False show False by simp
    qed
    have hu: "\<not> py_is_space (hd ?u)" by (rule hd_dropWhile [OF u])
    have "?v = drop (length (takeWhile py_is_space (rev ?u))) (rev ?u)"
      by (rule dropWhile_eq_drop)
    moreover have "length (takeWhile py_is_space (rev ?u)) < length (rev ?u)"
      using False calculation by (metis drop_all not_le_imp_less)
    ultimately have "last ?v = last (rev ?u)" by simp
    then have "hd (rev ?v) = hd ?u" by (simp add: hd_rev last_rev)
    with hu False show ?thesis by (simp add: dropWhile_hd_keep)
  qed
  show ?thesis by (simp add: strip keep py_strip_def)
qed

lemma set_py_strip: "set (py_strip s) \<subseteq> set s"
proof
  fix x
  assume "x \<in> set (py_strip s)"
  then have "x \<in> set (dropWhile py_is_space (rev (dropWhile py_is_space s)))"
    by (simp add: py_strip_def)
  then have "x \<in> set (rev (dropWhile py_is_space s))" by (rule set_dropWhileD)
  then have "x \<in> set (dropWhile py_is_space s)" by simp
  then show "x \<in> set s" by (rule set_dropWhileD)
qed

end
