(* ===== verification/Config.thy ===== *)
theory Config
  imports Py_Prelude
begin

text \<open>
  The static configuration of \<open>src/app/core/config.py\<close>: the \<open>CITIES\<close> table
  (a dictionary from lower-case city keys to the display names of the outlets, in
  insertion order), the knowledge-base upload directory and the token limit.  The
  chatbot reads \<open>CITIES\<close> in two ways, modelled here: the list of its keys and
  \<open>CITIES.get(key, [])\<close>, whose key may be \<open>None\<close> when the session has no city.
\<close>

definition CITIES :: "(string \<times> string list) list" where
  "CITIES =
     [(''delhi'', [''Connaught Place'', ''Unity Mall, Janakpuri'', ''Sector C, Vasant Kunj'']),
      (''bangalore'', [''JP Nagar'', ''Koramangala 1st Block'', ''Electronic City'', ''Indiranagar''])]"

definition KNOWLEDGE_BASE_DIR :: string where
  "KNOWLEDGE_BASE_DIR = ''data/knowledge_base''"

definition MAX_TOKENS_PER_RESPONSE :: nat where
  "MAX_TOKENS_PER_RESPONSE = 800"

text \<open>\<open>list(settings.CITIES.keys())\<close>.\<close>
definition city_keys :: "string list" where
  "city_keys = map fst CITIES"

text \<open>\<open>settings.CITIES.get(key, [])\<close>; a \<open>None\<close> key is never a key of the dict.\<close>
definition cities_get :: "string option \<Rightarrow> string list" where
  "cities_get k =
     (case k of None \<Rightarrow> [] | Some c \<Rightarrow> (case map_of CITIES c of None \<Rightarrow> [] | Some l \<Rightarrow> l))"

lemma city_keys_eq [simp]: "city_keys = [''delhi'', ''bangalore'']"
  by (simp add: city_keys_def CITIES_def)

lemma cities_get_key_iff: "cities_get (Some c) \<noteq> [] \<longleftrightarrow> c \<in> set city_keys"
  by (auto simp: cities_get_def CITIES_def)

lemma py_capitalize_delhi [simp, py_str_simps]: "py_capitalize ''delhi'' = ''Delhi''"
  by code_simp

lemma py_capitalize_bangalore [simp, py_str_simps]: "py_capitalize ''bangalore'' = ''Bangalore''"
  by code_simp

text \<open>The keys are lower case and the chatbot stores the capitalised city, so a
  lookup by the stored city never finds the outlets.\<close>

lemma cities_get_capitalized:
  "c \<in> set city_keys \<Longrightarrow> cities_get (Some (py_capitalize c)) = []"
  by (auto simp: cities_get_def CITIES_def)

end
