(* ===== verification/Knowledge_Base.thy ===== *)
theory Knowledge_Base
  imports Config
begin

text \<open>
  The knowledge store of \<open>src/app/services/knowledge_base.py\<close>.  The class
  \<open>KnowledgeBase\<close> keeps one dictionary \<open>self.restaurants\<close> from a restaurant key
  (\<open>"Barbeque Nation - <City>"\<close>) to a per-restaurant dictionary with fixed fields;
  it is modelled as an ordered dictionary of \<open>restaurant_data\<close> records.  Loading
  reads the \<open>.docx\<close> files of the knowledge-base directory: a file is its name and
  either its non-empty list of paragraph texts or \<open>None\<close> when \<open>Document()\<close>
  raises (the \<open>except\<close> of the loop skips such a file).  The per-file handlers
  mutate the record stored under the key in place; the model returns it updated.
\<close>

record restaurant_data =
  name :: string
  location :: string
  address :: string
  contact :: string
  timings :: string
  menu :: "string list"
  faqs :: "string list"

type_synonym kb = "(string, restaurant_data) py_dict"

text \<open>A \<open>.docx\<close> file of the knowledge-base directory: its name and its paragraphs,
  or \<open>None\<close> when python-docx cannot open it.\<close>
type_synonym kb_file = "string \<times> string list option"

definition initialize_restaurant_data :: restaurant_data where
  "initialize_restaurant_data =
     \<lparr>name = [], location = [], address = [], contact = [], timings = [], menu = [], faqs = []\<rparr>"

definition extract_restaurant_key_from_filename :: "string \<Rightarrow> string option" where
  "extract_restaurant_key_from_filename filename =
     (if py_in ''Barbeque Nation'' filename then
        (if py_in ''New Delhi'' filename then Some ''Barbeque Nation - New Delhi''
         else if py_in ''Bangalore'' filename then Some ''Barbeque Nation - Bangalore''
         else None)
      else None)"

subsection \<open>Paragraph handlers\<close>

text \<open>\<open>_process_general_info\<close>: the last paragraph carrying a label wins.\<close>
fun process_general_info :: "string list \<Rightarrow> restaurant_data \<Rightarrow> restaurant_data" where
  "process_general_info [] data = data"
| "process_general_info (para # paras) data =
     (let text = py_strip para in
      if text = [] then process_general_info paras data
      else if py_in ''Location:'' text then
        process_general_info paras (data\<lparr>location := py_strip (py_replace ''Location:'' [] text)\<rparr>)
      else if py_in ''Address:'' text then
        process_general_info paras (data\<lparr>address := py_strip (py_replace ''Address:'' [] text)\<rparr>)
      else if py_in ''Contact:'' text then
        process_general_info paras (data\<lparr>contact := py_strip (py_replace ''Contact:'' [] text)\<rparr>)
      else if py_in ''Timings:'' text then
        process_general_info paras (data\<lparr>timings := py_strip (py_replace ''Timings:'' [] text)\<rparr>)
      else process_general_info paras data)"

text \<open>
  The loop shared by \<open>_process_menu\<close> and \<open>_process_faqs\<close>: \<open>in_section\<close> is
  \<open>current_section == "menu"\<close> (resp. \<open>"faqs"\<close>); the result is the list of the
  texts appended, in order.  The third branch is the loop's \<open>break\<close>.
\<close>
fun section_loop :: "string \<Rightarrow> bool \<Rightarrow> string list \<Rightarrow> string list" where
  "section_loop header in_section [] = []"
| "section_loop header in_section (para # paras) =
     (let text = py_strip para in
      if text = [] then section_loop header in_section paras
      else if py_in header text then section_loop header True paras
      else if in_section \<and> text \<noteq> [] then text # section_loop header in_section paras
      else if py_endswith text '':'' \<and> in_section then []
      else section_loop header in_section paras)"

definition process_menu :: "string list \<Rightarrow> restaurant_data \<Rightarrow> restaurant_data" where
  "process_menu paras data = data\<lparr>menu := menu data @ section_loop ''Menu:'' False paras\<rparr>"

definition process_faqs :: "string list \<Rightarrow> restaurant_data \<Rightarrow> restaurant_data" where
  "process_faqs paras data = data\<lparr>faqs := faqs data @ section_loop ''FAQs:'' False paras\<rparr>"

subsection \<open>Loading\<close>

text \<open>\<open>if key not in self.restaurants: self.restaurants[key] = ...\<close>\<close>
definition ensure_restaurant :: "string \<Rightarrow> kb \<Rightarrow> kb" where
  "ensure_restaurant key kb =
     (if dict_get kb key = None then dict_set key initialize_restaurant_data kb else kb)"

definition names_city_file :: "string \<Rightarrow> bool" where
  "names_city_file filename = (py_in ''New Delhi'' filename \<or> py_in ''Bangalore'' filename)"

text \<open>\<open>"Barbeque Nation" in filename and (...) is False\<close>: a chain-wide file.\<close>
definition general_file :: "string \<Rightarrow> bool" where
  "general_file filename = (py_in ''Barbeque Nation'' filename \<and> \<not> names_city_file filename)"

text \<open>The \<open>for city in settings.CITIES.keys()\<close> loop of the menu and FAQ branches,
  with the handler as a parameter; it stops (\<open>break\<close>) after the first city that
  takes a chain-wide file.\<close>
fun city_loop :: "(string list \<Rightarrow> restaurant_data \<Rightarrow> restaurant_data) \<Rightarrow> string \<Rightarrow>
    string list \<Rightarrow> string list \<Rightarrow> kb \<Rightarrow> kb" where
  "city_loop process filename [] paras kb = kb"
| "city_loop process filename (c # cs) paras kb =
     (if py_in (py_lower c) (py_lower filename) \<or> general_file filename then
        (let key = ''Barbeque Nation - '' @ py_capitalize c;
             kb' = dict_modify key (process paras) (ensure_restaurant key kb)
         in if general_file filename then kb' else city_loop process filename cs paras kb')
      else city_loop process filename cs paras kb)"

text \<open>One iteration of \<open>for file_path in self.kb_dir.glob("*.docx")\<close>.\<close>
fun load_file :: "kb \<Rightarrow> kb_file \<Rightarrow> kb" where
  "load_file kb (filename, doc) =
     (if py_in ''(1)'' filename then kb
      else case doc of
        None \<Rightarrow> kb
      | Some paras \<Rightarrow>
          if py_in ''Barbeque Nation'' filename \<and> names_city_file filename then
            (case extract_restaurant_key_from_filename filename of
               None \<Rightarrow> kb
             | Some key \<Rightarrow> dict_modify key (process_general_info paras) (ensure_restaurant key kb))
          else if py_in ''Menu'' filename then city_loop process_menu filename city_keys paras kb
          else if py_in ''FAQ'' filename then city_loop process_faqs filename city_keys paras kb
          else kb)"

definition load_knowledge_base :: "kb_file list \<Rightarrow> kb \<Rightarrow> kb" where
  "load_knowledge_base files kb = fold (\<lambda>f kb. load_file kb f) files kb"

text \<open>\<open>KnowledgeBase()\<close>: an empty dictionary, then one load of the directory.\<close>
definition knowledge_base_init :: "kb_file list \<Rightarrow> kb" where
  "knowledge_base_init files = load_knowledge_base files []"

subsection \<open>Queries\<close>

definition get_restaurant_info :: "kb \<Rightarrow> string \<Rightarrow> restaurant_data option" where
  "get_restaurant_info kb restaurant_name = dict_get kb restaurant_name"

definition get_all_restaurants :: "kb \<Rightarrow> string list" where
  "get_all_restaurants kb = map fst kb"

definition get_restaurants_by_city :: "kb \<Rightarrow> string \<Rightarrow> string list" where
  "get_restaurants_by_city kb c = filter (\<lambda>n. py_in (py_lower c) (py_lower n)) (map fst kb)"

text \<open>The chat endpoint passes the session's optional \<open>restaurant\<close>; a \<open>None\<close> key
  is absent from the dictionary.\<close>
definition get_menu :: "kb \<Rightarrow> string option \<Rightarrow> string list" where
  "get_menu kb restaurant_name =
     (case restaurant_name of None \<Rightarrow> []
      | Some n \<Rightarrow> (case dict_get kb n of None \<Rightarrow> [] | Some r \<Rightarrow> menu r))"

definition get_faqs :: "kb \<Rightarrow> string option \<Rightarrow> string list" where
  "get_faqs kb restaurant_name =
     (case restaurant_name of None \<Rightarrow> []
      | Some n \<Rightarrow> (case dict_get kb n of None \<Rightarrow> [] | Some r \<Rightarrow> faqs r))"

text \<open>The reference reading of a section: the stripped non-empty paragraphs after the
  first one that holds the header, without the ones that hold it again.\<close>
definition section_items :: "string \<Rightarrow> string list \<Rightarrow> string list" where
  "section_items header paras =
     (let texts = filter (\<lambda>t. t \<noteq> []) (map py_strip paras) in
      filter (\<lambda>t. \<not> py_in header t) (drop 1 (dropWhile (\<lambda>t. \<not> py_in header t) texts)))"

subsection \<open>Lemmas\<close>

lemma section_loop_in_section:
  "section_loop header True paras =
     filter (\<lambda>t. \<not> py_in header t) (filter (\<lambda>t. t \<noteq> []) (map py_strip paras))"
  by (induction paras) (auto simp: Let_def)

text \<open>C13: The paragraph loop of _process_menu and _process_faqs collects exactly the stripped non-empty paragraphs after the first header paragraph, skipping later header paragraphs: its break on a new "...:" section header can never run, so a following section is swallowed into the menu or FAQ list.\<close>

lemma section_loop_eq_section_items:
  "section_loop header False paras = section_items header paras"
proof (induction paras)
  case Nil
  then show ?case by (simp add: section_items_def)
next
  case (Cons para paras)
  then show ?case
    by (auto simp: Let_def section_items_def section_loop_in_section)
qed

lemma ensure_restaurant_keys:
  "distinct (map fst kb) \<Longrightarrow> distinct (map fst (ensure_restaurant key kb))"
  by (simp add: ensure_restaurant_def)

lemma dict_get_ensure [simp]:
  "dict_get (ensure_restaurant key kb) x =
     (if x = key \<and> dict_get kb key = None then Some initialize_restaurant_data else dict_get kb x)"
  by (auto simp: ensure_restaurant_def)

lemma city_loop_distinct:
  "distinct (map fst kb) \<Longrightarrow> distinct (map fst (city_loop process filename cs paras kb))"
  by (induction cs arbitrary: kb) (auto simp: Let_def ensure_restaurant_keys)

lemma load_file_distinct:
  "distinct (map fst kb) \<Longrightarrow> distinct (map fst (load_file kb f))"
  by (cases f) (auto simp: ensure_restaurant_keys city_loop_distinct simp del: city_loop.simps
      split: option.splits)

text \<open>Loading any list of files keeps the restaurant keys of the knowledge base distinct.\<close>

lemma load_knowledge_base_distinct:
  "distinct (map fst kb) \<Longrightarrow> distinct (map fst (load_knowledge_base files kb))"
  unfolding load_knowledge_base_def
  by (induction files arbitrary: kb) (simp_all add: load_file_distinct)

lemma load_file_general_menu:
  assumes "\<not> py_in ''(1)'' filename" "general_file filename" "py_in ''Menu'' filename"
  shows "load_file kb (filename, Some paras) =
    dict_modify ''Barbeque Nation - Delhi'' (process_menu paras)
      (ensure_restaurant ''Barbeque Nation - Delhi'' kb)"
  using assms by (simp add: general_file_def Let_def)

text \<open>C14: A chain-wide menu file (its name holds "Barbeque Nation" and "Menu" but no city) is applied to the first configured city only: the Bangalore restaurant's menu is left unchanged, because the loop breaks after Delhi.\<close>

lemma general_menu_skips_bangalore:
  assumes "\<not> py_in ''(1)'' filename" "general_file filename" "py_in ''Menu'' filename"
  shows "get_menu (load_file kb (filename, Some paras)) (Some ''Barbeque Nation - Bangalore'') =
         get_menu kb (Some ''Barbeque Nation - Bangalore'')"
  unfolding load_file_general_menu [OF assms] by (simp add: get_menu_def)

lemma get_menu_general_menu:
  assumes "\<not> py_in ''(1)'' filename" "general_file filename" "py_in ''Menu'' filename"
  shows "get_menu (load_file kb (filename, Some paras)) (Some ''Barbeque Nation - Delhi'') =
         get_menu kb (Some ''Barbeque Nation - Delhi'') @ section_loop ''Menu:'' False paras"
  unfolding load_file_general_menu [OF assms]
  by (simp add: get_menu_def process_menu_def initialize_restaurant_data_def split: option.splits)

text \<open>C15: Loading the same chain-wide menu file twice, as a reload of the knowledge base does, appends its menu lines twice to the Delhi restaurant.\<close>

lemma reload_duplicates_menu:
  assumes "\<not> py_in ''(1)'' filename" "general_file filename" "py_in ''Menu'' filename"
  shows "get_menu (load_file (load_file kb (filename, Some paras)) (filename, Some paras))
           (Some ''Barbeque Nation - Delhi'') =
         get_menu kb (Some ''Barbeque Nation - Delhi'') @
           section_loop ''Menu:'' False paras @ section_loop ''Menu:'' False paras"
  by (simp only: get_menu_general_menu [OF assms] append_assoc)

lemma general_menu_skips_bangalore_witness:
  "\<not> py_in ''(1)'' ''Barbeque Nation Menu.docx'' \<and> general_file ''Barbeque Nation Menu.docx'' \<and>
   py_in ''Menu'' ''Barbeque Nation Menu.docx'' \<and>
   get_menu (load_file [] (''Barbeque Nation Menu.docx'', Some [''Menu:'', ''Paneer Tikka'']))
     (Some ''Barbeque Nation - Bangalore'') = []"
proof -
  have h: "\<not> py_in ''(1)'' ''Barbeque Nation Menu.docx''" "general_file ''Barbeque Nation Menu.docx''"
    "py_in ''Menu'' ''Barbeque Nation Menu.docx''" by code_simp+
  have m: "get_menu [] (Some ''Barbeque Nation - Bangalore'') = []" by (simp add: get_menu_def dict_get_def)
  have "get_menu (load_file [] (''Barbeque Nation Menu.docx'', Some [''Menu:'', ''Paneer Tikka'']))
     (Some ''Barbeque Nation - Bangalore'') = []"
    by (simp only: general_menu_skips_bangalore [OF h] m)
  with h show ?thesis by (intro conjI)
qed

lemma reload_duplicates_menu_witness:
  "\<not> py_in ''(1)'' ''Barbeque Nation Menu.docx'' \<and> general_file ''Barbeque Nation Menu.docx'' \<and>
   py_in ''Menu'' ''Barbeque Nation Menu.docx'' \<and>
   get_menu (load_file (load_file [] (''Barbeque Nation Menu.docx'', Some [''Menu:'', ''Paneer Tikka'']))
       (''Barbeque Nation Menu.docx'', Some [''Menu:'', ''Paneer Tikka'']))
     (Some ''Barbeque Nation - Delhi'') = [''Paneer Tikka'', ''Paneer Tikka'']"
proof -
  have h: "\<not> py_in ''(1)'' ''Barbeque Nation Menu.docx''" "general_file ''Barbeque Nation Menu.docx''"
    "py_in ''Menu'' ''Barbeque Nation Menu.docx''" by code_simp+
  have sec: "section_loop ''Menu:'' False [''Menu:'', ''Paneer Tikka''] = [''Paneer Tikka'']" by code_simp
  have m: "get_menu [] (Some ''Barbeque Nation - Delhi'') = []" by (simp add: get_menu_def dict_get_def)
  have "get_menu (load_file (load_file [] (''Barbeque Nation Menu.docx'', Some [''Menu:'', ''Paneer Tikka'']))
       (''Barbeque Nation Menu.docx'', Some [''Menu:'', ''Paneer Tikka'']))
     (Some ''Barbeque Nation - Delhi'') = [''Paneer Tikka'', ''Paneer Tikka'']"
    by (simp only: reload_duplicates_menu [OF h] m sec append_Nil append_Cons)
  with h show ?thesis by (intro conjI)
qed

lemma load_knowledge_base_distinct_witness:
  "distinct (map fst ([] :: kb)) \<and>
   distinct (map fst (load_knowledge_base
     [(''Barbeque Nation Menu.docx'', Some [''Menu:'', ''Paneer Tikka'']),
      (''Barbeque Nation - New Delhi.docx'', Some [''Address: Connaught Place''])] []))"
  using load_knowledge_base_distinct [of "[]"] by simp

end
