(* ===== verification/Conversation_State.thy ===== *)
theory Conversation_State
  imports Py_Prelude
begin

text \<open>
  The data model of \<open>src/app/services/state_manager.py\<close>: the enumeration
  \<open>ConversationState\<close> (a \<open>str\<close>-valued \<open>Enum\<close>, so a member compares equal to its
  value string), the parse \<open>ConversationState(v)\<close> guarded by the membership test the
  endpoint performs, the pydantic model \<open>StateContext\<close> as a record, and the legacy
  transition table \<open>StateManager.get_next_state\<close>, which the chat endpoint
  instantiates but never calls.
\<close>

datatype conversation_state =
    INITIAL_GREETING
  | CITY_SELECTION
  | RESTAURANT_SELECTION
  | QUERY_TYPE
  | FAQ_HANDLING
  | BOOKING_COLLECTION
  | BOOKING_CONFIRMATION
  | FAREWELL

primrec state_value :: "conversation_state \<Rightarrow> string" where
  "state_value INITIAL_GREETING = ''initial_greeting''"
| "state_value CITY_SELECTION = ''city_selection''"
| "state_value RESTAURANT_SELECTION = ''restaurant_selection''"
| "state_value QUERY_TYPE = ''query_type''"
| "state_value FAQ_HANDLING = ''faq_handling''"
| "state_value BOOKING_COLLECTION = ''booking_collection''"
| "state_value BOOKING_CONFIRMATION = ''booking_confirmation''"
| "state_value FAREWELL = ''farewell''"

text \<open>\<open>ConversationState.__members__.values()\<close>, in declaration order.\<close>
definition all_states :: "conversation_state list" where
  "all_states = [INITIAL_GREETING, CITY_SELECTION, RESTAURANT_SELECTION, QUERY_TYPE,
                 FAQ_HANDLING, BOOKING_COLLECTION, BOOKING_CONFIRMATION, FAREWELL]"

text \<open>\<open>v in ConversationState.__members__.values()\<close> for the optional request field
  (\<open>None\<close> equals no member), and \<open>ConversationState(v)\<close> on a member value.\<close>
definition state_of_value :: "string \<Rightarrow> conversation_state option" where
  "state_of_value v = find (\<lambda>s. state_value s = v) all_states"

definition is_state_value :: "string option \<Rightarrow> bool" where
  "is_state_value v = (case v of None \<Rightarrow> False | Some x \<Rightarrow> x \<in> state_value ` set all_states)"

record state_context =
  current_state :: conversation_state
  city :: "string option"
  restaurant :: "string option"
  query_type :: "string option"
  booking_details :: "(string \<times> string) list option"

text \<open>\<open>StateContext(current_state=s)\<close>: every optional field defaults to \<open>None\<close>.\<close>
definition new_context :: "conversation_state \<Rightarrow> state_context" where
  "new_context s =
     \<lparr>current_state = s, city = None, restaurant = None, query_type = None,
      booking_details = None\<rparr>"

subsection \<open>The legacy transition table\<close>

primrec state_transitions :: "conversation_state \<Rightarrow> (string \<times> conversation_state) list" where
  "state_transitions INITIAL_GREETING = [(''delhi'', CITY_SELECTION), (''bangalore'', CITY_SELECTION)]"
| "state_transitions CITY_SELECTION = [(''default'', RESTAURANT_SELECTION)]"
| "state_transitions RESTAURANT_SELECTION = [(''1'', FAQ_HANDLING), (''2'', BOOKING_COLLECTION)]"
| "state_transitions QUERY_TYPE = []"
| "state_transitions FAQ_HANDLING = [(''yes'', FAQ_HANDLING), (''no'', FAREWELL)]"
| "state_transitions BOOKING_COLLECTION = [(''default'', BOOKING_CONFIRMATION)]"
| "state_transitions BOOKING_CONFIRMATION = [(''yes'', FAREWELL), (''no'', BOOKING_COLLECTION)]"
| "state_transitions FAREWELL = []"

text \<open>\<open>transitions.get(user_input.lower(), transitions.get("default", current_state))\<close>.\<close>
definition get_next_state :: "conversation_state \<Rightarrow> string \<Rightarrow> conversation_state" where
  "get_next_state cur user_input =
     (let transitions = state_transitions cur in
      case map_of transitions (py_lower user_input) of
        Some s \<Rightarrow> s
      | None \<Rightarrow> (case map_of transitions ''default'' of Some s \<Rightarrow> s | None \<Rightarrow> cur))"

subsection \<open>Lemmas\<close>

lemma state_value_inj: "state_value s = state_value t \<longleftrightarrow> s = t"
  by (cases s; cases t) simp_all

lemma set_all_states [simp]: "set all_states = UNIV"
proof -
  have "s \<in> set all_states" for s by (cases s) (simp_all add: all_states_def)
  then show ?thesis by blast
qed

lemma state_of_value_state_value [simp]: "state_of_value (state_value s) = Some s"
  by (cases s) (simp_all add: state_of_value_def all_states_def)

lemma state_of_value_SomeD: "state_of_value v = Some s \<Longrightarrow> state_value s = v"
  by (auto simp: state_of_value_def find_Some_iff)

lemma new_context_fields [simp]:
  "current_state (new_context s) = s" "city (new_context s) = None"
  "restaurant (new_context s) = None" "query_type (new_context s) = None"
  "booking_details (new_context s) = None"
  by (simp_all add: new_context_def)

lemma current_state_update_same [simp]:
  "current_state c = s \<Longrightarrow> c\<lparr>current_state := s\<rparr> = c"
  by simp

lemma is_state_value_iff: "is_state_value v \<longleftrightarrow> (\<exists>s. v = Some (state_value s))"
  by (auto simp: is_state_value_def split: option.splits)

subsection \<open>Properties\<close>

text \<open>Parsing a state value and printing a state are inverse: a string parses to a
  state exactly when it is that state's value.\<close>

lemma state_value_roundtrip: "state_of_value v = Some s \<longleftrightarrow> state_value s = v"
proof
  assume "state_of_value v = Some s"
  then show "state_value s = v" by (rule state_of_value_SomeD)
next
  assume "state_value s = v"
  then show "state_of_value v = Some s" by auto
qed

text \<open>The legacy transition table of StateManager completes a booking: any input
  moves BOOKING_COLLECTION to BOOKING_CONFIRMATION, whose "yes" leads to FAREWELL and "no"
  back to BOOKING_COLLECTION (case-insensitively), while any other answer stays.  The
  chat endpoint does not use this table.\<close>

lemma legacy_booking_flow:
  "get_next_state (get_next_state BOOKING_COLLECTION x) y =
     (if py_lower y = ''yes'' then FAREWELL
      else if py_lower y = ''no'' then BOOKING_COLLECTION else BOOKING_CONFIRMATION)"
  by (simp add: get_next_state_def)

end
