(* ===== verification/Chatbot.thy ===== *)
theory Chatbot
  imports Knowledge_Base Conversation_State
begin

text \<open>
  The dialogue engine: the \<open>/chat\<close> endpoint \<open>chat\<close> of
  \<open>src/app/api/endpoints/chatbot.py\<close>.  One turn loads or creates the session's
  \<open>StateContext\<close> (honouring a valid \<open>current_state\<close> hint of the request), lower-cases
  the message, interprets it in the current state (phase one, \<open>phase1\<close>, which may
  return early with a re-prompt), stores the next state and renders the reply from the
  new state (phase two, \<open>render\<close>).  The session store is the module-level dictionary
  \<open>sessions\<close>, a map here.  In the source \<open>context\<close> aliases the stored object, so
  every mutation, including those made before an early \<open>return\<close>, is persisted; the
  model writes the final context back on every path that returns.  The body runs inside
  \<open>try\<close>: \<open>chat_handler\<close> takes the body as a parameter that may raise
  (\<open>Inl\<close>), deletes the session and answers HTTP 500 then; \<open>chat\<close> instantiates it
  with the endpoint's body, which never raises.
\<close>

record chat_request =
  message :: string
  session_id :: string
  req_current_state :: "string option"

record chat_response =
  response :: string
  state :: string
  options :: "py_options option"

type_synonym sessions = "string \<rightharpoonup> state_context"

datatype http_error = HTTPException nat string

text \<open>The outcome of phase one: an early \<open>return ChatResponse(...)\<close>, or the locals
  \<open>context\<close>, \<open>next_state\<close>, \<open>response\<close>, \<open>options\<close> handed to phase two.\<close>
datatype phase1_result =
    Early state_context chat_response
  | Proceed state_context conversation_state string "py_options option"

subsection \<open>Fixed replies and option sets\<close>

definition default_reply :: string where
  "default_reply = ''I didn't understand that. Can you please rephrase?''"

definition welcome_reply :: string where
  "welcome_reply = ''Welcome to Barbeque Nation! How can I help you today? Please select your city.''"

definition cities_options :: py_options where
  "cities_options = [(''cities'', city_keys)]"

definition next_actions :: "string list" where
  "next_actions = [''Menu'', ''Book Table'', ''FAQs'']"

definition query_type_options :: py_options where
  "query_type_options = [(''query_types'', [''FAQs'', ''Booking''])]"

text \<open>\<open>f"Barbeque Nation - {context.city}"\<close>\<close>
definition restaurant_key :: "string option \<Rightarrow> string" where
  "restaurant_key c = ''Barbeque Nation - '' @ py_str_opt c"

subsection \<open>Phase one: interpreting the input in the current state\<close>

text \<open>The \<open>RESTAURANT_SELECTION\<close> branch: outlet name first, then the keywords in the
  source's order; no match re-prompts and returns early.\<close>
definition restaurant_selection_input ::
    "state_context \<Rightarrow> string \<Rightarrow> conversation_state \<Rightarrow> string \<Rightarrow> py_options option \<Rightarrow> phase1_result" where
  "restaurant_selection_input context user_input next_state reply opts =
     (let recognized_input = py_lower user_input;
          locations = cities_get (city context);
          location_names_lower = map py_lower locations
      in if recognized_input \<in> set location_names_lower then
           Proceed (context\<lparr>restaurant := Some (restaurant_key (city context)),
                            query_type := Some ''Location_Info''\<rparr>) QUERY_TYPE reply opts
         else if py_in ''menu'' recognized_input then
           Proceed (context\<lparr>restaurant := Some (restaurant_key (city context)),
                            query_type := Some ''Menu''\<rparr>) QUERY_TYPE reply opts
         else if py_in ''book table'' recognized_input \<or> py_in ''booking'' recognized_input then
           Proceed (context\<lparr>query_type := Some ''Booking''\<rparr>) BOOKING_COLLECTION reply opts
         else if py_in ''faqs'' recognized_input \<or> py_in ''faq'' recognized_input then
           Proceed (context\<lparr>restaurant := Some (restaurant_key (city context)),
                            query_type := Some ''FAQs''\<rparr>) QUERY_TYPE reply opts
         else
           (let context' = context\<lparr>current_state := next_state\<rparr> in
            Early context'
              \<lparr>response = ''I didn't understand that. Please select a location or one of the actions (Menu, Book Table, FAQs).'',
               state = state_value (current_state context'),
               options = Some [(''locations'', locations), (''next_actions'', next_actions)]\<rparr>))"

definition phase1 :: "state_context \<Rightarrow> string \<Rightarrow> phase1_result" where
  "phase1 context user_input =
     (let next_state = current_state context;
          reply = default_reply;
          opts = None
      in case current_state context of
        INITIAL_GREETING \<Rightarrow> Proceed context CITY_SELECTION welcome_reply (Some cities_options)
      | CITY_SELECTION \<Rightarrow>
          (if user_input \<in> set city_keys then
             Proceed (context\<lparr>city := Some (py_capitalize user_input)\<rparr>) RESTAURANT_SELECTION
               reply opts
           else
             (let context' = context\<lparr>current_state := next_state\<rparr> in
              Early context'
                \<lparr>response = ''Sorry, I don't recognize that city. Please select a city from the options.'',
                 state = state_value (current_state context'),
                 options = Some cities_options\<rparr>))
      | RESTAURANT_SELECTION \<Rightarrow>
          restaurant_selection_input context user_input next_state reply opts
      | _ \<Rightarrow> Proceed context next_state reply opts)"

subsection \<open>Phase two: rendering the reply from the new state\<close>

definition render_query_type :: "kb \<Rightarrow> state_context \<Rightarrow> string \<times> py_options option" where
  "render_query_type kb context =
     (if query_type context = Some ''Menu'' then
        (let menu_items = get_menu kb (restaurant context) in
         if menu_items \<noteq> [] then
           (''Here is the menu for '' @ py_str_opt (restaurant context) @ '':'' @ nl @ py_join nl menu_items,
            None)
         else (''Sorry, I couldn't find the menu for '' @ py_str_opt (restaurant context) @ ''.'', None))
      else if query_type context = Some ''FAQs'' then
        (let faq_items = get_faqs kb (restaurant context) in
         if faq_items \<noteq> [] then
           (''Here are some FAQs for '' @ py_str_opt (restaurant context) @ '':'' @ nl @ py_join nl faq_items,
            None)
         else (''Sorry, I couldn't find FAQs for '' @ py_str_opt (restaurant context) @ ''.'', None))
      else if query_type context = Some ''Location_Info'' then
        (''You've selected a location in '' @ py_str_opt (city context) @
           ''. What specific information are you looking for about this location?'',
         Some query_type_options)
      else (''What would you like to know? (1 for FAQs, 2 for Booking)'', Some query_type_options))"

definition render :: "kb \<Rightarrow> state_context \<Rightarrow> string \<times> py_options option" where
  "render kb context =
     (case current_state context of
        INITIAL_GREETING \<Rightarrow> (welcome_reply, Some cities_options)
      | CITY_SELECTION \<Rightarrow> (''Please select a city (Delhi or Bangalore):'', Some cities_options)
      | RESTAURANT_SELECTION \<Rightarrow>
          (let locations = cities_get (city context) in
           if locations \<noteq> [] then
             (''Here are the locations in '' @ py_str_opt (city context) @ '':'' @ nl @
                py_join nl (map (\<lambda>loc. ''- '' @ loc) locations) @ nl @ nl @
                ''Please select a location or tell me what you'd like to do (e.g., view menu, book a table, FAQs).'',
              Some [(''locations'', locations), (''next_actions'', next_actions)])
           else
             (''Sorry, no locations found for '' @ py_str_opt (city context) @ ''. Please select another city.'',
              Some cities_options))
      | QUERY_TYPE \<Rightarrow> render_query_type kb context
      | BOOKING_COLLECTION \<Rightarrow>
          (''Please provide your booking details (name, date, time, guests)'',
           Some [(''booking_fields'', [''name'', ''date'', ''time'', ''guests''])])
      | BOOKING_CONFIRMATION \<Rightarrow>
          (''Would you like to confirm your booking? (yes/no)'', Some [(''confirmation'', [''yes'', ''no''])])
      | FAREWELL \<Rightarrow> (''Thank you for choosing Barbeque Nation! Have a great day!'', None)
      | FAQ_HANDLING \<Rightarrow> (''I'm not sure how to proceed. Can we start over?'', None))"

subsection \<open>One turn\<close>

text \<open>The body of the \<open>try\<close> after the session is loaded: phase one, then (unless it
  returned early) the state update and phase two, whose every branch assigns both
  \<open>response\<close> and \<open>options\<close>, so the values phase one left in them are dropped.\<close>
definition process_message :: "kb \<Rightarrow> state_context \<Rightarrow> string \<Rightarrow> state_context \<times> chat_response" where
  "process_message kb context msg =
     (case phase1 context (py_lower msg) of
        Early context' resp \<Rightarrow> (context', resp)
      | Proceed context' next_state _ _ \<Rightarrow>
          (let context'' = context'\<lparr>current_state := next_state\<rparr>;
               (resp, opts) = render kb context''
           in (context'', \<lparr>response = resp, state = state_value (current_state context''), options = opts\<rparr>)))"

text \<open>The state of a new session: the hint when it is a member value, else
  \<open>INITIAL_GREETING\<close>.\<close>
definition initial_state :: "string option \<Rightarrow> conversation_state" where
  "initial_state hint =
     (if is_state_value hint
      then (case Option.bind hint state_of_value of Some s \<Rightarrow> s | None \<Rightarrow> INITIAL_GREETING)
      else INITIAL_GREETING)"

text \<open>Get or create the session context.  An existing session takes a truthy
  member-valued hint and otherwise keeps its stored state.\<close>
definition load_context :: "sessions \<Rightarrow> chat_request \<Rightarrow> state_context" where
  "load_context sessions request =
     (case sessions (session_id request) of
        None \<Rightarrow> new_context (initial_state (req_current_state request))
      | Some context \<Rightarrow>
          (case req_current_state request of
             Some v \<Rightarrow>
               (if v \<noteq> [] \<and> is_state_value (Some v)
                then (case state_of_value v of Some s \<Rightarrow> context\<lparr>current_state := s\<rparr> | None \<Rightarrow> context)
                else context)
           | None \<Rightarrow> context))"

definition chat_error_detail :: string where
  "chat_error_detail = ''Sorry, there was an error processing your request. Please try again.''"

text \<open>The \<open>try\<close>/\<open>except Exception\<close> around the turn, for a body that may raise.\<close>
definition chat_handler ::
    "(state_context \<Rightarrow> string \<Rightarrow> string + state_context \<times> chat_response) \<Rightarrow>
     sessions \<Rightarrow> chat_request \<Rightarrow> sessions \<times> (http_error + chat_response)" where
  "chat_handler body sessions request =
     (case body (load_context sessions request) (message request) of
        Inl _ \<Rightarrow> (sessions(session_id request := None), Inl (HTTPException 500 chat_error_detail))
      | Inr (context, resp) \<Rightarrow> (sessions(session_id request \<mapsto> context), Inr resp))"

definition chat :: "kb \<Rightarrow> sessions \<Rightarrow> chat_request \<Rightarrow> sessions \<times> (http_error + chat_response)" where
  "chat kb = chat_handler (\<lambda>context msg. Inr (process_message kb context msg))"


subsection \<open>Lemmas\<close>

lemma chat_eq:
  "chat kb sessions request =
     (let (context', resp) = process_message kb (load_context sessions request) (message request)
      in (sessions(session_id request \<mapsto> context'), Inr resp))"
  by (simp add: chat_def chat_handler_def split: prod.splits)

lemma load_context_hint_None:
  "req_current_state request = None \<Longrightarrow>
   load_context sessions request =
     (case sessions (session_id request) of None \<Rightarrow> new_context INITIAL_GREETING | Some c \<Rightarrow> c)"
  by (simp add: load_context_def initial_state_def is_state_value_def split: option.splits)

lemma process_message_state:
  "process_message kb context msg = (context', resp) \<Longrightarrow> state resp = state_value (current_state context')"
  by (auto simp: process_message_def phase1_def restaurant_selection_input_def Let_def
      split: phase1_result.splits conversation_state.splits if_splits prod.splits)

lemma process_message_same_state:
  assumes "process_message kb context msg = (context', resp)"
    and "current_state context' = current_state context"
  shows "context' = context"
  using assms
  by (auto simp: process_message_def phase1_def restaurant_selection_input_def Let_def
      split: phase1_result.splits conversation_state.splits if_splits prod.splits)

lemma load_context_hint_state:
  assumes "req_current_state request = Some v" and "state_of_value v = Some st"
  shows "current_state (load_context sessions request) = st"
proof -
  have v: "state_value st = v" using assms(2) by (rule state_of_value_SomeD)
  then have "v \<noteq> []" by (cases st) auto
  moreover have "is_state_value (Some v)" using assms(2)
    using v by (auto simp: is_state_value_iff)
  ultimately show ?thesis using assms
    by (auto simp: load_context_def initial_state_def new_context_def split: option.splits)
qed

lemma load_context_reload:
  assumes "sessions' (session_id request) = Some c"
    and "current_state c = current_state (load_context sessions request)"
  shows "load_context sessions' request = c"
proof (cases "req_current_state request")
  case None
  with assms(1) show ?thesis by (simp add: load_context_def)
next
  case (Some v)
  show ?thesis
  proof (cases "state_of_value v")
    case None
    with Some assms(1) show ?thesis by (simp add: load_context_def)
  next
    case (Some st)
    with \<open>req_current_state request = Some v\<close> have "current_state c = st"
      using assms(2) load_context_hint_state by metis
    with Some \<open>req_current_state request = Some v\<close> assms(1) show ?thesis
      by (simp add: load_context_def)
  qed
qed

subsection \<open>Properties of a turn\<close>

text \<open>C1: Selecting a configured city (case-insensitively) from CITY_SELECTION stores the capitalised city and moves to RESTAURANT_SELECTION, but the reply is always the "no locations found" apology with the city list, never the outlet list: the capitalised city is not a key of CITIES.\<close>

lemma chat_city_selected:
  assumes "current_state (load_context sessions request) = CITY_SELECTION"
    and "py_lower (message request) \<in> set city_keys"
  shows "chat kb sessions request =
    (sessions(session_id request \<mapsto> (load_context sessions request)
        \<lparr>city := Some (py_capitalize (py_lower (message request))),
         current_state := RESTAURANT_SELECTION\<rparr>),
     Inr \<lparr>response = ''Sorry, no locations found for '' @ py_capitalize (py_lower (message request)) @
                     ''. Please select another city.'',
          state = ''restaurant_selection'', options = Some [(''cities'', [''delhi'', ''bangalore''])]\<rparr>)"
  using assms cities_get_capitalized [OF assms(2)]
  by (simp add: chat_eq process_message_def phase1_def render_def cities_options_def)

lemma chat_city_selected_witness:
  "current_state (load_context [''s'' \<mapsto> new_context CITY_SELECTION]
      \<lparr>message = ''Delhi'', session_id = ''s'', req_current_state = None\<rparr>) = CITY_SELECTION \<and>
   py_lower ''Delhi'' \<in> set city_keys \<and>
   snd (chat [] [''s'' \<mapsto> new_context CITY_SELECTION]
      \<lparr>message = ''Delhi'', session_id = ''s'', req_current_state = None\<rparr>) =
   Inr \<lparr>response = ''Sorry, no locations found for Delhi. Please select another city.'',
        state = ''restaurant_selection'', options = Some [(''cities'', [''delhi'', ''bangalore''])]\<rparr>"
proof -
  let ?s = "[''s'' \<mapsto> new_context CITY_SELECTION]"
  let ?r = "\<lparr>message = ''Delhi'', session_id = ''s'', req_current_state = None\<rparr>"
  have h1: "current_state (load_context ?s ?r) = CITY_SELECTION"
    by (simp add: load_context_def new_context_def)
  have low: "py_lower ''Delhi'' = ''delhi''" by code_simp
  have h2: "py_lower (message ?r) \<in> set city_keys" by code_simp
  from chat_city_selected [OF h1 h2, of "[]"] h1 h2 show ?thesis by (simp add: low)
qed

text \<open>C2: An input that is not a configured city leaves the session context unchanged in CITY_SELECTION and re-issues the prompt with the full city list in the options.\<close>

lemma chat_unrecognized_city:
  assumes "current_state (load_context sessions request) = CITY_SELECTION"
    and "py_lower (message request) \<notin> set city_keys"
  shows "chat kb sessions request =
    (sessions(session_id request \<mapsto> load_context sessions request),
     Inr \<lparr>response = ''Sorry, I don't recognize that city. Please select a city from the options.'',
          state = ''city_selection'', options = Some [(''cities'', [''delhi'', ''bangalore''])]\<rparr>)"
  using assms by (simp add: chat_eq process_message_def phase1_def cities_options_def)

lemma chat_unrecognized_city_witness:
  "current_state (load_context [''s'' \<mapsto> new_context CITY_SELECTION]
      \<lparr>message = ''Paris'', session_id = ''s'', req_current_state = None\<rparr>) = CITY_SELECTION \<and>
   py_lower ''Paris'' \<notin> set city_keys \<and>
   snd (chat [] [''s'' \<mapsto> new_context CITY_SELECTION]
      \<lparr>message = ''Paris'', session_id = ''s'', req_current_state = None\<rparr>) =
   Inr \<lparr>response = ''Sorry, I don't recognize that city. Please select a city from the options.'',
        state = ''city_selection'', options = Some [(''cities'', [''delhi'', ''bangalore''])]\<rparr>"
proof -
  let ?s = "[''s'' \<mapsto> new_context CITY_SELECTION]"
  let ?r = "\<lparr>message = ''Paris'', session_id = ''s'', req_current_state = None\<rparr>"
  have h1: "current_state (load_context ?s ?r) = CITY_SELECTION"
    by (simp add: load_context_def new_context_def)
  have h2: "py_lower (message ?r) \<notin> set city_keys" by code_simp
  from chat_unrecognized_city [OF h1 h2, of "[]"] h1 h2 show ?thesis by simp
qed

text \<open>C3: From RESTAURANT_SELECTION an input containing "menu" that is not an outlet name sets the restaurant key from the city, the query type Menu and the state QUERY_TYPE, and replies with the joined menu lines of that key or the menu-not-found apology.\<close>

lemma chat_menu_selected:
  assumes "current_state (load_context sessions request) = RESTAURANT_SELECTION"
    and "py_lower (message request) \<notin> set (map py_lower (cities_get (city (load_context sessions request))))"
    and "py_in ''menu'' (py_lower (message request))"
  shows "chat kb sessions request =
    (let c = load_context sessions request; key = restaurant_key (city c);
         items = get_menu kb (Some key)
     in (sessions(session_id request \<mapsto>
           c\<lparr>restaurant := Some key, query_type := Some ''Menu'', current_state := QUERY_TYPE\<rparr>),
         Inr \<lparr>response = (if items \<noteq> [] then ''Here is the menu for '' @ key @ '':'' @ nl @ py_join nl items
                          else ''Sorry, I couldn't find the menu for '' @ key @ ''.''),
              state = ''query_type'', options = None\<rparr>))"
  using assms
  by (simp add: chat_eq process_message_def phase1_def restaurant_selection_input_def render_def
      render_query_type_def Let_def)

lemma chat_menu_selected_witness:
  "current_state (load_context [''s'' \<mapsto> (new_context RESTAURANT_SELECTION)\<lparr>city := Some ''Delhi''\<rparr>]
      \<lparr>message = ''Menu'', session_id = ''s'', req_current_state = None\<rparr>) = RESTAURANT_SELECTION \<and>
   snd (chat [] [''s'' \<mapsto> (new_context RESTAURANT_SELECTION)\<lparr>city := Some ''Delhi''\<rparr>]
      \<lparr>message = ''Menu'', session_id = ''s'', req_current_state = None\<rparr>) =
   Inr \<lparr>response = ''Sorry, I couldn't find the menu for Barbeque Nation - Delhi.'',
        state = ''query_type'', options = None\<rparr>"
proof -
  let ?s = "[''s'' \<mapsto> (new_context RESTAURANT_SELECTION)\<lparr>city := Some ''Delhi''\<rparr>]"
  let ?r = "\<lparr>message = ''Menu'', session_id = ''s'', req_current_state = None\<rparr>"
  have ld: "load_context ?s ?r = (new_context RESTAURANT_SELECTION)\<lparr>city := Some ''Delhi''\<rparr>"
    by (simp add: load_context_def)
  have h1: "current_state (load_context ?s ?r) = RESTAURANT_SELECTION"
    unfolding ld by simp
  have low: "py_lower ''Menu'' = ''menu''" by code_simp
  have h2: "py_lower (message ?r) \<notin> set (map py_lower (cities_get (city (load_context ?s ?r))))"
    by (simp add: ld cities_get_def CITIES_def)
  have h3: "py_in ''menu'' (py_lower (message ?r))" by (simp add: low)
  from chat_menu_selected [OF h1 h2 h3, of "[]"] h1 show ?thesis
    by (simp add: ld get_menu_def dict_get_def restaurant_key_def Let_def)
qed

text \<open>C7: The state string returned to the client always names a member of ConversationState, and it is the state stored for the session after the turn.\<close>

lemma state_reported_is_stored:
  assumes "chat kb sessions request = (sessions', Inr resp)"
  shows "\<exists>context. sessions' (session_id request) = Some context \<and>
           state_of_value (state resp) = Some (current_state context)"
  using assms process_message_state
  by (fastforce simp: chat_eq split: prod.splits)

lemma state_reported_is_stored_witness:
  "chat [] Map.empty \<lparr>message = ''hi'', session_id = ''s'', req_current_state = None\<rparr> =
     ([''s'' \<mapsto> new_context CITY_SELECTION],
      Inr \<lparr>response = ''Please select a city (Delhi or Bangalore):'', state = ''city_selection'',
           options = Some [(''cities'', [''delhi'', ''bangalore''])]\<rparr>) \<and>
   state_of_value ''city_selection'' = Some CITY_SELECTION"
proof -
  have c: "chat [] Map.empty \<lparr>message = ''hi'', session_id = ''s'', req_current_state = None\<rparr> =
     ([''s'' \<mapsto> new_context CITY_SELECTION],
      Inr \<lparr>response = ''Please select a city (Delhi or Bangalore):'', state = ''city_selection'',
           options = Some [(''cities'', [''delhi'', ''bangalore''])]\<rparr>)"
    by (simp add: chat_eq load_context_def initial_state_def is_state_value_def process_message_def
        phase1_def render_def new_context_def cities_options_def)
  from state_reported_is_stored [OF c] c show ?thesis by auto
qed

text \<open>C8: When the body of a turn raises, the handler deletes the session and answers HTTP 500, so the next turn for that session identifier starts from a fresh context in the hinted or initial state.\<close>

lemma chat_handler_fault_resets:
  assumes "body (load_context sessions request) (message request) = Inl e"
    and "session_id request' = session_id request"
  shows "fst (chat_handler body sessions request) (session_id request) = None \<and>
         snd (chat_handler body sessions request) = Inl (HTTPException 500 chat_error_detail) \<and>
         load_context (fst (chat_handler body sessions request)) request' =
           new_context (initial_state (req_current_state request'))"
  using assms by (simp add: chat_handler_def load_context_def)

lemma chat_handler_fault_resets_witness:
  "(\<lambda>_ _. Inl ''KeyError'') (load_context [''s'' \<mapsto> new_context QUERY_TYPE]
      \<lparr>message = ''menu'', session_id = ''s'', req_current_state = None\<rparr>) ''menu''
     = (Inl ''KeyError'' :: string + state_context \<times> chat_response) \<and>
   load_context (fst (chat_handler (\<lambda>_ _. Inl ''KeyError'') [''s'' \<mapsto> new_context QUERY_TYPE]
      \<lparr>message = ''menu'', session_id = ''s'', req_current_state = None\<rparr>))
      \<lparr>message = ''hi'', session_id = ''s'', req_current_state = None\<rparr> = new_context INITIAL_GREETING"
proof -
  let ?r = "\<lparr>message = ''menu'', session_id = ''s'', req_current_state = None\<rparr>"
  let ?r' = "\<lparr>message = ''hi'', session_id = ''s'', req_current_state = None\<rparr>"
  have "load_context (fst (chat_handler (\<lambda>_ _. Inl ''KeyError'') [''s'' \<mapsto> new_context QUERY_TYPE] ?r)) ?r'
        = new_context (initial_state (req_current_state ?r'))"
    using chat_handler_fault_resets [of "\<lambda>_ _. Inl ''KeyError''" "[''s'' \<mapsto> new_context QUERY_TYPE]" ?r
        "''KeyError''" ?r'] by simp
  then show ?thesis by (simp add: initial_state_def is_state_value_def)
qed

text \<open>The chat endpoint returns a reply for every session store and every request: its body never raises, so the HTTP 500 path is never taken.\<close>

lemma chat_never_raises: "\<exists>sessions' resp. chat kb sessions request = (sessions', Inr resp)"
  by (simp add: chat_eq split: prod.splits)

text \<open>C9: Re-sending a request whose turn left the session in the state it started from yields the same reply and leaves the session store unchanged.\<close>

lemma chat_resend_fixpoint:
  assumes "chat kb sessions request = (sessions', Inr resp)"
    and "sessions' (session_id request) = Some context'"
    and "current_state context' = current_state (load_context sessions request)"
  shows "chat kb sessions' request = (sessions', Inr resp)"
proof -
  let ?c = "load_context sessions request"
  obtain c' r where pm: "process_message kb ?c (message request) = (c', r)"
    by (cases "process_message kb ?c (message request)")
  with assms(1) have s': "sessions' = sessions(session_id request \<mapsto> c')" and "resp = r"
    by (simp_all add: chat_eq)
  with assms(2) have "context' = c'" by simp
  with pm assms(3) have "c' = ?c" by (simp add: process_message_same_state)
  have "load_context sessions' request = context'"
    using assms(2,3) by (rule load_context_reload)
  with \<open>context' = c'\<close> \<open>c' = ?c\<close> pm s' \<open>resp = r\<close> show ?thesis
    by (simp add: chat_eq)
qed

lemma chat_resend_fixpoint_witness:
  "chat [] [''s'' \<mapsto> new_context CITY_SELECTION]
      \<lparr>message = ''Paris'', session_id = ''s'', req_current_state = None\<rparr> =
     ([''s'' \<mapsto> new_context CITY_SELECTION],
      Inr \<lparr>response = ''Sorry, I don't recognize that city. Please select a city from the options.'',
        state = ''city_selection'', options = Some [(''cities'', [''delhi'', ''bangalore''])]\<rparr>) \<and>
   chat [] [''s'' \<mapsto> new_context CITY_SELECTION]
      \<lparr>message = ''Paris'', session_id = ''s'', req_current_state = None\<rparr> =
   chat [] (fst (chat [] [''s'' \<mapsto> new_context CITY_SELECTION]
      \<lparr>message = ''Paris'', session_id = ''s'', req_current_state = None\<rparr>))
      \<lparr>message = ''Paris'', session_id = ''s'', req_current_state = None\<rparr>"
proof -
  let ?s = "[''s'' \<mapsto> new_context CITY_SELECTION]"
  let ?r = "\<lparr>message = ''Paris'', session_id = ''s'', req_current_state = None\<rparr>"
  let ?resp = "\<lparr>response = ''Sorry, I don't recognize that city. Please select a city from the options.'',
        state = ''city_selection'', options = Some [(''cities'', [''delhi'', ''bangalore''])]\<rparr>"
  have ld: "load_context ?s ?r = new_context CITY_SELECTION" by (simp add: load_context_def)
  have h1: "current_state (load_context ?s ?r) = CITY_SELECTION" by (simp add: ld)
  have h2: "py_lower (message ?r) \<notin> set city_keys" by code_simp
  have c: "chat [] ?s ?r = (?s, Inr ?resp)"
    using h1 h2 by (simp add: chat_eq ld process_message_def phase1_def cities_options_def)
  have s3: "?s (session_id ?r) = Some (new_context CITY_SELECTION)" by simp
  have st: "current_state (new_context CITY_SELECTION) = current_state (load_context ?s ?r)"
    by (simp add: ld)
  from chat_resend_fixpoint [OF c s3 st] c show ?thesis by simp
qed

text \<open>C10: In BOOKING_COLLECTION every message, booking details included, leaves the context unchanged and repeats the booking prompt: no input leads to BOOKING_CONFIRMATION.\<close>

lemma chat_booking_collection_stuck:
  assumes "current_state (load_context sessions request) = BOOKING_COLLECTION"
  shows "chat kb sessions request =
    (sessions(session_id request \<mapsto> load_context sessions request),
     Inr \<lparr>response = ''Please provide your booking details (name, date, time, guests)'',
          state = ''booking_collection'',
          options = Some [(''booking_fields'', [''name'', ''date'', ''time'', ''guests''])]\<rparr>)"
  using assms by (simp add: chat_eq process_message_def phase1_def render_def)

lemma chat_booking_collection_stuck_witness:
  "current_state (load_context [''s'' \<mapsto> new_context BOOKING_COLLECTION]
      \<lparr>message = ''Ravi, 2024-06-01, 19:30, 4 guests'', session_id = ''s'', req_current_state = None\<rparr>)
     = BOOKING_COLLECTION \<and>
   fst (chat [] [''s'' \<mapsto> new_context BOOKING_COLLECTION]
      \<lparr>message = ''Ravi, 2024-06-01, 19:30, 4 guests'', session_id = ''s'', req_current_state = None\<rparr>)
     ''s'' = Some (new_context BOOKING_COLLECTION)"
proof -
  let ?s = "[''s'' \<mapsto> new_context BOOKING_COLLECTION]"
  let ?r = "\<lparr>message = ''Ravi, 2024-06-01, 19:30, 4 guests'', session_id = ''s'', req_current_state = None\<rparr>"
  have h: "current_state (load_context ?s ?r) = BOOKING_COLLECTION"
    by (simp add: load_context_def new_context_def)
  from chat_booking_collection_stuck [OF h, of "[]"] h show ?thesis
    by (simp add: load_context_def)
qed

end
