(* ===== verification/Dialogue.thy ===== *)
theory Dialogue
  imports Chatbot
begin

text \<open>
  The conversation as a state machine over the whole session store: a step is one
  call of the \<open>/chat\<close> endpoint with any request the admission predicate
  allows, starting from the empty store the module creates.  The chatbot's own
  \<open>KnowledgeBase\<close> instance is loaded once at import and never reloaded (the
  upload endpoint reloads a different instance), so the store \<open>kb\<close> is a fixed
  parameter.  Two admission predicates matter: any request, and requests without a
  \<open>current_state\<close> hint (a client that never overrides the server's state).
\<close>

inductive reachable :: "(chat_request \<Rightarrow> bool) \<Rightarrow> kb \<Rightarrow> sessions \<Rightarrow> bool"
  for allowed :: "chat_request \<Rightarrow> bool" and kb :: kb where
  start: "reachable allowed kb Map.empty"
| turn: "reachable allowed kb s \<Longrightarrow> allowed request \<Longrightarrow> reachable allowed kb (fst (chat kb s request))"

definition any_request :: "chat_request \<Rightarrow> bool" where
  "any_request request = True"

definition hint_free :: "chat_request \<Rightarrow> bool" where
  "hint_free request \<longleftrightarrow> req_current_state request = None"

text \<open>What every stored context satisfies: the city is unset or one of the two
  capitalised configuration keys; the query type is one the engine writes, never the
  outlet-selection marker; a menu or FAQ query has a restaurant key; no booking
  details are ever stored.\<close>
definition ctx_inv :: "state_context \<Rightarrow> bool" where
  "ctx_inv c \<longleftrightarrow>
     city c \<in> {None, Some ''Delhi'', Some ''Bangalore''} \<and>
     query_type c \<in> {None, Some ''Menu'', Some ''FAQs'', Some ''Booking''} \<and>
     (query_type c \<in> {Some ''Menu'', Some ''FAQs''} \<longrightarrow> restaurant c \<noteq> None) \<and>
     booking_details c = None"

definition store_inv :: "sessions \<Rightarrow> bool" where
  "store_inv s \<longleftrightarrow> (\<forall>k c. s k = Some c \<longrightarrow> ctx_inv c)"

text \<open>Without hints a stored session is never in the greeting, FAQ-handling,
  confirmation or farewell state.\<close>
definition hint_free_state :: "conversation_state \<Rightarrow> bool" where
  "hint_free_state st \<longleftrightarrow> st \<in> {CITY_SELECTION, RESTAURANT_SELECTION, QUERY_TYPE, BOOKING_COLLECTION}"

text \<open>The abstract transition graph of the engine: the states a turn may move a
  session to from each state.\<close>
fun successors :: "conversation_state \<Rightarrow> conversation_state list" where
  "successors INITIAL_GREETING = [CITY_SELECTION]"
| "successors CITY_SELECTION = [CITY_SELECTION, RESTAURANT_SELECTION]"
| "successors RESTAURANT_SELECTION = [RESTAURANT_SELECTION, QUERY_TYPE, BOOKING_COLLECTION]"
| "successors st = [st]"

subsection \<open>Preservation\<close>

lemma ctx_inv_new_context: "ctx_inv (new_context st)"
  by (simp add: ctx_inv_def)

lemma ctx_inv_state_update [simp]: "ctx_inv (c\<lparr>current_state := st\<rparr>) = ctx_inv c"
  by (simp add: ctx_inv_def)

lemma load_context_inv: "store_inv s \<Longrightarrow> ctx_inv (load_context s request)"
  by (auto simp: store_inv_def load_context_def ctx_inv_new_context split: option.splits)

lemma cities_get_inv:
  "city c \<in> {None, Some ''Delhi'', Some ''Bangalore''} \<Longrightarrow> cities_get (city c) = []"
  by (auto simp: cities_get_def CITIES_def)

lemma city_keys_capitalize:
  "x \<in> set city_keys \<Longrightarrow> py_capitalize x \<in> {''Delhi'', ''Bangalore''}"
  by auto

lemma phase1_city_selection_Proceed:
  assumes "current_state c = CITY_SELECTION" and "phase1 c user_input = Proceed c' st r opts"
  shows "c' = c\<lparr>city := Some (py_capitalize user_input)\<rparr> \<and> user_input \<in> set city_keys"
  using assms by (simp add: phase1_def Let_def split: if_splits)
lemma phase1_restaurant_Proceed:
  assumes "current_state c = RESTAURANT_SELECTION" and "cities_get (city c) = []"
    and "phase1 c user_input = Proceed c' st r opts"
  shows "c' = c\<lparr>restaurant := Some (restaurant_key (city c)), query_type := Some ''Menu''\<rparr> \<or>
         c' = c\<lparr>query_type := Some ''Booking''\<rparr> \<or>
         c' = c\<lparr>restaurant := Some (restaurant_key (city c)), query_type := Some ''FAQs''\<rparr>"
  using assms by (simp add: phase1_def restaurant_selection_input_def Let_def split: if_splits)
lemma phase1_Proceed_inv:
  assumes "ctx_inv c" and "phase1 c user_input = Proceed c' st r opts"
  shows "ctx_inv c'"
proof (cases "current_state c")
  case CITY_SELECTION
  from CITY_SELECTION assms(2)
  have "c' = c\<lparr>city := Some (py_capitalize user_input)\<rparr> \<and> user_input \<in> set city_keys"
    by (rule phase1_city_selection_Proceed)
  moreover have "py_capitalize user_input \<in> {''Delhi'', ''Bangalore''}"
    using calculation by (simp only: city_keys_capitalize)
  ultimately show ?thesis using assms(1) by (simp add: ctx_inv_def)
next
  case RESTAURANT_SELECTION
  have "cities_get (city c) = []" using assms(1) by (simp add: ctx_inv_def cities_get_inv)
  from RESTAURANT_SELECTION this assms(2) have
    "c' = c\<lparr>restaurant := Some (restaurant_key (city c)), query_type := Some ''Menu''\<rparr> \<or>
     c' = c\<lparr>query_type := Some ''Booking''\<rparr> \<or>
     c' = c\<lparr>restaurant := Some (restaurant_key (city c)), query_type := Some ''FAQs''\<rparr>"
    by (rule phase1_restaurant_Proceed)
  with assms(1) show ?thesis by (elim disjE) (simp_all add: ctx_inv_def)
qed (use assms in \<open>simp_all add: phase1_def\<close>)
lemma phase1_other_Proceed:
  assumes "current_state c \<notin> {CITY_SELECTION, RESTAURANT_SELECTION}"
    and "phase1 c user_input = Proceed c' st r opts"
  shows "c' = c"
  using assms by (cases "current_state c") (simp_all add: phase1_def)
lemma phase1_Early_inv:
  assumes "ctx_inv c" and "phase1 c user_input = Early c' r"
  shows "ctx_inv c'"
  using assms
  by (cases "current_state c")
    (auto simp: phase1_def restaurant_selection_input_def Let_def split: if_splits)

lemma process_message_inv:
  assumes "ctx_inv c" and "process_message kb c msg = (c', resp)"
  shows "ctx_inv c'"
proof (cases "phase1 c (py_lower msg)")
  case (Early c'' r)
  with assms show ?thesis by (simp add: process_message_def phase1_Early_inv)
next
  case (Proceed c'' st r opts)
  with assms(2) have "c' = c''\<lparr>current_state := st\<rparr>"
    by (simp add: process_message_def Let_def split: prod.splits)
  with Proceed assms(1) show ?thesis by (simp add: phase1_Proceed_inv)
qed

lemma chat_store_inv:
  assumes "store_inv s"
  shows "store_inv (fst (chat kb s request))"
proof -
  obtain c' r where pm: "process_message kb (load_context s request) (message request) = (c', r)"
    by (cases "process_message kb (load_context s request) (message request)")
  have "ctx_inv c'" by (rule process_message_inv [OF load_context_inv [OF assms] pm])
  with assms pm show ?thesis by (simp add: chat_eq store_inv_def)
qed

lemma reachable_store_inv: "reachable allowed kb s \<Longrightarrow> store_inv s"
proof (induction rule: reachable.induct)
  case start
  show ?case by (simp add: store_inv_def)
next
  case (turn s request)
  from turn.IH show ?case by (rule chat_store_inv)
qed

lemma phase1_Early_state:
  "phase1 c user_input = Early c' r \<Longrightarrow>
   current_state c' = current_state c \<and> current_state c \<in> {CITY_SELECTION, RESTAURANT_SELECTION}"
  by (cases "current_state c")
    (auto simp: phase1_def restaurant_selection_input_def Let_def split: if_splits)

lemma phase1_Proceed_state:
  "phase1 c user_input = Proceed c' st r opts \<Longrightarrow> st \<in> set (successors (current_state c))"
  by (cases "current_state c")
    (auto simp: phase1_def restaurant_selection_input_def Let_def split: if_splits)

lemma process_message_successor:
  assumes "process_message kb c msg = (c', resp)"
  shows "current_state c' \<in> set (successors (current_state c))"
proof (cases "phase1 c (py_lower msg)")
  case (Early c'' r)
  with assms have "c' = c''" by (simp add: process_message_def)
  with Early phase1_Early_state [OF Early] show ?thesis by (cases "current_state c") simp_all
next
  case (Proceed c'' st r opts)
  with assms have "c' = c''\<lparr>current_state := st\<rparr>"
    by (simp add: process_message_def Let_def split: prod.splits)
  with Proceed show ?thesis by (simp add: phase1_Proceed_state)
qed
lemma hint_free_successors:
  "st \<in> {INITIAL_GREETING, CITY_SELECTION, RESTAURANT_SELECTION, QUERY_TYPE, BOOKING_COLLECTION} \<Longrightarrow>
   st' \<in> set (successors st) \<Longrightarrow> hint_free_state st'"
  by (auto simp: hint_free_state_def)

lemma chat_hint_free_store:
  assumes "\<forall>k c. s k = Some c \<longrightarrow> hint_free_state (current_state c)" and "hint_free request"
  shows "\<forall>k c. fst (chat kb s request) k = Some c \<longrightarrow> hint_free_state (current_state c)"
proof -
  have ld: "current_state (load_context s request) \<in> {INITIAL_GREETING, CITY_SELECTION,
      RESTAURANT_SELECTION, QUERY_TYPE, BOOKING_COLLECTION}"
    using assms by (auto simp: load_context_hint_None hint_free_def hint_free_state_def split: option.splits)
  obtain c' r where pm: "process_message kb (load_context s request) (message request) = (c', r)"
    by (cases "process_message kb (load_context s request) (message request)")
  have "hint_free_state (current_state c')"
    by (rule hint_free_successors [OF ld process_message_successor [OF pm]])
  with assms(1) pm show ?thesis by (simp add: chat_eq)
qed

subsection \<open>Properties of every reachable session store\<close>

text \<open>C4: In every reachable session store, a session whose query type is Menu or FAQs
  has a restaurant key set (the outlet invariant of the data model).\<close>

lemma reachable_query_has_restaurant:
  assumes "reachable allowed kb s" and "s k = Some c" and "query_type c \<in> {Some ''Menu'', Some ''FAQs''}"
  shows "restaurant c \<noteq> None"
proof -
  have "ctx_inv c" using reachable_store_inv [OF assms(1)] assms(2) by (simp add: store_inv_def)
  with assms(3) show ?thesis by (auto simp: ctx_inv_def)
qed

lemma reachable_query_has_restaurant_witness:
  "reachable any_request [] (fst (chat [] Map.empty
      \<lparr>message = ''menu'', session_id = ''s'', req_current_state = Some ''restaurant_selection''\<rparr>)) \<and>
   fst (chat [] Map.empty
      \<lparr>message = ''menu'', session_id = ''s'', req_current_state = Some ''restaurant_selection''\<rparr>) ''s'' =
     Some \<lparr>current_state = QUERY_TYPE, city = None, restaurant = Some ''Barbeque Nation - None'',
           query_type = Some ''Menu'', booking_details = None\<rparr> \<and>
   Some ''Barbeque Nation - None'' \<noteq> None"
proof -
  let ?r = "\<lparr>message = ''menu'', session_id = ''s'', req_current_state = Some ''restaurant_selection''\<rparr>"
  let ?c = "\<lparr>current_state = QUERY_TYPE, city = None, restaurant = Some ''Barbeque Nation - None'',
           query_type = Some ''Menu'', booking_details = None\<rparr>"
  have r: "reachable any_request [] (fst (chat [] Map.empty ?r))"
    by (rule reachable.turn [OF reachable.start]) (simp add: any_request_def)
  have c: "fst (chat [] Map.empty ?r) ''s'' = Some ?c"
    by code_simp
  have "query_type ?c \<in> {Some ''Menu'', Some ''FAQs''}" by simp
  from reachable_query_has_restaurant [OF r c this] r c show ?thesis by simp
qed

text \<open>C5: In every reachable session store the outlet list of a session's city is empty
  (the city is stored capitalised, the configuration keys are lower case), so the
  outlet-name branch of RESTAURANT_SELECTION never matches and the query type
  Location_Info is never stored.\<close>

lemma location_info_unreachable:
  assumes "reachable allowed kb s" and "s k = Some c"
  shows "cities_get (city c) = [] \<and> query_type c \<noteq> Some ''Location_Info''"
proof -
  have "ctx_inv c" using reachable_store_inv [OF assms(1)] assms(2) by (simp add: store_inv_def)
  then show ?thesis using cities_get_inv [of c] by (auto simp: ctx_inv_def)
qed

lemma location_info_unreachable_witness:
  "reachable any_request [] (fst (chat [] Map.empty
      \<lparr>message = ''delhi'', session_id = ''s'', req_current_state = Some ''city_selection''\<rparr>)) \<and>
   fst (chat [] Map.empty
      \<lparr>message = ''delhi'', session_id = ''s'', req_current_state = Some ''city_selection''\<rparr>) ''s'' =
     Some \<lparr>current_state = RESTAURANT_SELECTION, city = Some ''Delhi'', restaurant = None,
           query_type = None, booking_details = None\<rparr> \<and>
   cities_get (Some ''Delhi'') = []"
proof -
  let ?r = "\<lparr>message = ''delhi'', session_id = ''s'', req_current_state = Some ''city_selection''\<rparr>"
  let ?c = "\<lparr>current_state = RESTAURANT_SELECTION, city = Some ''Delhi'', restaurant = None,
           query_type = None, booking_details = None\<rparr>"
  have r: "reachable any_request [] (fst (chat [] Map.empty ?r))"
    by (rule reachable.turn [OF reachable.start]) (simp add: any_request_def)
  have c: "fst (chat [] Map.empty ?r) ''s'' = Some ?c"
    by code_simp
  from location_info_unreachable [OF r c] r c show ?thesis by simp
qed

text \<open>C6: If no request carries a state hint, no stored session is ever in
  INITIAL_GREETING, FAQ_HANDLING, BOOKING_CONFIRMATION or FAREWELL: the confirmation and
  farewell steps of a booking are unreachable.\<close>

lemma hint_free_states:
  assumes "reachable hint_free kb s" and "s k = Some c"
  shows "hint_free_state (current_state c)"
proof -
  from assms(1) have "\<forall>k c. s k = Some c \<longrightarrow> hint_free_state (current_state c)"
  proof (induction rule: reachable.induct)
    case start
    show ?case by simp
  next
    case (turn s request)
    from turn.IH turn.hyps(2) show ?case by (rule chat_hint_free_store)
  qed
  with assms(2) show ?thesis by blast
qed

lemma hint_free_states_witness:
  "reachable hint_free [] (fst (chat [] Map.empty
      \<lparr>message = ''hi'', session_id = ''s'', req_current_state = None\<rparr>)) \<and>
   fst (chat [] Map.empty \<lparr>message = ''hi'', session_id = ''s'', req_current_state = None\<rparr>) ''s'' =
     Some (new_context CITY_SELECTION) \<and>
   hint_free_state CITY_SELECTION"
proof -
  let ?r = "\<lparr>message = ''hi'', session_id = ''s'', req_current_state = None\<rparr>"
  have r: "reachable hint_free [] (fst (chat [] Map.empty ?r))"
    by (rule reachable.turn [OF reachable.start]) (simp add: hint_free_def)
  have c: "fst (chat [] Map.empty ?r) ''s'' = Some (new_context CITY_SELECTION)"
    by code_simp
  from hint_free_states [OF r c] r c show ?thesis by simp
qed

text \<open>A session can reach QUERY_TYPE with no city and the restaurant key
  "Barbeque Nation - None": a new session hinted into RESTAURANT_SELECTION that asks for
  the menu.  The data model's invariant that the city is set in every state but the
  greeting does not hold of the code.\<close>

theorem city_unset_reachable:
  "\<exists>s c. reachable any_request [] s \<and> s ''s'' = Some c \<and> current_state c = QUERY_TYPE \<and>
     city c = None \<and> restaurant c = Some ''Barbeque Nation - None''"
proof -
  let ?r = "\<lparr>message = ''Menu'', session_id = ''s'', req_current_state = Some ''restaurant_selection''\<rparr>"
  have r: "reachable any_request [] (fst (chat [] Map.empty ?r))"
    by (rule reachable.turn [OF reachable.start]) (simp add: any_request_def)
  have c: "fst (chat [] Map.empty ?r) ''s'' =
     Some \<lparr>current_state = QUERY_TYPE, city = None, restaurant = Some ''Barbeque Nation - None'',
           query_type = Some ''Menu'', booking_details = None\<rparr>"
    by code_simp
  from r c show ?thesis by fastforce
qed

text \<open>C11: Every turn moves the session along the abstract transition graph
  \<open>successors\<close> from the state it was loaded in: the greeting always advances to
  city selection, city and outlet selection either stay or advance, and every later
  state is a fixed point of the engine.\<close>

lemma chat_follows_graph:
  assumes "chat kb s request = (s', Inr resp)" and "s' (session_id request) = Some c'"
  shows "current_state c' \<in> set (successors (current_state (load_context s request)))"
proof -
  obtain c'' r where pm: "process_message kb (load_context s request) (message request) = (c'', r)"
    by (cases "process_message kb (load_context s request) (message request)")
  with assms(1) have "s' = s(session_id request \<mapsto> c'')" by (simp add: chat_eq)
  with assms(2) have "c' = c''" by simp
  with process_message_successor [OF pm] show ?thesis by simp
qed

lemma chat_follows_graph_witness:
  "chat [] [''s'' \<mapsto> new_context CITY_SELECTION]
      \<lparr>message = ''Bangalore'', session_id = ''s'', req_current_state = None\<rparr> =
     ([''s'' \<mapsto> (new_context RESTAURANT_SELECTION)\<lparr>city := Some ''Bangalore''\<rparr>],
      Inr \<lparr>response = ''Sorry, no locations found for Bangalore. Please select another city.'',
           state = ''restaurant_selection'', options = Some [(''cities'', [''delhi'', ''bangalore''])]\<rparr>) \<and>
   RESTAURANT_SELECTION \<in> set (successors CITY_SELECTION)"
proof -
  let ?s = "[''s'' \<mapsto> new_context CITY_SELECTION]"
  let ?r = "\<lparr>message = ''Bangalore'', session_id = ''s'', req_current_state = None\<rparr>"
  let ?c = "(new_context RESTAURANT_SELECTION)\<lparr>city := Some ''Bangalore''\<rparr>"
  let ?resp = "\<lparr>response = ''Sorry, no locations found for Bangalore. Please select another city.'',
           state = ''restaurant_selection'', options = Some [(''cities'', [''delhi'', ''bangalore''])]\<rparr>"
  have low: "py_lower ''Bangalore'' = ''bangalore''" by code_simp
  have c: "chat [] ?s ?r = ([''s'' \<mapsto> ?c], Inr ?resp)"
    by (simp add: chat_eq load_context_def process_message_def phase1_def render_def low
        cities_get_def CITIES_def cities_options_def new_context_def)
  have "[''s'' \<mapsto> ?c] (session_id ?r) = Some ?c" by simp
  from chat_follows_graph [OF c this] c show ?thesis
    by (simp add: load_context_def)
qed

end
