(* ===== verification/Progress.thy ===== *)
theory Progress
  imports Dialogue
begin

text \<open>
  Multi-turn behaviour of the \<open>/chat\<close> endpoint (\<open>src/app/api/endpoints/chatbot.py\<close>):
  a session driven by a sequence of hint-free messages (\<open>send_messages\<close>, the
  requests a client sends one after the other with the same \<open>session_id\<close>) and the
  context one turn leaves (\<open>after\<close>).
\<close>

definition send_messages :: "kb \<Rightarrow> sessions \<Rightarrow> string \<Rightarrow> string list \<Rightarrow> sessions" where
  "send_messages kb s sid msgs =
     foldl (\<lambda>s m. fst (chat kb s \<lparr>message = m, session_id = sid, req_current_state = None\<rparr>)) s msgs"

definition after :: "kb \<Rightarrow> state_context \<Rightarrow> string \<Rightarrow> state_context" where
  "after kb c m = fst (process_message kb c m)"

subsection \<open>Lemmas\<close>

lemma py_lower_words [simp]:
  "py_lower ''hi'' = ''hi''" "py_lower ''delhi'' = ''delhi''" "py_lower ''menu'' = ''menu''"
  by code_simp+

lemma keywords_absent:
  "\<not> py_in ''menu'' ''hi''" "\<not> py_in ''book table'' ''hi''" "\<not> py_in ''booking'' ''hi''"
  "\<not> py_in ''faqs'' ''hi''" "\<not> py_in ''faq'' ''hi''"
  "\<not> py_in ''menu'' ''delhi''" "\<not> py_in ''book table'' ''delhi''" "\<not> py_in ''booking'' ''delhi''"
  "\<not> py_in ''faqs'' ''delhi''" "\<not> py_in ''faq'' ''delhi''"
  by code_simp+

lemma after_state:
  "current_state (after kb c m) =
     (case phase1 c (py_lower m) of Early c' _ \<Rightarrow> current_state c' | Proceed _ st _ _ \<Rightarrow> st)"
  by (simp add: after_def process_message_def Let_def split: phase1_result.splits prod.splits)

lemma after_hi:
  assumes "ctx_inv c" "current_state c \<in> {INITIAL_GREETING, CITY_SELECTION, RESTAURANT_SELECTION}"
  shows "current_state (after kb c ''hi'') \<in> {CITY_SELECTION, RESTAURANT_SELECTION}"
proof -
  have "cities_get (city c) = []" using assms(1) by (simp add: ctx_inv_def cities_get_inv)
  with assms(2) show ?thesis
    by (auto simp: after_state phase1_def restaurant_selection_input_def Let_def keywords_absent)
qed

lemma after_delhi:
  assumes "ctx_inv c" "current_state c \<in> {CITY_SELECTION, RESTAURANT_SELECTION}"
  shows "current_state (after kb c ''delhi'') = RESTAURANT_SELECTION"
proof -
  have "cities_get (city c) = []" using assms(1) by (simp add: ctx_inv_def cities_get_inv)
  with assms(2) show ?thesis
    by (auto simp: after_state phase1_def restaurant_selection_input_def Let_def keywords_absent)
qed

lemma after_menu:
  assumes "ctx_inv c" "current_state c = RESTAURANT_SELECTION"
  shows "current_state (after kb c ''menu'') = QUERY_TYPE \<and> query_type (after kb c ''menu'') = Some ''Menu''"
proof -
  have "cities_get (city c) = []" using assms(1) by (simp add: ctx_inv_def cities_get_inv)
  with assms(2) show ?thesis
    by (simp add: after_def process_message_def phase1_def restaurant_selection_input_def Let_def
        py_in_def case_prod_beta)
qed

lemma after_inv: "ctx_inv c \<Longrightarrow> ctx_inv (after kb c m)"
  by (cases "process_message kb c m") (auto simp: after_def intro: process_message_inv)

lemma chat_session_after:
  "fst (chat kb s \<lparr>message = m, session_id = sid, req_current_state = None\<rparr>) sid =
     Some (after kb (case s sid of None \<Rightarrow> new_context INITIAL_GREETING | Some c \<Rightarrow> c) m)"
  by (simp add: chat_eq load_context_hint_None after_def split: prod.splits)

lemma send_messages_Cons:
  "send_messages kb s sid (m # ms) =
     send_messages kb (fst (chat kb s \<lparr>message = m, session_id = sid, req_current_state = None\<rparr>)) sid ms"
  by (simp add: send_messages_def)

lemma send_messages_Nil [simp]: "send_messages kb s sid [] = s"
  by (simp add: send_messages_def)

subsection \<open>Properties\<close>

text \<open>C12: Liveness of the menu path: from any session store satisfying the store invariant, a session that is new or waiting in INITIAL_GREETING, CITY_SELECTION or RESTAURANT_SELECTION reaches QUERY_TYPE with query type Menu after the three messages "hi", "delhi", "menu".\<close>
lemma menu_reachable:
  assumes inv: "store_inv s"
    and st: "case s sid of None \<Rightarrow> True
             | Some c \<Rightarrow> current_state c \<in> {INITIAL_GREETING, CITY_SELECTION, RESTAURANT_SELECTION}"
  shows "\<exists>c. send_messages kb s sid [''hi'', ''delhi'', ''menu''] sid = Some c \<and>
           current_state c = QUERY_TYPE \<and> query_type c = Some ''Menu''"
proof -
  let ?r = "\<lambda>m. \<lparr>message = m, session_id = sid, req_current_state = None\<rparr>"
  define c0 where "c0 = (case s sid of None \<Rightarrow> new_context INITIAL_GREETING | Some c \<Rightarrow> c)"
  have i0: "ctx_inv c0" using inv by (auto simp: c0_def store_inv_def ctx_inv_new_context split: option.splits)
  have s0: "current_state c0 \<in> {INITIAL_GREETING, CITY_SELECTION, RESTAURANT_SELECTION}"
    using st by (auto simp: c0_def split: option.splits)
  define s1 where "s1 = fst (chat kb s (?r ''hi''))"
  define c1 where "c1 = after kb c0 ''hi''"
  have e1: "s1 sid = Some c1" by (simp add: s1_def c1_def c0_def chat_session_after)
  have i1: "ctx_inv c1" using i0 by (simp add: c1_def after_inv)
  have st1: "current_state c1 \<in> {CITY_SELECTION, RESTAURANT_SELECTION}"
    using after_hi [OF i0 s0] by (simp add: c1_def)
  define s2 where "s2 = fst (chat kb s1 (?r ''delhi''))"
  define c2 where "c2 = after kb c1 ''delhi''"
  have e2: "s2 sid = Some c2" by (simp add: s2_def c2_def e1 chat_session_after)
  have i2: "ctx_inv c2" using i1 by (simp add: c2_def after_inv)
  have st2: "current_state c2 = RESTAURANT_SELECTION"
    using after_delhi [OF i1 st1] by (simp add: c2_def)
  have e3: "fst (chat kb s2 (?r ''menu'')) sid = Some (after kb c2 ''menu'')"
    by (simp add: e2 chat_session_after)
  have "send_messages kb s sid [''hi'', ''delhi'', ''menu''] = fst (chat kb s2 (?r ''menu''))"
    by (simp add: send_messages_Cons s1_def s2_def)
  with e3 after_menu [OF i2 st2] show ?thesis by auto
qed

lemma menu_reachable_witness:
  "(\<exists>c. send_messages [] Map.empty ''s'' [''hi'', ''delhi'', ''menu''] ''s'' = Some c \<and>
      current_state c = QUERY_TYPE \<and> query_type c = Some ''Menu'')"
  using menu_reachable [of Map.empty "''s''" "[]"] by (simp add: store_inv_def)

end
