(* ===== verification/Endpoints.thy ===== *)
theory Endpoints
  imports Chatbot
begin

text \<open>
  The read endpoints of \<open>src/app/api/endpoints/chatbot.py\<close> and the router
  \<open>src/app/api/endpoints/knowledge_base.py\<close>.  Handlers call methods of a
  \<open>KnowledgeBase\<close> object by name; Python resolves the name at call time and raises
  \<open>AttributeError\<close> when the class does not define it, which FastAPI answers with a
  500.  The model resolves names against the attributes the class really has
  (\<open>knowledge_base_attributes\<close>, from \<open>src/app/services/knowledge_base.py\<close>).  A
  handler's error is an \<open>HTTPException\<close> it raises itself or an unhandled exception.

  The application state holds the two knowledge-base instances the modules create: the
  chatbot router's private \<open>kb = KnowledgeBase()\<close> and the module singleton
  \<open>knowledge_base\<close> the upload reloads, the directories of \<open>.docx\<close> files, and
  the chat sessions.
\<close>

datatype endpoint_error = HTTP_error nat string | Unhandled string

definition knowledge_base_attributes :: "string list" where
  "knowledge_base_attributes =
     [''kb_dir'', ''restaurants'', ''_load_knowledge_base'', ''_initialize_restaurant_data'',
      ''_extract_restaurant_key_from_filename'', ''_process_general_info'', ''_process_menu'',
      ''_process_faqs'', ''get_restaurant_info'', ''get_all_restaurants'',
      ''get_restaurants_by_city'', ''get_menu'', ''get_faqs'']"

text \<open>Attribute lookup on a \<open>KnowledgeBase\<close> instance.\<close>
definition kb_getattr :: "string \<Rightarrow> endpoint_error + unit" where
  "kb_getattr attr =
     (if attr \<in> set knowledge_base_attributes then Inr () else Inl (Unhandled ''AttributeError''))"

text \<open>\<open>self.kb_dir\<close>, the directory the loader globs.\<close>
definition kb_dir :: string where
  "kb_dir = ''data/Knowledge Base''"

type_synonym file_system = "string \<Rightarrow> kb_file list"

record app_state =
  chat_kb :: kb
  shared_kb :: kb
  files :: file_system
  chat_sessions :: sessions

subsection \<open>The chatbot router's read endpoints\<close>

definition get_restaurants :: "kb \<Rightarrow> string \<Rightarrow> endpoint_error + string list" where
  "get_restaurants kb c =
     (case kb_getattr ''get_restaurants_by_city'' of
        Inl e \<Rightarrow> Inl e
      | Inr _ \<Rightarrow>
          (let restaurants = get_restaurants_by_city kb c in
           if restaurants = [] then Inl (HTTP_error 404 (''No restaurants found in '' @ c))
           else Inr restaurants))"

text \<open>\<open>if not info\<close>: a stored restaurant is a non-empty dictionary, hence truthy.\<close>
definition chatbot_restaurant_info :: "kb \<Rightarrow> string \<Rightarrow> endpoint_error + restaurant_data" where
  "chatbot_restaurant_info kb restaurant_name =
     (case kb_getattr ''get_restaurant_info'' of
        Inl e \<Rightarrow> Inl e
      | Inr _ \<Rightarrow>
          (case get_restaurant_info kb restaurant_name of
             None \<Rightarrow> Inl (HTTP_error 404 (''Restaurant '' @ restaurant_name @ '' not found''))
           | Some info \<Rightarrow> Inr info))"

definition get_restaurant_menu :: "kb \<Rightarrow> string \<Rightarrow> endpoint_error + string list" where
  "get_restaurant_menu kb restaurant_name =
     (case kb_getattr ''get_menu'' of
        Inl e \<Rightarrow> Inl e
      | Inr _ \<Rightarrow>
          (let m = get_menu kb (Some restaurant_name) in
           if m = [] then Inl (HTTP_error 404 (''Menu not found for '' @ restaurant_name)) else Inr m))"

text \<open>The FAQ endpoint calls \<open>kb.search_faq\<close> when a non-empty query is given and
  \<open>kb.get_faq\<close> otherwise.  Neither is an attribute of the class, so nothing after the
  lookup can run; the success value \<open>()\<close> stands for that unreachable rest.\<close>
definition get_restaurant_faq :: "kb \<Rightarrow> string \<Rightarrow> string option \<Rightarrow> endpoint_error + unit" where
  "get_restaurant_faq kb restaurant_name query =
     (if query \<noteq> None \<and> query \<noteq> Some [] then kb_getattr ''search_faq'' else kb_getattr ''get_faq'')"

subsection \<open>The knowledge-base router\<close>

text \<open>\<open>glob("*.docx")\<close> over a directory's files.\<close>
definition docx_files :: "kb_file list \<Rightarrow> kb_file list" where
  "docx_files fs = filter (\<lambda>f. py_endswith (fst f) ''.docx'') fs"

text \<open>Writing a file into a directory: a file of the same name is replaced in place.\<close>
definition write_file :: "kb_file \<Rightarrow> kb_file list \<Rightarrow> kb_file list" where
  "write_file f fs =
     (if fst f \<in> fst ` set fs then map (\<lambda>g. if fst g = fst f then f else g) fs else fs @ [f])"

text \<open>\<open>os.path.join(a, b)\<close>: an absolute \<open>b\<close> replaces \<open>a\<close>.\<close>
definition os_path_join :: "string \<Rightarrow> string \<Rightarrow> string" where
  "os_path_join a b =
     (if b \<noteq> [] \<and> hd b = CHR ''/'' then b
      else if a = [] \<or> last a = CHR ''/'' then a @ b
      else a @ ''/'' @ b)"

text \<open>The components of a path between its slashes.\<close>
fun path_split :: "string \<Rightarrow> string \<Rightarrow> string list" where
  "path_split cur [] = [rev cur]"
| "path_split cur (c # cs) =
     (if c = CHR ''/'' then rev cur # path_split [] cs else path_split (c # cur) cs)"

text \<open>Resolving the components left to right (the resolved prefix is kept reversed):
  empty components and \<open>.\<close> are skipped, \<open>..\<close> removes the component before it.\<close>
fun resolve_segments :: "string list \<Rightarrow> string list \<Rightarrow> string list" where
  "resolve_segments acc [] = rev acc"
| "resolve_segments acc (x # xs) =
     (if x = [] \<or> x = ''.'' then resolve_segments acc xs
      else if x = ''..'' \<and> acc \<noteq> [] \<and> hd acc \<noteq> ''..'' then resolve_segments (tl acc) xs
      else resolve_segments (x # acc) xs)"

text \<open>The directory and the file name that \<open>open(file_path, "wb")\<close> writes: the
  kernel resolves the path component by component, so \<open>..\<close> leaves the directory before
  it (without symbolic links, its textual parent), and \<open>..\<close> at the root of an absolute
  path stays at the root.\<close>
definition open_target :: "string \<Rightarrow> string \<times> string" where
  "open_target p =
     (let absolute = (p \<noteq> [] \<and> hd p = CHR ''/'');
          segs = resolve_segments [] (path_split [] p);
          segs' = (if absolute then dropWhile (\<lambda>x. x = ''..'') segs else segs)
      in ((if absolute then ''/'' else []) @ py_join ''/'' (butlast segs'), last segs'))"

text \<open>The upload writes the file where \<open>os.path.join(settings.KNOWLEDGE_BASE_DIR,
  file.filename)\<close> leads (the file name is not sanitised), then reloads the singleton
  from the directory it globs.\<close>
definition upload_knowledge_base :: "app_state \<Rightarrow> kb_file \<Rightarrow> app_state \<times> (endpoint_error + string)" where
  "upload_knowledge_base st file =
     (if \<not> py_endswith (fst file) ''.docx'' then (st, Inl (HTTP_error 400 ''Only .docx files are allowed''))
      else
        (let (d, fname) = open_target (os_path_join KNOWLEDGE_BASE_DIR (fst file));
             st1 = st\<lparr>files := (files st)(d := write_file (fname, snd file) (files st d))\<rparr>;
             st2 = st1\<lparr>shared_kb := load_knowledge_base (docx_files (files st1 kb_dir)) (shared_kb st1)\<rparr>
         in (st2, Inr (''Successfully uploaded '' @ fst file))))"

text \<open>\<open>list_restaurants\<close>, \<open>list_cities\<close> and \<open>search_knowledge_base\<close> read
  \<open>knowledge_base.kb_data\<close>; the timings and contact endpoints call
  \<open>get_restaurant_timings\<close> and \<open>get_contact_info\<close>.\<close>
definition list_restaurants :: "app_state \<Rightarrow> endpoint_error + unit" where
  "list_restaurants st = kb_getattr ''kb_data''"

definition list_cities :: "app_state \<Rightarrow> endpoint_error + unit" where
  "list_cities st = kb_getattr ''kb_data''"

definition search_knowledge_base :: "app_state \<Rightarrow> string \<Rightarrow> endpoint_error + unit" where
  "search_knowledge_base st query = kb_getattr ''kb_data''"

definition get_restaurant_timings :: "app_state \<Rightarrow> string \<Rightarrow> endpoint_error + unit" where
  "get_restaurant_timings st restaurant_name = kb_getattr ''get_restaurant_timings''"

definition get_restaurant_contact :: "app_state \<Rightarrow> string \<Rightarrow> endpoint_error + unit" where
  "get_restaurant_contact st restaurant_name = kb_getattr ''get_contact_info''"

definition router_restaurant_info :: "app_state \<Rightarrow> string \<Rightarrow> endpoint_error + restaurant_data" where
  "router_restaurant_info st restaurant_name = chatbot_restaurant_info (shared_kb st) restaurant_name"

subsection \<open>Properties\<close>

lemma path_split_no_slash: "CHR ''/'' \<notin> set n \<Longrightarrow> path_split cur n = [rev cur @ n]"
  by (induction n arbitrary: cur) auto

lemma docx_name_component:
  "py_endswith n ''.docx'' \<Longrightarrow> n \<noteq> [] \<and> n \<noteq> ''.'' \<and> n \<noteq> ''..''"
  by (auto simp: py_endswith_def suffix_def)

text \<open>A plain file name stays in the upload directory.\<close>
lemma open_target_plain:
  assumes "py_endswith n ''.docx''" "CHR ''/'' \<notin> set n"
  shows "open_target (os_path_join KNOWLEDGE_BASE_DIR n) = (KNOWLEDGE_BASE_DIR, n)"
proof -
  have n: "n \<noteq> []" "n \<noteq> ''.''" "n \<noteq> ''..''" using docx_name_component [OF assms(1)] by simp_all
  then have "hd n \<noteq> CHR ''/''" using assms(2) by (cases n) auto
  with n assms(2) show ?thesis
    by (simp add: open_target_def os_path_join_def KNOWLEDGE_BASE_DIR_def path_split_no_slash)
qed

text \<open>A file name starting with \<open>../Knowledge Base/\<close> lands in the directory the
  loader globs.\<close>
lemma open_target_traversal:
  assumes "py_endswith n ''.docx''" "CHR ''/'' \<notin> set n"
  shows "open_target (os_path_join KNOWLEDGE_BASE_DIR (''../Knowledge Base/'' @ n)) = (kb_dir, n)"
  using docx_name_component [OF assms(1)] assms(2)
  by (simp add: open_target_def os_path_join_def KNOWLEDGE_BASE_DIR_def kb_dir_def path_split_no_slash)

lemma upload_knowledge_base_docx:
  assumes "py_endswith (fst file) ''.docx''" "open_target (os_path_join KNOWLEDGE_BASE_DIR (fst file)) = (d, fname)"
  shows "upload_knowledge_base st file =
     (let fs = (files st)(d := write_file (fname, snd file) (files st d))
      in (st\<lparr>files := fs, shared_kb := load_knowledge_base (docx_files (fs kb_dir)) (shared_kb st)\<rparr>,
          Inr (''Successfully uploaded '' @ fst file)))"
  using assms by (simp add: upload_knowledge_base_def Let_def)

lemma kb_getattr_missing:
  "attr \<notin> set knowledge_base_attributes \<Longrightarrow> kb_getattr attr = Inl (Unhandled ''AttributeError'')"
  by (simp add: kb_getattr_def)

text \<open>C16: The FAQ endpoint of the chatbot router fails with an unhandled
  AttributeError (HTTP 500) for every restaurant and every query, with or without one.\<close>

lemma faq_endpoint_always_raises:
  "get_restaurant_faq kb restaurant_name query = Inl (Unhandled ''AttributeError'')"
  by (simp add: get_restaurant_faq_def kb_getattr_missing knowledge_base_attributes_def)

text \<open>C17: The listing, search, timings and contact endpoints of the knowledge-base router
  fail with an unhandled AttributeError in every application state, while its
  restaurant-info endpoint answers exactly for the keys the shared knowledge base holds.\<close>

lemma kb_router_endpoints:
  "list_restaurants st = Inl (Unhandled ''AttributeError'') \<and>
   list_cities st = Inl (Unhandled ''AttributeError'') \<and>
   search_knowledge_base st query = Inl (Unhandled ''AttributeError'') \<and>
   get_restaurant_timings st restaurant_name = Inl (Unhandled ''AttributeError'') \<and>
   get_restaurant_contact st restaurant_name = Inl (Unhandled ''AttributeError'') \<and>
   router_restaurant_info st restaurant_name =
     (case dict_get (shared_kb st) restaurant_name of
        None \<Rightarrow> Inl (HTTP_error 404 (''Restaurant '' @ restaurant_name @ '' not found''))
      | Some info \<Rightarrow> Inr info)"
  by (simp add: list_restaurants_def list_cities_def search_knowledge_base_def
      get_restaurant_timings_def get_restaurant_contact_def router_restaurant_info_def
      chatbot_restaurant_info_def get_restaurant_info_def kb_getattr_def knowledge_base_attributes_def)

text \<open>C18: Uploading a .docx file under a plain file name (no slash) succeeds, yet
  neither knowledge base ever sees the document: it is written to
  settings.KNOWLEDGE_BASE_DIR while the loader globs data/Knowledge Base, the reload
  re-reads the old directory into the shared instance (appending its contents again),
  and the chatbot's private instance and the chat sessions are untouched.\<close>
lemma upload_not_visible:
  assumes "py_endswith (fst file) ''.docx''" "CHR ''/'' \<notin> set (fst file)"
    and "upload_knowledge_base st file = (st', r)"
  shows "r = Inr (''Successfully uploaded '' @ fst file) \<and> chat_kb st' = chat_kb st \<and>
         chat_sessions st' = chat_sessions st \<and>
         shared_kb st' = load_knowledge_base (docx_files (files st kb_dir)) (shared_kb st)"
proof -
  have "KNOWLEDGE_BASE_DIR \<noteq> kb_dir" by (simp add: KNOWLEDGE_BASE_DIR_def kb_dir_def)
  with assms upload_knowledge_base_docx [OF assms(1) open_target_plain [OF assms(1,2)], of st]
  show ?thesis by (auto simp: Let_def)
qed

lemma upload_not_visible_witness:
  "py_endswith ''Barbeque Nation Menu.docx'' ''.docx'' \<and> CHR ''/'' \<notin> set ''Barbeque Nation Menu.docx'' \<and>
   shared_kb (fst (upload_knowledge_base
      \<lparr>chat_kb = [], shared_kb = [], files = (\<lambda>_. []), chat_sessions = Map.empty\<rparr>
      (''Barbeque Nation Menu.docx'', Some [''Menu:'', ''Paneer Tikka'']))) = []"
proof -
  let ?st = "\<lparr>chat_kb = [], shared_kb = [], files = (\<lambda>_. []), chat_sessions = Map.empty\<rparr>"
  let ?f = "(''Barbeque Nation Menu.docx'', Some [''Menu:'', ''Paneer Tikka''])"
  have h: "py_endswith (fst ?f) ''.docx''" by code_simp
  have h2: "CHR ''/'' \<notin> set (fst ?f)" by simp
  have "shared_kb (fst (upload_knowledge_base ?st ?f)) =
        load_knowledge_base (docx_files (files ?st kb_dir)) (shared_kb ?st)"
    using upload_not_visible [OF h h2, of ?st "fst (upload_knowledge_base ?st ?f)"
        "snd (upload_knowledge_base ?st ?f)"] by simp
  then have "shared_kb (fst (upload_knowledge_base ?st ?f)) = []"
    by (simp add: docx_files_def load_knowledge_base_def)
  with h h2 show ?thesis by simp
qed

text \<open>C19: The upload does not sanitise the file name: a name of the form
  ../Knowledge Base/NAME.docx is joined to settings.KNOWLEDGE_BASE_DIR, resolved by the
  kernel into data/Knowledge Base, written there, and loaded into the shared knowledge
  base by the reload that follows.\<close>
lemma upload_traversal_loaded:
  assumes "py_endswith n ''.docx''" "CHR ''/'' \<notin> set n"
    and "upload_knowledge_base st (''../Knowledge Base/'' @ n, c) = (st', r)"
  shows "files st' kb_dir = write_file (n, c) (files st kb_dir) \<and>
         shared_kb st' = load_knowledge_base (docx_files (write_file (n, c) (files st kb_dir))) (shared_kb st)"
proof -
  have e: "py_endswith (fst (''../Knowledge Base/'' @ n, c)) ''.docx''"
    unfolding py_endswith_def fst_conv
    by (rule suffix_appendI) (use assms(1) in \<open>simp add: py_endswith_def\<close>)
  show ?thesis
    using assms(3) upload_knowledge_base_docx [OF e, of kb_dir n st] open_target_traversal [OF assms(1,2)]
    by (auto simp: Let_def)
qed

lemma upload_traversal_loaded_witness:
  "get_menu (shared_kb (fst (upload_knowledge_base
      \<lparr>chat_kb = [], shared_kb = [], files = (\<lambda>_. []), chat_sessions = Map.empty\<rparr>
      (''../Knowledge Base/'' @ ''Barbeque Nation Menu.docx'', Some [''Menu:'', ''Paneer Tikka'']))))
     (Some ''Barbeque Nation - Delhi'') = [''Paneer Tikka'']"
proof -
  let ?st = "\<lparr>chat_kb = [], shared_kb = [], files = (\<lambda>_. []), chat_sessions = Map.empty\<rparr>"
  let ?n = "''Barbeque Nation Menu.docx''" and ?c = "Some [''Menu:'', ''Paneer Tikka'']"
  let ?u = "upload_knowledge_base ?st (''../Knowledge Base/'' @ ?n, ?c)"
  have h1: "py_endswith ?n ''.docx''" by code_simp
  have h2: "CHR ''/'' \<notin> set ?n" by simp
  have "shared_kb (fst ?u) = load_knowledge_base (docx_files (write_file (?n, ?c) [])) []"
    using upload_traversal_loaded [OF h1 h2, of ?st ?c "fst ?u" "snd ?u"] by simp
  moreover have "get_menu (load_knowledge_base (docx_files (write_file (?n, ?c) [])) [])
      (Some ''Barbeque Nation - Delhi'') = [''Paneer Tikka'']" by code_simp
  ultimately show ?thesis by simp
qed

text \<open>C20: An upload whose file name does not end in .docx is refused with HTTP 400
  and changes nothing.\<close>

lemma upload_rejects_non_docx:
  "\<not> py_endswith (fst file) ''.docx'' \<Longrightarrow>
   upload_knowledge_base st file = (st, Inl (HTTP_error 400 ''Only .docx files are allowed''))"
  by (simp add: upload_knowledge_base_def)

lemma upload_rejects_non_docx_witness:
  "\<not> py_endswith ''menu.pdf'' ''.docx'' \<and>
   upload_knowledge_base
      \<lparr>chat_kb = [], shared_kb = [], files = (\<lambda>_. []), chat_sessions = Map.empty\<rparr>
      (''menu.pdf'', None) =
   (\<lparr>chat_kb = [], shared_kb = [], files = (\<lambda>_. []), chat_sessions = Map.empty\<rparr>,
    Inl (HTTP_error 400 ''Only .docx files are allowed''))"
proof -
  have h: "\<not> py_endswith (fst (''menu.pdf'', None :: string list option)) ''.docx''" by code_simp
  from upload_rejects_non_docx [OF h] h show ?thesis by simp
qed

end
