(* ===== verification/Post_Call.thy ===== *)
theory Post_Call
  imports Complex_Main Chatbot
begin

text \<open>
  The post-call analytics router of \<open>src/app/api/endpoints/post_call.py\<close>.  Its state is
  the module-level dictionary \<open>call_analyses\<close> from session identifiers to
  \<open>CallAnalysis\<close> models, an insertion-ordered association list.  Each endpoint is a
  function of the store (and returns the new store where it writes).  Datetimes are naive
  and read as an integer count of microseconds, so that their comparison is the integer
  order; floats (the duration and the averages) are computed exactly on \<open>rat\<close>.
  \<open>list(set(...))\<close> has no specified order and is read as the set of its elements.
\<close>

type_synonym py_datetime = int

record call_analysis =
  session_id :: string
  start_time :: py_datetime
  end_time :: py_datetime
  duration :: rat
  user_satisfaction :: "int option"
  intent_fulfilled :: bool
  conversation_flow :: "(string, string) py_dict list"
  error_count :: int
  resolution_status :: string
  pending_actions :: "string list option"

type_synonym call_store = "(string, call_analysis) py_dict"

definition analyze_call :: "call_analysis \<Rightarrow> call_store \<Rightarrow> call_store \<times> string" where
  "analyze_call analysis call_analyses =
     (dict_set (session_id analysis) analysis call_analyses, ''Call analysis stored successfully'')"

definition get_call_analysis :: "call_store \<Rightarrow> string \<Rightarrow> http_error + call_analysis" where
  "get_call_analysis call_analyses sid =
     (case dict_get call_analyses sid of
        None \<Rightarrow> Inl (HTTPException 404 (''No analysis found for session '' @ sid))
      | Some analysis \<Rightarrow> Inr analysis)"

text \<open>\<open>a.user_satisfaction and a.user_satisfaction >= min_satisfaction\<close>: a rating of
  0 is falsy.\<close>
definition satisfaction_ok :: "int \<Rightarrow> call_analysis \<Rightarrow> bool" where
  "satisfaction_ok min_satisfaction a =
     (case user_satisfaction a of
        None \<Rightarrow> False
      | Some s \<Rightarrow> s \<noteq> 0 \<and> s \<ge> min_satisfaction)"

definition list_call_analyses ::
    "call_store \<Rightarrow> py_datetime option \<Rightarrow> py_datetime option \<Rightarrow> int option \<Rightarrow> call_analysis list" where
  "list_call_analyses call_analyses start_date end_date min_satisfaction =
     (let filtered0 = map snd call_analyses;
          filtered1 = (case start_date of
                         None \<Rightarrow> filtered0
                       | Some sd \<Rightarrow> [a \<leftarrow> filtered0. start_time a \<ge> sd]);
          filtered2 = (case end_date of
                         None \<Rightarrow> filtered1
                       | Some ed \<Rightarrow> [a \<leftarrow> filtered1. end_time a \<le> ed]);
          filtered3 = (case min_satisfaction of
                         None \<Rightarrow> filtered2
                       | Some m \<Rightarrow> [a \<leftarrow> filtered2. satisfaction_ok m a])
      in filtered3)"

record call_metrics =
  total_calls :: nat
  average_satisfaction :: rat
  intent_fulfillment_rate :: rat
  average_duration :: rat
  error_rate :: rat

definition get_metrics :: "call_store \<Rightarrow> call_metrics" where
  "get_metrics call_analyses =
     (if call_analyses = [] then
        \<lparr>total_calls = 0, average_satisfaction = 0, intent_fulfillment_rate = 0,
         average_duration = 0, error_rate = 0\<rparr>
      else
        (let analyses = map snd call_analyses;
             n = length call_analyses;
             total_satisfaction =
               sum_list (map (\<lambda>a. case user_satisfaction a of Some s \<Rightarrow> s | None \<Rightarrow> 0)
                 (filter (\<lambda>a. user_satisfaction a \<noteq> None) analyses));
             total_fulfilled = length (filter intent_fulfilled analyses);
             total_duration = sum_list (map duration analyses);
             total_errors = sum_list (map error_count analyses)
         in \<lparr>total_calls = n,
             average_satisfaction = (if n > 0 then of_int total_satisfaction / of_nat n else 0),
             intent_fulfillment_rate = (if n > 0 then of_nat total_fulfilled / of_nat n else 0),
             average_duration = (if n > 0 then total_duration / of_nat n else 0),
             error_rate = (if n > 0 then of_int total_errors / of_nat n else 0)\<rparr>))"

definition get_pending_actions :: "call_store \<Rightarrow> string set" where
  "get_pending_actions call_analyses =
     set (concat (map (\<lambda>(_, analysis). case pending_actions analysis of None \<Rightarrow> [] | Some xs \<Rightarrow> xs)
                   call_analyses))"

text \<open>\<open>export_analyses\<close>: the file \<open>exports/call_analyses_<timestamp>.json\<close> receives the
  store (its JSON text is abstracted to the store itself); the timestamp is the clock
  reading formatted by \<open>%Y%m%d_%H%M%S\<close>, an argument here.\<close>
type_synonym exported_files = "string \<Rightarrow> call_store option"

definition export_analyses :: "string \<Rightarrow> call_store \<Rightarrow> exported_files \<Rightarrow> exported_files \<times> string" where
  "export_analyses timestamp call_analyses files =
     (let filename = ''call_analyses_'' @ timestamp @ ''.json''
      in (files(''exports/'' @ filename \<mapsto> call_analyses), ''Analyses exported to '' @ filename))"

subsection \<open>The router as a state machine\<close>

datatype post_call_request =
    Analyze call_analysis
  | GetAnalysis string
  | ListAnalyses "py_datetime option" "py_datetime option" "int option"
  | Metrics
  | PendingActions
  | Export string

datatype post_call_reply =
    Message string
  | Analysis "http_error + call_analysis"
  | Analyses "call_analysis list"
  | MetricsReply call_metrics
  | Pending "string set"

record post_call_state =
  call_analyses :: call_store
  exports :: exported_files

definition post_call_step :: "post_call_state \<Rightarrow> post_call_request \<Rightarrow> post_call_state \<times> post_call_reply" where
  "post_call_step st req =
     (case req of
        Analyze a \<Rightarrow>
          (let (store, msg) = analyze_call a (call_analyses st) in (st\<lparr>call_analyses := store\<rparr>, Message msg))
      | GetAnalysis sid \<Rightarrow> (st, Analysis (get_call_analysis (call_analyses st) sid))
      | ListAnalyses sd ed m \<Rightarrow> (st, Analyses (list_call_analyses (call_analyses st) sd ed m))
      | Metrics \<Rightarrow> (st, MetricsReply (get_metrics (call_analyses st)))
      | PendingActions \<Rightarrow> (st, Pending (get_pending_actions (call_analyses st)))
      | Export ts \<Rightarrow>
          (let (files, msg) = export_analyses ts (call_analyses st) (exports st)
           in (st\<lparr>exports := files\<rparr>, Message msg)))"

fun run_post_call :: "post_call_state \<Rightarrow> post_call_request list \<Rightarrow> post_call_state \<times> post_call_reply list" where
  "run_post_call st [] = (st, [])"
| "run_post_call st (r # rs) =
     (let (st', reply) = post_call_step st r;
          (st'', replies) = run_post_call st' rs
      in (st'', reply # replies))"

text \<open>The store is keyed by the session identifier of each analysis.\<close>
definition store_wf :: "call_store \<Rightarrow> bool" where
  "store_wf store \<longleftrightarrow> distinct (map fst store) \<and> list_all (\<lambda>(k, a). session_id a = k) store"

subsection \<open>Lemmas\<close>

lemma set_dict_set_sub: "set (dict_set k v d) \<subseteq> insert (k, v) (set d)"
  by (auto simp: dict_set_def split: if_splits)

lemma store_wf_analyze: "store_wf s \<Longrightarrow> store_wf (fst (analyze_call a s))"
  using set_dict_set_sub [of "session_id a" a s]
  by (auto simp: store_wf_def analyze_call_def list_all_iff)

lemma post_call_step_store:
  "call_analyses (fst (post_call_step st r)) =
     (case r of Analyze a \<Rightarrow> fst (analyze_call a (call_analyses st)) | _ \<Rightarrow> call_analyses st)"
  by (cases r) (simp_all add: post_call_step_def analyze_call_def export_analyses_def Let_def)

lemma metrics_rate_bounds:
  "0 \<le> intent_fulfillment_rate (get_metrics s) \<and> intent_fulfillment_rate (get_metrics s) \<le> 1"
proof (cases "s = []")
  case False
  have "length (filter intent_fulfilled (map snd s)) \<le> length s" by (metis length_filter_le length_map)
  then have "of_nat (length (filter intent_fulfilled (map snd s))) / of_nat (length s) \<le> (1 :: rat)"
    using False by (simp add: divide_le_eq_1)
  with False show ?thesis by (simp add: get_metrics_def Let_def)
qed (simp add: get_metrics_def)

subsection \<open>Properties\<close>

text \<open>C26: Every sequence of router requests keeps the analysis store keyed by the session identifier of each stored analysis, with no key twice.\<close>
lemma run_post_call_wf:
  "store_wf (call_analyses st) \<Longrightarrow> store_wf (call_analyses (fst (run_post_call st rs)))"
proof (induction rs arbitrary: st)
  case Nil
  then show ?case by simp
next
  case (Cons r rs)
  have "store_wf (call_analyses (fst (post_call_step st r)))"
    using Cons.prems by (cases r) (simp_all add: post_call_step_store store_wf_analyze)
  then show ?case using Cons.IH by (simp add: case_prod_beta Let_def)
qed

lemma run_post_call_wf_witness:
  "store_wf (call_analyses \<lparr>call_analyses = [], exports = Map.empty\<rparr>) \<and>
   store_wf (call_analyses (fst (run_post_call \<lparr>call_analyses = [], exports = Map.empty\<rparr>
     [Analyze \<lparr>session_id = ''s1'', start_time = 0, end_time = 60000000, duration = 1, user_satisfaction = Some 0,
        intent_fulfilled = True, conversation_flow = [], error_count = 0, resolution_status = ''resolved'',
        pending_actions = None\<rparr>, Metrics, Export ''20250101_000000''])))"
proof -
  have h: "store_wf (call_analyses \<lparr>call_analyses = [], exports = Map.empty\<rparr>)"
    by (simp add: store_wf_def)
  show ?thesis using run_post_call_wf [OF h] h by blast
qed

text \<open>C27: After an analysis is posted, fetching its session returns it, and every other session answers as before.\<close>
lemma get_after_analyze:
  "get_call_analysis (fst (analyze_call a s)) sid =
     (if sid = session_id a then Inr a else get_call_analysis s sid)"
  by (simp add: get_call_analysis_def analyze_call_def)

text \<open>C28: The satisfaction filter drops every analysis rated 0, whatever the minimum, because the code tests the rating for truth before comparing it.\<close>
lemma list_drops_zero_rating:
  "user_satisfaction a = Some 0 \<Longrightarrow> a \<notin> set (list_call_analyses s sd ed (Some m))"
  by (simp add: list_call_analyses_def Let_def satisfaction_ok_def split: option.splits)

lemma list_drops_zero_rating_witness:
  "user_satisfaction \<lparr>session_id = ''s1'', start_time = 0, end_time = 60000000, duration = 1, user_satisfaction = Some 0,
        intent_fulfilled = True, conversation_flow = [], error_count = 0, resolution_status = ''resolved'',
        pending_actions = None\<rparr> = Some 0 \<and>
   \<lparr>session_id = ''s1'', start_time = 0, end_time = 60000000, duration = 1, user_satisfaction = Some 0,
        intent_fulfilled = True, conversation_flow = [], error_count = 0, resolution_status = ''resolved'',
        pending_actions = None\<rparr> \<notin> set (list_call_analyses [(''s1'', \<lparr>session_id = ''s1'', start_time = 0, end_time = 60000000, duration = 1, user_satisfaction = Some 0,
        intent_fulfilled = True, conversation_flow = [], error_count = 0, resolution_status = ''resolved'',
        pending_actions = None\<rparr>)] None None (Some 0))"
proof -
  have h: "user_satisfaction \<lparr>session_id = ''s1'', start_time = 0, end_time = 60000000, duration = 1, user_satisfaction = Some 0,
        intent_fulfilled = True, conversation_flow = [], error_count = 0, resolution_status = ''resolved'',
        pending_actions = None\<rparr> = Some 0" by simp
  show ?thesis using list_drops_zero_rating [OF h] by simp
qed

text \<open>C29: The average satisfaction is the sum of the given ratings divided by the number of all calls, so calls without a rating pull the average down as if rated 0.\<close>
lemma metrics_average_satisfaction:
  "s \<noteq> [] \<Longrightarrow>
   average_satisfaction (get_metrics s) * of_nat (total_calls (get_metrics s)) =
     of_int (sum_list (map (\<lambda>(_, a). case user_satisfaction a of Some r \<Rightarrow> r | None \<Rightarrow> 0) s))"
proof -
  let ?f = "\<lambda>a. case user_satisfaction a of Some r \<Rightarrow> r | None \<Rightarrow> 0"
  assume ne: "s \<noteq> []"
  have "sum_list (map ?f (filter (\<lambda>a. user_satisfaction a \<noteq> None) (map snd s))) =
        sum_list (map ?f (map snd s))"
    by (rule sum_list_map_filter) auto
  also have "map ?f (map snd s) = map (\<lambda>(_, a). ?f a) s" by (simp add: case_prod_beta)
  finally show ?thesis using ne by (simp add: get_metrics_def Let_def)
qed

lemma metrics_average_satisfaction_witness:
  "[(''s1'', \<lparr>session_id = ''s1'', start_time = 0, end_time = 60000000, duration = 1, user_satisfaction = Some 0,
        intent_fulfilled = True, conversation_flow = [], error_count = 0, resolution_status = ''resolved'',
        pending_actions = None\<rparr>)] \<noteq> [] \<and>
   average_satisfaction (get_metrics [(''s1'', \<lparr>session_id = ''s1'', start_time = 0, end_time = 60000000, duration = 1, user_satisfaction = Some 0,
        intent_fulfilled = True, conversation_flow = [], error_count = 0, resolution_status = ''resolved'',
        pending_actions = None\<rparr>)]) *
     of_nat (total_calls (get_metrics [(''s1'', \<lparr>session_id = ''s1'', start_time = 0, end_time = 60000000, duration = 1, user_satisfaction = Some 0,
        intent_fulfilled = True, conversation_flow = [], error_count = 0, resolution_status = ''resolved'',
        pending_actions = None\<rparr>)])) =
   of_int (sum_list (map (\<lambda>(_, a). case user_satisfaction a of Some r \<Rightarrow> r | None \<Rightarrow> 0)
     [(''s1'', \<lparr>session_id = ''s1'', start_time = 0, end_time = 60000000, duration = 1, user_satisfaction = Some 0,
        intent_fulfilled = True, conversation_flow = [], error_count = 0, resolution_status = ''resolved'',
        pending_actions = None\<rparr>)]))"
proof -
  have h: "[(''s1'', \<lparr>session_id = ''s1'', start_time = 0, end_time = 60000000, duration = 1, user_satisfaction = Some 0,
        intent_fulfilled = True, conversation_flow = [], error_count = 0, resolution_status = ''resolved'',
        pending_actions = None\<rparr>)] \<noteq> []" by simp
  show ?thesis using metrics_average_satisfaction [OF h] by simp
qed

end
