(* ===== verification/App.thy ===== *)
theory App
  imports Endpoints Post_Call
begin

text \<open>
  The application of \<open>src/main.py\<close>: the three routers mounted under their prefixes and
  the root route, as one server.  Its state joins the chatbot module's state
  (\<open>app_state\<close>: the chat knowledge base, the shared knowledge base, the files and the
  sessions) and the post-call router's store; a request is one of the routes, and
  \<open>api_step\<close> runs the handler of that route.  CORS, the static mount and the route
  printing are framework effects without a counterpart here.
\<close>

record server_state =
  app :: app_state
  post_call :: post_call_state

datatype api_request =
    ChatPost chat_request
  | GetRestaurants string
  | GetRestaurantInfo string
  | GetRestaurantMenu string
  | GetRestaurantFaq string "string option"
  | UploadKB kb_file
  | ListRestaurants
  | ListCities
  | SearchKB string
  | KBRestaurantInfo string
  | KBTimings string
  | KBContact string
  | PostCallRequest post_call_request
  | Root

datatype api_reply =
    ChatReply "http_error + chat_response"
  | ListReply "endpoint_error + string list"
  | InfoReply "endpoint_error + restaurant_data"
  | UnitReply "endpoint_error + unit"
  | TextReply "endpoint_error + string"
  | PostCallReply post_call_reply
  | PlainText string

text \<open>The method and path template of each route: the router's prefix of
  \<open>app.include_router\<close> followed by the path of its decorator.\<close>
definition route :: "api_request \<Rightarrow> string \<times> string" where
  "route r =
     (case r of
        ChatPost _ \<Rightarrow> (''POST'', ''/api/chatbot/chat'')
      | GetRestaurants _ \<Rightarrow> (''GET'', ''/api/chatbot/restaurants/{city}'')
      | GetRestaurantInfo _ \<Rightarrow> (''GET'', ''/api/chatbot/restaurant/{restaurant_name}'')
      | GetRestaurantMenu _ \<Rightarrow> (''GET'', ''/api/chatbot/restaurant/{restaurant_name}/menu'')
      | GetRestaurantFaq _ _ \<Rightarrow> (''GET'', ''/api/chatbot/restaurant/{restaurant_name}/faq'')
      | UploadKB _ \<Rightarrow> (''POST'', ''/api/knowledge/upload'')
      | ListRestaurants \<Rightarrow> (''GET'', ''/api/knowledge/restaurants'')
      | ListCities \<Rightarrow> (''GET'', ''/api/knowledge/cities'')
      | SearchKB _ \<Rightarrow> (''GET'', ''/api/knowledge/search'')
      | KBRestaurantInfo _ \<Rightarrow> (''GET'', ''/api/knowledge/restaurant/{restaurant_name}/info'')
      | KBTimings _ \<Rightarrow> (''GET'', ''/api/knowledge/restaurant/{restaurant_name}/timings'')
      | KBContact _ \<Rightarrow> (''GET'', ''/api/knowledge/restaurant/{restaurant_name}/contact'')
      | PostCallRequest pr \<Rightarrow>
          (case pr of
             Analyze _ \<Rightarrow> (''POST'', ''/api/post-call/analyze'')
           | GetAnalysis _ \<Rightarrow> (''GET'', ''/api/post-call/analysis/{session_id}'')
           | ListAnalyses _ _ _ \<Rightarrow> (''GET'', ''/api/post-call/analyses'')
           | Metrics \<Rightarrow> (''GET'', ''/api/post-call/metrics'')
           | PendingActions \<Rightarrow> (''GET'', ''/api/post-call/pending-actions'')
           | Export _ \<Rightarrow> (''GET'', ''/api/post-call/export''))
      | Root \<Rightarrow> (''GET'', ''/''))"

definition root_text :: string where
  "root_text = ''Chatbot server is running!''"

definition api_step :: "server_state \<Rightarrow> api_request \<Rightarrow> server_state \<times> api_reply" where
  "api_step st r =
     (let a = app st in
      case r of
        ChatPost req \<Rightarrow>
          (let (sessions', reply) = chat (chat_kb a) (chat_sessions a) req
           in (st\<lparr>app := a\<lparr>chat_sessions := sessions'\<rparr>\<rparr>, ChatReply reply))
      | GetRestaurants c \<Rightarrow> (st, ListReply (get_restaurants (chat_kb a) c))
      | GetRestaurantInfo n \<Rightarrow> (st, InfoReply (chatbot_restaurant_info (chat_kb a) n))
      | GetRestaurantMenu n \<Rightarrow> (st, ListReply (get_restaurant_menu (chat_kb a) n))
      | GetRestaurantFaq n q \<Rightarrow> (st, UnitReply (get_restaurant_faq (chat_kb a) n q))
      | UploadKB f \<Rightarrow>
          (let (a', reply) = upload_knowledge_base a f in (st\<lparr>app := a'\<rparr>, TextReply reply))
      | ListRestaurants \<Rightarrow> (st, UnitReply (list_restaurants a))
      | ListCities \<Rightarrow> (st, UnitReply (list_cities a))
      | SearchKB q \<Rightarrow> (st, UnitReply (search_knowledge_base a q))
      | KBRestaurantInfo n \<Rightarrow> (st, InfoReply (router_restaurant_info a n))
      | KBTimings n \<Rightarrow> (st, UnitReply (get_restaurant_timings a n))
      | KBContact n \<Rightarrow> (st, UnitReply (get_restaurant_contact a n))
      | PostCallRequest pr \<Rightarrow>
          (let (pc', reply) = post_call_step (post_call st) pr in (st\<lparr>post_call := pc'\<rparr>, PostCallReply reply))
      | Root \<Rightarrow> (st, PlainText root_text))"

fun run_api :: "server_state \<Rightarrow> api_request list \<Rightarrow> server_state \<times> api_reply list" where
  "run_api st [] = (st, [])"
| "run_api st (r # rs) =
     (let (st', reply) = api_step st r;
          (st'', replies) = run_api st' rs
      in (st'', reply # replies))"

text \<open>One request of each route, to enumerate the route table.\<close>
definition route_samples :: "api_request list" where
  "route_samples =
     [ChatPost \<lparr>message = [], session_id = [], req_current_state = None\<rparr>,
      GetRestaurants [], GetRestaurantInfo [], GetRestaurantMenu [], GetRestaurantFaq [] None,
      UploadKB ([], None), ListRestaurants, ListCities, SearchKB [], KBRestaurantInfo [], KBTimings [],
      KBContact [],
      PostCallRequest (Analyze \<lparr>session_id = [], start_time = 0, end_time = 0, duration = 0,
        user_satisfaction = None, intent_fulfilled = False, conversation_flow = [], error_count = 0,
        resolution_status = [], pending_actions = None\<rparr>),
      PostCallRequest (GetAnalysis []), PostCallRequest (ListAnalyses None None None),
      PostCallRequest Metrics, PostCallRequest PendingActions, PostCallRequest (Export []), Root]"

text \<open>The requests of a run that reach the post-call router and the chat endpoint.\<close>
definition post_call_requests :: "api_request list \<Rightarrow> post_call_request list" where
  "post_call_requests rs = concat (map (\<lambda>r. case r of PostCallRequest pr \<Rightarrow> [pr] | _ \<Rightarrow> []) rs)"

definition chat_requests :: "api_request list \<Rightarrow> chat_request list" where
  "chat_requests rs = concat (map (\<lambda>r. case r of ChatPost req \<Rightarrow> [req] | _ \<Rightarrow> []) rs)"

subsection \<open>The application object\<close>

text \<open>The route objects of \<open>app.routes\<close>, by class.\<close>
datatype route_obj = APIRoute string "string list" | Mount string string | Route string

text \<open>\<open>FastAPI(...)\<close>: \<open>setup()\<close> adds the documentation routes as plain \<open>Route\<close>s.\<close>
definition fastapi_default_routes :: "route_obj list" where
  "fastapi_default_routes =
     [Route ''/openapi.json'', Route ''/docs'', Route ''/docs/oauth2-redirect'', Route ''/redoc'']"

text \<open>The decorators of each router, in source order.\<close>
definition knowledge_router_routes :: "(string \<times> string) list" where
  "knowledge_router_routes =
     [(''POST'', ''/upload''), (''GET'', ''/restaurants''), (''GET'', ''/cities''), (''GET'', ''/search''),
      (''GET'', ''/restaurant/{restaurant_name}/info''), (''GET'', ''/restaurant/{restaurant_name}/timings''),
      (''GET'', ''/restaurant/{restaurant_name}/contact'')]"

definition chatbot_router_routes :: "(string \<times> string) list" where
  "chatbot_router_routes =
     [(''POST'', ''/chat''), (''GET'', ''/restaurants/{city}''), (''GET'', ''/restaurant/{restaurant_name}''),
      (''GET'', ''/restaurant/{restaurant_name}/menu''), (''GET'', ''/restaurant/{restaurant_name}/faq'')]"

definition post_call_router_routes :: "(string \<times> string) list" where
  "post_call_router_routes =
     [(''POST'', ''/analyze''), (''GET'', ''/analysis/{session_id}''), (''GET'', ''/analyses''),
      (''GET'', ''/metrics''), (''GET'', ''/pending-actions''), (''GET'', ''/export'')]"

text \<open>\<open>CORSMiddleware\<close> with the options \<open>main.py\<close> passes.\<close>
record cors_options =
  allow_origins :: "string list"
  allow_credentials :: bool
  allow_methods :: "string list"
  allow_headers :: "string list"

text \<open>The parts of the \<open>FastAPI\<close> object that \<open>main.py\<close> sets or changes.\<close>
record fastapi_app =
  title :: string
  description :: string
  version :: string
  user_middleware :: "cors_options list"
  routes :: "route_obj list"

definition FastAPI :: "string \<Rightarrow> string \<Rightarrow> string \<Rightarrow> fastapi_app" where
  "FastAPI t d v = \<lparr>title = t, description = d, version = v, user_middleware = [], routes = fastapi_default_routes\<rparr>"

text \<open>Starlette inserts a middleware at the front of the list.\<close>
definition add_middleware :: "fastapi_app \<Rightarrow> cors_options \<Rightarrow> fastapi_app" where
  "add_middleware a m = a\<lparr>user_middleware := m # user_middleware a\<rparr>"

definition mount :: "fastapi_app \<Rightarrow> string \<Rightarrow> string \<Rightarrow> fastapi_app" where
  "mount a path nm = a\<lparr>routes := routes a @ [Mount path nm]\<rparr>"

text \<open>\<open>app.include_router(router, prefix=...)\<close>: one \<open>APIRoute\<close> per decorator, under the prefix.\<close>
definition include_router :: "fastapi_app \<Rightarrow> string \<Rightarrow> (string \<times> string) list \<Rightarrow> fastapi_app" where
  "include_router a pfx rs = a\<lparr>routes := routes a @ map (\<lambda>(m, p). APIRoute (pfx @ p) [m]) rs\<rparr>"

definition app_get :: "fastapi_app \<Rightarrow> string \<Rightarrow> fastapi_app" where
  "app_get a path = a\<lparr>routes := routes a @ [APIRoute path [''GET'']]\<rparr>"

text \<open>The module body of \<open>main.py\<close>, statement by statement.\<close>
definition main_app :: fastapi_app where
  "main_app =
     (let a = FastAPI ''Barbeque Nation Chatbot API''
                ''API for handling Barbeque Nation restaurant enquiries and bookings'' ''1.0.0'';
          a = add_middleware a \<lparr>allow_origins = [''*''], allow_credentials = True,
                                allow_methods = [''*''], allow_headers = [''*'']\<rparr>;
          a = mount a ''/static'' ''static'';
          a = include_router a ''/api/knowledge'' knowledge_router_routes;
          a = include_router a ''/api/chatbot'' chatbot_router_routes;
          a = include_router a ''/api/post-call'' post_call_router_routes
      in app_get a ''/'')"

text \<open>\<open>repr\<close> of a set of strings; every route here has one method, so the order of
  a larger set (hash-dependent) never arises.\<close>
definition py_set_repr :: "string list \<Rightarrow> string" where
  "py_set_repr ms = ''{'' @ py_join '', '' (map (\<lambda>m. [CHR 0x27] @ m @ [CHR 0x27]) ms) @ ''}''"

definition route_line :: "route_obj \<Rightarrow> string" where
  "route_line r =
     (case r of
        APIRoute p ms \<Rightarrow> ''- '' @ p @ '' ('' @ py_set_repr ms @ '')''
      | Mount p n \<Rightarrow> ''- '' @ p @ '' (Mounted: '' @ n @ '')''
      | Route p \<Rightarrow> ''- '' @ p @ '' (Unknown route type)'')"

text \<open>What importing \<open>main.py\<close> prints, for a working directory.\<close>
definition startup_output :: "string \<Rightarrow> string list" where
  "startup_output cwd =
     (''Current working directory: '' @ cwd) # ''Registered routes:'' # map route_line (routes main_app)"

subsection \<open>Lemmas\<close>

lemma api_step_post_call:
  "post_call (fst (api_step st r)) =
     (case r of PostCallRequest pr \<Rightarrow> fst (post_call_step (post_call st) pr) | _ \<Rightarrow> post_call st)"
  by (cases r) (simp_all add: api_step_def Let_def case_prod_beta)

lemma api_step_chat_kb: "chat_kb (app (fst (api_step st r))) = chat_kb (app st)"
  by (cases r) (simp_all add: api_step_def upload_knowledge_base_def Let_def case_prod_beta)

lemma fst_run_post_call_Cons:
  "fst (run_post_call st (r # rs)) = fst (run_post_call (fst (post_call_step st r)) rs)"
  by (simp add: Let_def case_prod_beta)

lemma route_table_distinct: "distinct (map route route_samples)"
  by code_simp

lemma route_samples_cover: "route r \<in> set (map route route_samples)"
  by (cases r; (cases "case r of PostCallRequest pr \<Rightarrow> pr | _ \<Rightarrow> Metrics")?) (simp_all add: route_def route_samples_def split: post_call_request.splits)

lemma api_step_sessions:
  "chat_sessions (app (fst (api_step st r))) =
     (case r of ChatPost req \<Rightarrow> fst (chat (chat_kb (app st)) (chat_sessions (app st)) req)
              | _ \<Rightarrow> chat_sessions (app st))"
  by (cases r) (simp_all add: api_step_def upload_knowledge_base_def Let_def case_prod_beta)

lemma startup_output_routes: "drop 2 (startup_output cwd) = map route_line (routes main_app)"
  by (simp add: startup_output_def)

lemma startup_output_doc_routes:
  "take 5 (drop 2 (startup_output cwd)) =
   [''- /openapi.json (Unknown route type)'', ''- /docs (Unknown route type)'',
    ''- /docs/oauth2-redirect (Unknown route type)'', ''- /redoc (Unknown route type)'',
    ''- /static (Mounted: static)'']"
  by (simp add: startup_output_def main_app_def FastAPI_def add_middleware_def mount_def include_router_def
      app_get_def fastapi_default_routes_def route_line_def)

subsection \<open>Properties\<close>

text \<open>C21: No sequence of requests changes the knowledge base the chat endpoint reads: it is loaded once at import, and the upload reloads only the knowledge-base router's instance.\<close>
lemma run_api_chat_kb: "chat_kb (app (fst (run_api st rs))) = chat_kb (app st)"
  by (induction rs arbitrary: st) (simp_all add: Let_def case_prod_beta api_step_chat_kb)

text \<open>C22: In any interleaving of requests to the three routers, the post-call store ends as if only the post-call requests had been sent, in their order.\<close>
lemma run_api_post_call:
  "post_call (fst (run_api st rs)) = fst (run_post_call (post_call st) (post_call_requests rs))"
proof (induction rs arbitrary: st)
  case Nil
  then show ?case by (simp add: post_call_requests_def)
next
  case (Cons r rs)
  show ?case
    using Cons.IH [of "fst (api_step st r)"]
    by (cases r) (simp_all add: Let_def case_prod_beta post_call_requests_def api_step_post_call fst_run_post_call_Cons)
qed

text \<open>C23: In any interleaving of requests, the session store ends as if only the chat requests had been sent, in their order, to the chat endpoint with its knowledge base.\<close>
lemma run_api_sessions:
  "chat_sessions (app (fst (run_api st rs))) =
     foldl (\<lambda>s req. fst (chat (chat_kb (app st)) s req)) (chat_sessions (app st)) (chat_requests rs)"
proof (induction rs arbitrary: st)
  case Nil
  then show ?case by (simp add: chat_requests_def)
next
  case (Cons r rs)
  show ?case
    using Cons.IH [of "fst (api_step st r)"]
    by (cases r) (simp_all add: Let_def case_prod_beta chat_requests_def api_step_sessions api_step_chat_kb)
qed

end
