(* ===== verification/Py_Regex.thy ===== *)
theory Py_Regex
  imports Py_Prelude
begin

text \<open>
  Python's \<open>re\<close> engine on the fixed patterns of the sources, as backtracking
  matchers.  A matcher maps the remaining input to the list of its successes, each a
  value (the text matched, or a tuple of groups) and the input left over, in the order
  in which the backtracking engine tries them.  Concatenation tries the successes of
  the first part in order, alternation tries its left branch first, \<open>?\<close> and the
  repetition \<open>*\<close>, \<open>+\<close> of a character class are greedy and give back one character at
  a time.  \<open>re.match\<close> takes the first success at the start of the string;
  \<open>re.search\<close> tries the start positions from left to right; \<open>$\<close> matches at the end
  or before a final newline.
\<close>

type_synonym 'a rx = "string \<Rightarrow> ('a \<times> string) list"

definition rx_empty :: "string rx" where
  "rx_empty s = [([], s)]"

definition rx_class :: "(char \<Rightarrow> bool) \<Rightarrow> string rx" where
  "rx_class P s = (case s of [] \<Rightarrow> [] | c # r \<Rightarrow> if P c then [([c], r)] else [])"

definition rx_lit :: "string \<Rightarrow> string rx" where
  "rx_lit w s = (if prefix w s then [(w, drop (length w) s)] else [])"

definition rx_seq :: "'a rx \<Rightarrow> 'b rx \<Rightarrow> ('a \<times> 'b) rx" where
  "rx_seq p q s = concat (map (\<lambda>(a, r). map (\<lambda>(b, t). ((a, b), t)) (q r)) (p s))"

definition rx_map :: "('a \<Rightarrow> 'b) \<Rightarrow> 'a rx \<Rightarrow> 'b rx" where
  "rx_map f p s = map (\<lambda>(a, r). (f a, r)) (p s)"

definition rx_cat :: "string rx \<Rightarrow> string rx \<Rightarrow> string rx" where
  "rx_cat p q = rx_map (\<lambda>(a, b). a @ b) (rx_seq p q)"

definition rx_alt :: "'a rx \<Rightarrow> 'a rx \<Rightarrow> 'a rx" where
  "rx_alt p q s = p s @ q s"

definition rx_opt :: "string rx \<Rightarrow> string rx" where
  "rx_opt p = rx_alt p rx_empty"

primrec rx_rep :: "nat \<Rightarrow> string rx \<Rightarrow> string rx" where
  "rx_rep 0 p = rx_empty"
| "rx_rep (Suc n) p = rx_cat p (rx_rep n p)"

text \<open>\<open>[...]*\<close> and \<open>[...]+\<close>: the longest run first, then one character less.\<close>
definition rx_star :: "(char \<Rightarrow> bool) \<Rightarrow> string rx" where
  "rx_star P s = map (\<lambda>i. (take i s, drop i s)) (rev [0..<Suc (length (takeWhile P s))])"

definition rx_plus :: "(char \<Rightarrow> bool) \<Rightarrow> string rx" where
  "rx_plus P s = map (\<lambda>i. (take i s, drop i s)) (rev [1..<Suc (length (takeWhile P s))])"

definition rx_eol :: "string rx" where
  "rx_eol s = (if s = [] \<or> s = nl then [([], s)] else [])"

definition re_match :: "'a rx \<Rightarrow> string \<Rightarrow> 'a option" where
  "re_match p s = (case p s of [] \<Rightarrow> None | (a, _) # _ \<Rightarrow> Some a)"

fun re_search :: "'a rx \<Rightarrow> string \<Rightarrow> 'a option" where
  "re_search p s =
     (case re_match p s of
        Some a \<Rightarrow> Some a
      | None \<Rightarrow> (case s of [] \<Rightarrow> None | _ # r \<Rightarrow> re_search p r))"

declare re_search.simps [simp del]

subsection \<open>Matcher algebra\<close>

lemma rx_class_Nil [simp]: "rx_class P [] = []"
  by (simp add: rx_class_def)

lemma rx_class_Cons [simp]: "rx_class P (c # r) = (if P c then [([c], r)] else [])"
  by (simp add: rx_class_def)

lemma rx_cat_class_Nil [simp]: "rx_cat (rx_class P) q [] = []"
  by (simp add: rx_cat_def rx_map_def rx_seq_def)

lemma rx_cat_class_Cons [simp]:
  "rx_cat (rx_class P) q (c # r) = (if P c then map (\<lambda>(b, t). (c # b, t)) (q r) else [])"
  by (simp add: rx_cat_def rx_map_def rx_seq_def comp_def case_prod_beta)

lemma rx_cat_empty [simp]: "rx_cat p rx_empty s = p s"
proof -
  have "\<And>xs :: (string \<times> string) list. rx_cat (\<lambda>_. xs) rx_empty s = xs"
  proof -
    fix xs :: "(string \<times> string) list"
    show "rx_cat (\<lambda>_. xs) rx_empty s = xs"
      by (induction xs) (auto simp: rx_cat_def rx_map_def rx_seq_def rx_empty_def)
  qed
  from this [of "p s"] show ?thesis by (simp add: rx_cat_def rx_map_def rx_seq_def)
qed

lemma rx_alt_set [simp]: "set (rx_alt p q s) = set (p s) \<union> set (q s)"
  by (simp add: rx_alt_def)

lemma rx_cat_set:
  "(m, t) \<in> set (rx_cat p q s) \<longleftrightarrow> (\<exists>a r b. (a, r) \<in> set (p s) \<and> (b, t) \<in> set (q r) \<and> m = a @ b)"
  by (force simp: rx_cat_def rx_map_def rx_seq_def)

text \<open>A fixed number of one character class: one way to match, or none.\<close>
lemma rx_rep_class:
  "rx_rep n (rx_class P) s =
     (if n \<le> length s \<and> list_all P (take n s) then [(take n s, drop n s)] else [])"
proof (induction n arbitrary: s)
  case 0
  then show ?case by (simp add: rx_empty_def)
next
  case (Suc n)
  then show ?case by (cases s) auto
qed

lemma rx_cat_alt: "rx_cat (rx_alt p q) r s = rx_cat p r s @ rx_cat q r s"
  by (simp add: rx_cat_def rx_map_def rx_seq_def rx_alt_def)

lemma rx_cat_empty_left [simp]: "rx_cat rx_empty q s = q s"
  by (simp add: rx_cat_def rx_map_def rx_seq_def rx_empty_def comp_def case_prod_beta)

lemma rx_cat_lit:
  "rx_cat (rx_lit w) q s =
     (if prefix w s then map (\<lambda>(b, t). (w @ b, t)) (q (drop (length w) s)) else [])"
  by (simp add: rx_cat_def rx_map_def rx_seq_def rx_lit_def comp_def case_prod_beta)

lemma re_match_Some:
  "re_match p s = Some a \<longleftrightarrow> (\<exists>r rest. p s = (a, r) # rest)"
  by (auto simp: re_match_def split: list.splits)

lemma re_match_None: "re_match p s = None \<longleftrightarrow> p s = []"
  by (simp add: re_match_def split: list.splits)

lemma re_match_ne_None: "re_match p s \<noteq> None \<longleftrightarrow> (\<exists>a r. (a, r) \<in> set (p s))"
  by (cases "p s") (auto simp: re_match_def)

lemma re_match_SomeD: "re_match p s = Some a \<Longrightarrow> \<exists>r. (a, r) \<in> set (p s)"
  by (auto simp: re_match_Some)

lemma rx_seq_set:
  "((a, b), t) \<in> set (rx_seq p q s) \<longleftrightarrow> (\<exists>r. (a, r) \<in> set (p s) \<and> (b, t) \<in> set (q r))"
  by (force simp: rx_seq_def)

lemma rx_map_set: "(b, t) \<in> set (rx_map f p s) \<longleftrightarrow> (\<exists>a. (a, t) \<in> set (p s) \<and> b = f a)"
  by (force simp: rx_map_def)

lemma rx_lit_set: "(x, r) \<in> set (rx_lit w s) \<longleftrightarrow> x = w \<and> s = w @ r"
  by (auto simp: rx_lit_def prefix_def)

lemma rx_class_set: "(x, r) \<in> set (rx_class P s) \<longleftrightarrow> (\<exists>c. P c \<and> x = [c] \<and> s = c # r)"
  by (cases s) auto

lemma rx_plus_set:
  assumes "(g, t) \<in> set (rx_plus P s)"
  shows "g \<noteq> [] \<and> list_all P g \<and> s = g @ t"
proof -
  obtain i where i: "1 \<le> i" "i \<le> length (takeWhile P s)" "g = take i s" "t = drop i s"
    using assms by (auto simp: rx_plus_def)
  have "take i s = take i (takeWhile P s)"
    using i(2) by (metis min.absorb1 takeWhile_eq_take take_take)
  then have "list_all P g" using i(3) by (auto simp: list_all_iff dest: in_set_takeD set_takeWhileD)
  moreover have "g \<noteq> []" using i by (cases s) auto
  ultimately show ?thesis using i by simp
qed

text \<open>\<open>re.search\<close> finds the first match at the leftmost position where one exists.\<close>
lemma re_search_Some:
  "re_search p s = Some a \<Longrightarrow>
   \<exists>i \<le> length s. re_match p (drop i s) = Some a \<and> (\<forall>j < i. re_match p (drop j s) = None)"
proof (induction s)
  case Nil
  then show ?case by (simp add: re_search.simps split: option.splits)
next
  case (Cons c r)
  show ?case
  proof (cases "re_match p (c # r)")
    case None
    with Cons.prems have "re_search p r = Some a" by (simp add: re_search.simps)
    then obtain i where i: "i \<le> length r" "re_match p (drop i r) = Some a"
      "\<forall>j < i. re_match p (drop j r) = None" using Cons.IH by blast
    have "\<forall>j < Suc i. re_match p (drop j (c # r)) = None"
    proof (intro allI impI)
      fix j assume "j < Suc i"
      with None i(3) show "re_match p (drop j (c # r)) = None" by (cases j) auto
    qed
    with i show ?thesis by (intro exI [of _ "Suc i"]) simp
  next
    case (Some b)
    with Cons.prems show ?thesis by (intro exI [of _ 0]) (simp add: re_search.simps)
  qed
qed

lemma all_le_Suc_conv: "(\<forall>i \<le> Suc n. Q i) \<longleftrightarrow> Q 0 \<and> (\<forall>i \<le> n. Q (Suc i))"
  by (simp only: less_Suc_eq_le [symmetric] All_less_Suc2)

lemma re_search_None:
  "re_search p s = None \<longleftrightarrow> (\<forall>i \<le> length s. re_match p (drop i s) = None)"
proof (induction s)
  case Nil
  then show ?case by (simp add: re_search.simps split: option.splits)
next
  case (Cons c r)
  then show ?case
    by (simp only: length_Cons all_le_Suc_conv drop_Suc_Cons drop_0)
      (simp add: re_search.simps split: option.splits)
qed

end
