(* ===== verification/Helpers.thy ===== *)
theory Helpers
  imports Complex_Main Py_Regex
begin

text \<open>
  The utility functions of \<open>src/app/utils/helpers.py\<close>.  Regular expressions are
  translated into matchers that follow Python's \<open>re\<close> semantics for these patterns:
  \<open>re.match\<close> anchors at the start, \<open>re.search\<close> tries the start positions from
  left to right and returns the first match, \<open>$\<close> also matches before a final newline,
  and alternatives are tried in order.  \<open>\d\<close> and \<open>\s\<close> are the ASCII digits and
  whitespace (Python also accepts other Unicode digits and spaces, which a byte string
  cannot hold as one character).  \<open>int()\<close> of a string is \<open>py_int\<close>: surrounding
  whitespace, an optional sign and decimal digits with single underscores between them;
  anything else raises \<open>ValueError\<close> (\<open>None\<close>).
\<close>

definition is_digit :: "char \<Rightarrow> bool" where
  "is_digit c \<longleftrightarrow> (let n = (of_char c :: nat) in 48 \<le> n \<and> n \<le> 57)"

definition nonzero_digit :: "char \<Rightarrow> bool" where
  "nonzero_digit c \<longleftrightarrow> is_digit c \<and> c \<noteq> CHR ''0''"

text \<open>A string of ASCII characters: the inputs on which Python's Unicode character
  classes coincide with the byte classes of the model.\<close>
definition is_ascii :: "string \<Rightarrow> bool" where
  "is_ascii s \<longleftrightarrow> list_all (\<lambda>c. of_char c < (128 :: nat)) s"

definition one_of :: "string \<Rightarrow> char \<Rightarrow> bool" where
  "one_of cs c \<longleftrightarrow> c \<in> set cs"

definition digit_value :: "char \<Rightarrow> nat" where
  "digit_value c = of_char c - 48"

definition decimal_value :: "string \<Rightarrow> nat" where
  "decimal_value s = foldl (\<lambda>n c. 10 * n + digit_value c) 0 s"

text \<open>The body of a base-10 literal: digits, with single underscores between digits.\<close>
definition int_body :: "string \<Rightarrow> bool" where
  "int_body s \<longleftrightarrow>
     s \<noteq> [] \<and> is_digit (hd s) \<and> is_digit (last s) \<and>
     list_all (\<lambda>c. is_digit c \<or> c = CHR ''_'') s \<and> \<not> sublist ''__'' s"

definition py_int :: "string \<Rightarrow> int option" where
  "py_int s =
     (let t = py_strip s in
      case t of
        [] \<Rightarrow> None
      | c # r \<Rightarrow>
          (let (sign, body) = (if c = CHR ''-'' then (-1, r) else if c = CHR ''+'' then (1, r) else (1, t))
           in if int_body body then Some (sign * int (decimal_value (filter is_digit body))) else None))"

text \<open>\<open>str(n)\<close> for a natural number.\<close>
fun nat_str :: "nat \<Rightarrow> string" where
  "nat_str n = (if n < 10 then [char_of (48 + n)] else nat_str (n div 10) @ [char_of (48 + n mod 10)])"

declare nat_str.simps [simp del]

subsection \<open>Validators\<close>

text \<open>\<open>[1-9]\d{9}\<close> as ten characters: not part of the code, the shape the
  validator accepts.\<close>
definition ten_digit_number :: "string \<Rightarrow> bool" where
  "ten_digit_number s \<longleftrightarrow>
     length s = 10 \<and> list_all is_digit s \<and> hd s \<noteq> CHR ''0''"

text \<open>\<open>\+?[1-9]\d{9}\<close>\<close>
definition phone_rx :: "string rx" where
  "phone_rx =
     rx_cat (rx_opt (rx_lit ''+'')) (rx_cat (rx_class nonzero_digit) (rx_rep 9 (rx_class is_digit)))"

text \<open>\<open>bool(re.match(r'^\+?[1-9]\d{9}$', phone))\<close>.  Characters are bytes: Python's
  \<open>\d\<close> on a \<open>str\<close> also matches the non-ASCII Unicode decimal digits, which the byte
  classes here do not, so the model agrees with the code on ASCII strings.\<close>
definition validate_phone_number :: "string \<Rightarrow> bool" where
  "validate_phone_number phone = (re_match (rx_cat phone_rx rx_eol) phone \<noteq> None)"

text \<open>The directives of \<open>_strptime.TimeRE\<close> used by the sources:
  \<open>%Y = \d\d\d\d\<close>, \<open>%m = 1[0-2]|0[1-9]|[1-9]\<close>,
  \<open>%d = 3[0-1]|[1-2]\d|0[1-9]|[1-9]| [1-9]\<close>, \<open>%H = 2[0-3]|[0-1]\d|\d\<close>,
  \<open>%M = [0-5]\d|\d\<close>.\<close>
definition strp_Y :: "string rx" where
  "strp_Y = rx_rep 4 (rx_class is_digit)"

definition strp_m :: "string rx" where
  "strp_m =
     rx_alt (rx_cat (rx_lit ''1'') (rx_class (one_of ''012'')))
      (rx_alt (rx_cat (rx_lit ''0'') (rx_class nonzero_digit)) (rx_class nonzero_digit))"

definition strp_d :: "string rx" where
  "strp_d =
     rx_alt (rx_cat (rx_lit ''3'') (rx_class (one_of ''01'')))
      (rx_alt (rx_cat (rx_class (one_of ''12'')) (rx_class is_digit))
       (rx_alt (rx_cat (rx_lit ''0'') (rx_class nonzero_digit))
        (rx_alt (rx_class nonzero_digit) (rx_cat (rx_lit '' '') (rx_class nonzero_digit)))))"

definition strp_H :: "string rx" where
  "strp_H =
     rx_alt (rx_cat (rx_lit ''2'') (rx_class (one_of ''0123'')))
      (rx_alt (rx_cat (rx_class (one_of ''01'')) (rx_class is_digit)) (rx_class is_digit))"

definition strp_M :: "string rx" where
  "strp_M = rx_alt (rx_cat (rx_class (one_of ''012345'')) (rx_class is_digit)) (rx_class is_digit)"

text \<open>The regular expressions of the formats \<open>'%Y-%m-%d'\<close> and \<open>'%H:%M'\<close>, with
  their groups.\<close>
definition date_format_rx :: "(string \<times> string \<times> string) rx" where
  "date_format_rx =
     rx_map (\<lambda>(y, _, m, _, d). (y, m, d))
       (rx_seq strp_Y (rx_seq (rx_lit ''-'') (rx_seq strp_m (rx_seq (rx_lit ''-'') strp_d))))"

definition time_format_rx :: "(string \<times> string) rx" where
  "time_format_rx = rx_map (\<lambda>(h, _, m). (h, m)) (rx_seq strp_H (rx_seq (rx_lit '':'') strp_M))"

text \<open>\<open>_strptime\<close>: the first match of \<open>format_regex.match\<close>, refused when data
  remains after it (\<open>ValueError\<close>, here \<open>None\<close>).\<close>
definition strptime_match :: "'a rx \<Rightarrow> string \<Rightarrow> 'a option" where
  "strptime_match p s = (case p s of [] \<Rightarrow> None | (a, r) # _ \<Rightarrow> if r = [] then Some a else None)"

definition is_leap :: "int \<Rightarrow> bool" where
  "is_leap y \<longleftrightarrow> y mod 4 = 0 \<and> (y mod 100 \<noteq> 0 \<or> y mod 400 = 0)"

definition days_in_month :: "int \<Rightarrow> int \<Rightarrow> int" where
  "days_in_month y m =
     (if m = 2 then (if is_leap y then 29 else 28)
      else if m \<in> {4, 6, 9, 11} then 30 else 31)"

text \<open>The range checks of \<open>datetime.date(year, month, day)\<close>.\<close>
definition valid_ymd :: "int \<Rightarrow> int \<Rightarrow> int \<Rightarrow> bool" where
  "valid_ymd y m d \<longleftrightarrow>
     1 \<le> y \<and> y \<le> 9999 \<and> 1 \<le> m \<and> m \<le> 12 \<and> 1 \<le> d \<and> d \<le> days_in_month y m"

definition validate_date :: "string \<Rightarrow> bool" where
  "validate_date date_str =
     (case strptime_match date_format_rx date_str of
        None \<Rightarrow> False
      | Some (y, m, d) \<Rightarrow>
          (case (py_int y, py_int m, py_int d) of
             (Some year, Some month, Some day) \<Rightarrow> valid_ymd year month day
           | _ \<Rightarrow> False))"

text \<open>\<open>datetime.strptime(s, '%H:%M')\<close> as (hour, minute); the date part is
  1900-01-01, which is valid.\<close>
definition strptime_hm :: "string \<Rightarrow> (int \<times> int) option" where
  "strptime_hm s =
     (case strptime_match time_format_rx s of
        None \<Rightarrow> None
      | Some (h, m) \<Rightarrow>
          (case (py_int h, py_int m) of (Some hour, Some minute) \<Rightarrow> Some (hour, minute) | _ \<Rightarrow> None))"

definition validate_time :: "string \<Rightarrow> bool" where
  "validate_time time_str = (case strptime_hm time_str of None \<Rightarrow> False | Some _ \<Rightarrow> True)"

subsection \<open>Formatting and booking references\<close>

definition py_get :: "(string, string) py_dict \<Rightarrow> string \<Rightarrow> string \<Rightarrow> string" where
  "py_get d k dflt = (case dict_get d k of Some v \<Rightarrow> v | None \<Rightarrow> dflt)"

text \<open>The triple-quoted f-string, each value already rendered by \<open>str\<close>.\<close>
definition format_booking_details :: "(string, string) py_dict \<Rightarrow> string" where
  "format_booking_details booking =
     nl @ ''    Restaurant: '' @ py_get booking ''restaurant'' ''N/A'' @
     nl @ ''    Date: '' @ py_get booking ''date'' ''N/A'' @
     nl @ ''    Time: '' @ py_get booking ''time'' ''N/A'' @
     nl @ ''    Guests: '' @ py_get booking ''guests'' ''N/A'' @
     nl @ ''    Contact: '' @ py_get booking ''contact'' ''N/A'' @
     nl @ ''    ''"

text \<open>\<open>strftime('%Y%m%d%H%M%S')\<close> of (year, month, day, hour, minute, second): the
  year unpadded (glibc), the other fields on two digits.\<close>
definition pad2 :: "nat \<Rightarrow> string" where
  "pad2 n = (if n < 10 then CHR ''0'' # nat_str n else nat_str n)"

definition strftime_ts :: "nat \<times> nat \<times> nat \<times> nat \<times> nat \<times> nat \<Rightarrow> string" where
  "strftime_ts t =
     (case t of (y, mo, d, h, mi, sec) \<Rightarrow>
        nat_str y @ pad2 mo @ pad2 d @ pad2 h @ pad2 mi @ pad2 sec)"

text \<open>The clock reading \<open>datetime.now()\<close> is the argument.\<close>
definition generate_booking_reference :: "nat \<times> nat \<times> nat \<times> nat \<times> nat \<times> nat \<Rightarrow> string" where
  "generate_booking_reference now =
     (let timestamp = strftime_ts now;
          random_suffix = concat (map (\<lambda>c. nat_str (of_char c)) (drop (length timestamp - 4) timestamp))
      in ''BN'' @ timestamp @ random_suffix)"

subsection \<open>Parsing a booking message\<close>

record parsed_input =
  pi_date :: "string option"
  pi_time :: "string option"
  pi_guests :: "int option"
  pi_contact :: "string option"

definition date_rx :: "string rx" where
  "date_rx =
     rx_cat (rx_rep 4 (rx_class is_digit))
       (rx_cat (rx_lit ''-'') (rx_cat (rx_rep 2 (rx_class is_digit))
         (rx_cat (rx_lit ''-'') (rx_rep 2 (rx_class is_digit)))))"

definition time_rx :: "string rx" where
  "time_rx = rx_cat (rx_rep 2 (rx_class is_digit)) (rx_cat (rx_lit '':'') (rx_rep 2 (rx_class is_digit)))"

text \<open>\<open>(\d+)\s*(?:guests?|people|persons?)\<close>, reporting group 1.\<close>
definition guests_rx :: "string rx" where
  "guests_rx =
     rx_map fst (rx_seq (rx_plus is_digit)
       (rx_cat (rx_star py_is_space)
         (rx_alt (rx_cat (rx_lit ''guest'') (rx_opt (rx_lit ''s'')))
           (rx_alt (rx_lit ''people'') (rx_cat (rx_lit ''person'') (rx_opt (rx_lit ''s'')))))))"

text \<open>The four searches in order; \<open>int(guests_match.group(1))\<close> raises
  \<open>ValueError\<close> (\<open>Inl\<close>) when the group is not a literal.\<close>
definition parse_user_input :: "string \<Rightarrow> string + parsed_input" where
  "parse_user_input input_text =
     (let date = re_search date_rx input_text;
          time = re_search time_rx input_text;
          phone = re_search phone_rx input_text
      in case re_search guests_rx (py_lower input_text) of
           None \<Rightarrow> Inr \<lparr>pi_date = date, pi_time = time, pi_guests = None, pi_contact = phone\<rparr>
         | Some g \<Rightarrow>
             (case py_int g of
                None \<Rightarrow> Inl ''ValueError''
              | Some n \<Rightarrow> Inr \<lparr>pi_date = date, pi_time = time, pi_guests = Some n, pi_contact = phone\<rparr>))"

subsection \<open>Durations, sanitising, time slots\<close>

text \<open>\<open>round(x, 2)\<close> of the hours.  The exact value is a multiple of 1/60, never
  half-way between two hundredths, and the binary double is within far less than that
  distance of it, so Python's rounding of the double agrees with the rounding of the
  exact value; the float returned is the double nearest to this rational.\<close>
definition py_round2 :: "rat \<Rightarrow> rat" where
  "py_round2 x = of_int (round (100 * x)) / 100"

definition calculate_booking_duration :: "string \<Rightarrow> string \<Rightarrow> rat" where
  "calculate_booking_duration start_time end_time =
     (case (strptime_hm start_time, strptime_hm end_time) of
        (Some (sh, sm), Some (eh, em)) \<Rightarrow>
          py_round2 (of_int ((eh * 60 + em) - (sh * 60 + sm)) / 60)
      | _ \<Rightarrow> 0)"

text \<open>\<open>re.sub(r'[<>{}[\]\\]', '', text).strip()\<close>\<close>
definition sanitize_forbidden :: "char \<Rightarrow> bool" where
  "sanitize_forbidden c \<longleftrightarrow> c \<in> set ''<>{}[]'' \<or> c = CHR 0x5C"

definition sanitize_input :: "string \<Rightarrow> string" where
  "sanitize_input text = py_strip (filter (\<lambda>c. \<not> sanitize_forbidden c) text)"

text \<open>\<open>f"\<dots>{amount:,.2f}"\<close> rounds the exact value of the float to cents, half to even,
  as CPython's correctly rounded float formatting does.\<close>
definition round_half_even :: "rat \<Rightarrow> int" where
  "round_half_even x =
     (let f = \<lfloor>x\<rfloor>; d = x - of_int f
      in if d < 1/2 then f else if 1/2 < d then f + 1 else if even f then f else f + 1)"

text \<open>The \<open>,\<close> option: a comma between groups of three digits from the right.\<close>
fun group_rev :: "string \<Rightarrow> string" where
  "group_rev (a # b # c # d # r) = a # b # c # CHR '','' # group_rev (d # r)"
| "group_rev s = s"

definition group_digits :: "string \<Rightarrow> string" where
  "group_digits s = rev (group_rev (rev s))"

text \<open>The rupee sign U+20B9 as its UTF-8 bytes.\<close>
definition rupee_sign :: string where
  "rupee_sign = [CHR 0xE2, CHR 0x82, CHR 0xB9]"

definition format_currency :: "rat \<Rightarrow> string" where
  "format_currency amount =
     (let cents = nat (round_half_even (\<bar>amount\<bar> * 100))
      in rupee_sign @ (if amount < 0 then ''-'' else []) @
         group_digits (nat_str (cents div 100)) @ ''.'' @ pad2 (cents mod 100))"

text \<open>\<open>int(time.split(':')[0])\<close>, then the four ranges.\<close>
definition time_slot_of_hour :: "int \<Rightarrow> string" where
  "time_slot_of_hour hour =
     (if 6 \<le> hour \<and> hour < 12 then ''Morning''
      else if 12 \<le> hour \<and> hour < 17 then ''Afternoon''
      else if 17 \<le> hour \<and> hour < 22 then ''Evening''
      else ''Night'')"

definition get_time_slot :: "string \<Rightarrow> string + string" where
  "get_time_slot time =
     (case py_int (takeWhile (\<lambda>c. c \<noteq> CHR '':'') time) of
        None \<Rightarrow> Inl ''ValueError''
      | Some hour \<Rightarrow> Inr (time_slot_of_hour hour))"

subsection \<open>Digits and \<open>int()\<close>\<close>

lemma digit_not_space: "is_digit c \<Longrightarrow> \<not> py_is_space c"
  by (simp add: is_digit_def py_is_space_def Let_def)

lemma digit_not_sign: "is_digit c \<Longrightarrow> c \<noteq> CHR ''-'' \<and> c \<noteq> CHR ''+'' \<and> c \<noteq> CHR ''_''"
  by (auto simp: is_digit_def)

lemma py_strip_digits:
  assumes "s \<noteq> []" "list_all is_digit s"
  shows "py_strip s = s"
proof -
  have h: "\<not> py_is_space (hd s)" and l: "\<not> py_is_space (last s)"
    using assms by (simp_all add: list_all_iff digit_not_space)
  have "dropWhile py_is_space s = s" using assms(1) h by (rule dropWhile_hd_keep)
  moreover have "dropWhile py_is_space (rev s) = rev s"
    using assms(1) l by (intro dropWhile_hd_keep) (simp_all add: hd_rev)
  ultimately show ?thesis by (simp add: py_strip_def)
qed

lemma py_int_digits:
  assumes "s \<noteq> []" "list_all is_digit s"
  shows "py_int s = Some (int (decimal_value s))"
proof -
  obtain c r where s: "s = c # r" using assms(1) by (cases s) auto
  have c: "c \<noteq> CHR ''-'' \<and> c \<noteq> CHR ''+''" using assms(2) s digit_not_sign by simp
  have nu: "CHR ''_'' \<notin> set s" using assms(2) digit_not_sign by (auto simp: list_all_iff)
  have "\<not> sublist ''__'' s"
  proof
    assume "sublist ''__'' s"
    then have "set ''__'' \<subseteq> set s" by (rule set_mono_sublist)
    with nu show False by simp
  qed
  then have "int_body s"
    using assms by (simp add: int_body_def list_all_iff last_in_set)
  moreover have "filter is_digit s = s" using assms(2) by (simp add: list_all_iff)
  ultimately show ?thesis
    using assms c by (simp add: py_int_def py_strip_digits s)
qed

lemma digit_value_le: "is_digit c \<Longrightarrow> digit_value c \<le> 9"
  unfolding is_digit_def digit_value_def Let_def by linarith

lemma decimal_value_one: "decimal_value [a] = digit_value a"
  by (simp add: decimal_value_def)

lemma decimal_value_two: "decimal_value [a, b] = 10 * digit_value a + digit_value b"
  by (simp add: decimal_value_def)

lemma decimal_value_snoc: "decimal_value (s @ [c]) = 10 * decimal_value s + digit_value c"
  by (simp add: decimal_value_def)

lemma decimal_value_less: "list_all is_digit s \<Longrightarrow> decimal_value s < 10 ^ length s"
proof (induction s rule: rev_induct)
  case Nil
  then show ?case by (simp add: decimal_value_def)
next
  case (snoc c s)
  then have "decimal_value s < 10 ^ length s" "digit_value c \<le> 9" by (simp_all add: digit_value_le)
  then show ?case by (simp add: decimal_value_snoc)
qed

lemma digit_char_of: "(k :: nat) < 10 \<Longrightarrow> is_digit (char_of (48 + k))"
  by (simp add: is_digit_def)

lemma nat_str_digits: "list_all is_digit (nat_str n)"
proof (induction n rule: nat_str.induct)
  case (1 n)
  then show ?case by (subst nat_str.simps) (simp add: digit_char_of)
qed

lemma nat_str_small: "n < 10 \<Longrightarrow> nat_str n = [char_of (48 + n)]"
  by (subst nat_str.simps) simp

lemma length_nat_str:
  "10 ^ k \<le> n \<Longrightarrow> n < 10 ^ Suc k \<Longrightarrow> length (nat_str n) = Suc k"
proof (induction k arbitrary: n)
  case 0
  then show ?case by (simp add: nat_str_small)
next
  case (Suc k)
  have "10 ^ k \<le> n div 10" "n div 10 < 10 ^ Suc k"
    using Suc.prems by (simp_all add: less_eq_div_iff_mult_less_eq div_less_iff_less_mult mult.commute)
  with Suc.IH have "length (nat_str (n div 10)) = Suc k" by blast
  moreover have "(10::nat) \<le> 10 ^ Suc k" using one_le_power [of "10::nat" k] by simp
  then have "\<not> n < 10" using Suc.prems(1) by linarith
  ultimately show ?case by (subst nat_str.simps) simp
qed

lemma length_pad2: "n < 100 \<Longrightarrow> length (pad2 n) = 2"
  using length_nat_str [of 1 n] by (simp add: pad2_def nat_str_small)

lemma pad2_digits: "list_all is_digit (pad2 n)"
  by (simp add: pad2_def nat_str_digits is_digit_def)

lemma length_nat_str_code: "is_digit c \<Longrightarrow> length (nat_str (of_char c)) = 2"
  using length_nat_str [of 1 "of_char c"] by (simp add: is_digit_def Let_def)

lemma digit_value_char_of: "k < 10 \<Longrightarrow> digit_value (char_of (48 + k)) = k"
  by (simp add: digit_value_def)

lemma decimal_value_nat_str [simp]: "decimal_value (nat_str n) = n"
proof (induction n rule: nat_str.induct)
  case (1 n)
  then show ?case
    by (subst nat_str.simps) (simp add: decimal_value_one decimal_value_snoc digit_value_char_of)
qed

lemma filter_group_rev: "\<not> P CHR '','' \<Longrightarrow> filter P (group_rev s) = filter P s"
  by (induction s rule: group_rev.induct) auto

lemma group_digits_filter: "\<not> P CHR '','' \<Longrightarrow> filter P (group_digits s) = filter P s"
  by (simp add: group_digits_def rev_filter [symmetric] filter_group_rev)

lemma decimal_value_append:
  "decimal_value (s @ t) = 10 ^ length t * decimal_value s + decimal_value t"
proof (induction t rule: rev_induct)
  case Nil
  then show ?case by (simp add: decimal_value_def)
next
  case (snoc c t)
  then show ?case by (simp add: decimal_value_snoc append_assoc [symmetric] del: append_assoc)
qed

lemma decimal_value_pad2: "decimal_value (pad2 n) = n"
  using decimal_value_append [of "[CHR ''0'']" "nat_str n"]
  by (simp add: pad2_def decimal_value_one digit_value_def)

lemma filter_digits_id: "list_all is_digit s \<Longrightarrow> filter is_digit s = s"
  by (simp add: list_all_iff)

lemma round_half_even_bound: "\<bar>x - of_int (round_half_even x)\<bar> \<le> 1/2"
proof -
  have "of_int \<lfloor>x\<rfloor> \<le> x" "x < of_int \<lfloor>x\<rfloor> + 1" using floor_correct [of x] by simp_all
  then show ?thesis by (auto simp: round_half_even_def Let_def abs_if; linarith)
qed


text \<open>Reading the printed amount back (the digits after the sign) gives the amount
  rounded to cents, within half a cent of the amount.\<close>
lemma format_currency_readback:
  "\<exists>body. format_currency x = rupee_sign @ (if x < 0 then ''-'' else []) @ body \<and>
     decimal_value (filter is_digit body) = nat (round_half_even (\<bar>x\<bar> * 100)) \<and>
     \<bar>\<bar>x\<bar> * 100 - of_int (round_half_even (\<bar>x\<bar> * 100))\<bar> \<le> 1/2"
proof -
  define c where "c = nat (round_half_even (\<bar>x\<bar> * 100))"
  have nd: "\<not> is_digit CHR '',''" by (simp add: is_digit_def)
  have "filter is_digit (group_digits (nat_str (c div 100)) @ ''.'' @ pad2 (c mod 100)) =
        nat_str (c div 100) @ pad2 (c mod 100)"
    by (simp add: group_digits_filter [of is_digit, OF nd] filter_digits_id nat_str_digits pad2_digits is_digit_def)
  moreover have "decimal_value (nat_str (c div 100) @ pad2 (c mod 100)) = c"
    by (simp add: decimal_value_append length_pad2 decimal_value_pad2)
  moreover have "format_currency x = rupee_sign @ (if x < 0 then ''-'' else []) @
      (group_digits (nat_str (c div 100)) @ ''.'' @ pad2 (c mod 100))"
    by (simp add: format_currency_def Let_def c_def)
  ultimately show ?thesis
    using round_half_even_bound [of "\<bar>x\<bar> * 100"] by (auto simp only: c_def)
qed

lemma length_concat_two:
  "(\<And>c. c \<in> set xs \<Longrightarrow> length (f c) = 2) \<Longrightarrow> length (concat (map f xs)) = 2 * length xs"
  by (induction xs) auto

subsection \<open>The matchers of the validators and the parser\<close>

lemma ten_digits_set:
  "(m, t) \<in> set (rx_cat (rx_class nonzero_digit) (rx_rep 9 (rx_class is_digit)) s) \<longleftrightarrow>
   ten_digit_number m \<and> s = m @ t"
proof (cases s)
  case Nil
  then show ?thesis by (auto simp: ten_digit_number_def)
next
  case (Cons c r)
  show ?thesis
  proof
    assume "(m, t) \<in> set (rx_cat (rx_class nonzero_digit) (rx_rep 9 (rx_class is_digit)) s)"
    then show "ten_digit_number m \<and> s = m @ t"
      using Cons by (auto simp: rx_rep_class ten_digit_number_def nonzero_digit_def split: if_splits)
  next
    assume m: "ten_digit_number m \<and> s = m @ t"
    then obtain m' where "m = c # m'" "r = m' @ t" "length m' = 9"
      using Cons by (cases m) (auto simp: ten_digit_number_def)
    with m show "(m, t) \<in> set (rx_cat (rx_class nonzero_digit) (rx_rep 9 (rx_class is_digit)) s)"
      using Cons by (simp add: rx_rep_class ten_digit_number_def nonzero_digit_def)
  qed
qed

lemma phone_rx_set:
  "(m, t) \<in> set (phone_rx s) \<longleftrightarrow>
   (\<exists>d. ten_digit_number d \<and> (s = d @ t \<and> m = d \<or> s = ''+'' @ d @ t \<and> m = ''+'' @ d))"
  unfolding phone_rx_def rx_opt_def rx_cat_alt rx_cat_lit rx_cat_empty_left
  by (auto simp: ten_digits_set prefix_def)

lemma validate_phone_number_set:
  "validate_phone_number p \<longleftrightarrow> (\<exists>m t. (m, t) \<in> set (phone_rx p) \<and> (t = [] \<or> t = nl))"
proof -
  have "validate_phone_number p \<longleftrightarrow> (\<exists>a r. (a, r) \<in> set (rx_cat phone_rx rx_eol p))"
    by (simp only: validate_phone_number_def re_match_ne_None)
  also have "\<dots> \<longleftrightarrow> (\<exists>m t. (m, t) \<in> set (phone_rx p) \<and> (t = [] \<or> t = nl))"
    by (auto simp: rx_cat_set rx_eol_def split: if_splits)
  finally show ?thesis .
qed

lemma phone_rx_whole:
  assumes "ten_digit_number d"
  shows "(d, []) \<in> set (phone_rx d)" "(d, nl) \<in> set (phone_rx (d @ nl))"
    "(''+'' @ d, []) \<in> set (phone_rx (''+'' @ d))" "(''+'' @ d, nl) \<in> set (phone_rx (''+'' @ d @ nl))"
  using assms by (auto simp: phone_rx_set)

lemma phone_match_valid: "(c, r) \<in> set (phone_rx s) \<Longrightarrow> validate_phone_number c"
  unfolding validate_phone_number_set phone_rx_set using phone_rx_whole by (auto simp: nl_def) blast+

lemma strptime_match_SomeD: "strptime_match p s = Some a \<Longrightarrow> (a, []) \<in> set (p s)"
  by (auto simp: strptime_match_def split: list.splits if_splits)

lemma strp_H_set:
  "(x, r) \<in> set (strp_H s) \<Longrightarrow>
   s = x @ r \<and> x \<noteq> [] \<and> list_all is_digit x \<and> decimal_value x \<le> 23"
  by (auto simp: strp_H_def rx_cat_set rx_lit_set rx_class_set one_of_def
      decimal_value_two decimal_value_one digit_value_le digit_value_def is_digit_def Let_def)

lemma strp_M_set:
  "(x, r) \<in> set (strp_M s) \<Longrightarrow>
   s = x @ r \<and> x \<noteq> [] \<and> list_all is_digit x \<and> decimal_value x \<le> 59"
  by (auto simp: strp_M_def rx_cat_set rx_class_set one_of_def
      decimal_value_two decimal_value_one digit_value_le digit_value_def is_digit_def Let_def)

lemma strptime_hm_SomeD:
  assumes "strptime_hm t = Some (h, m)"
  shows "\<exists>hs ms. t = hs @ '':'' @ ms \<and> hs \<noteq> [] \<and> list_all is_digit hs \<and> ms \<noteq> [] \<and>
           list_all is_digit ms \<and> h = int (decimal_value hs) \<and> m = int (decimal_value ms) \<and>
           decimal_value hs \<le> 23 \<and> decimal_value ms \<le> 59"
proof -
  obtain hs ms where sm: "strptime_match time_format_rx t = Some (hs, ms)"
    and hm: "py_int hs = Some h" "py_int ms = Some m"
    using assms by (auto simp: strptime_hm_def split: option.splits prod.splits)
  from strptime_match_SomeD [OF sm] obtain r r' c where
    "(hs, r) \<in> set (strp_H t)" "(c, r') \<in> set (rx_lit '':'' r)" "(ms, []) \<in> set (strp_M r')"
    by (auto simp: time_format_rx_def rx_map_set rx_seq_set)
  then have "t = hs @ '':'' @ ms" and H: "hs \<noteq> [] \<and> list_all is_digit hs \<and> decimal_value hs \<le> 23"
    and M: "ms \<noteq> [] \<and> list_all is_digit ms \<and> decimal_value ms \<le> 59"
    by (auto dest!: strp_H_set strp_M_set simp: rx_lit_set)
  with hm show ?thesis by (auto simp: py_int_digits)
qed

lemma takeWhile_digits_colon:
  "list_all is_digit hs \<Longrightarrow> takeWhile (\<lambda>c. c \<noteq> CHR '':'') (hs @ CHR '':'' # ms) = hs"
  by (induction hs) (auto simp: is_digit_def)

lemma strptime_hm_range:
  "strptime_hm t = Some (h, m) \<Longrightarrow> 0 \<le> h \<and> h \<le> 23 \<and> 0 \<le> m \<and> m \<le> 59"
  by (drule strptime_hm_SomeD) auto

lemma py_round2_bound:
  assumes "\<bar>x\<bar> \<le> 1439 / 60"
  shows "\<bar>py_round2 x\<bar> \<le> 2398 / 100"
proof -
  let ?r = "round (100 * x)"
  have "of_int ?r \<le> 100 * x + 1 / 2" by (rule of_int_round_le)
  moreover have "100 * x - 1 / 2 \<le> of_int ?r" by (rule of_int_round_ge)
  ultimately have "(of_int ?r :: rat) < 2399" "- 2399 < (of_int ?r :: rat)"
    using assms by (auto simp: abs_le_iff)
  then have "?r \<le> 2398" "- 2398 \<le> ?r" by simp_all
  then show ?thesis by (simp add: py_round2_def abs_le_iff)
qed

lemma py_round2_neg: "x \<le> - 1 / 60 \<Longrightarrow> py_round2 x < 0"
proof -
  assume x: "x \<le> - 1 / 60"
  have "100 * x + 1 / 2 < 0" using x by linarith
  then have "round (100 * x) < 0" by (simp add: round_def floor_less_zero)
  then show ?thesis by (simp add: py_round2_def)
qed

lemma date_format_rx_leap_day:
  assumes "length y = 4" "list_all is_digit y"
  shows "strptime_match date_format_rx (y @ ''-02-29'') = Some (y, ''02'', ''29'')"
proof -
  have Y: "strp_Y (y @ ''-02-29'') = [(y, ''-02-29'')]"
    using assms by (simp add: strp_Y_def rx_rep_class)
  show ?thesis
    by (simp add: strptime_match_def date_format_rx_def rx_map_def rx_seq_def Y rx_lit_def
        strp_m_def strp_d_def rx_alt_def rx_cat_lit one_of_def nonzero_digit_def is_digit_def)
qed

lemma guests_rx_digits:
  "re_search guests_rx s = Some g \<Longrightarrow> g \<noteq> [] \<and> list_all is_digit g"
  by (auto dest!: re_search_Some re_match_SomeD rx_plus_set simp: guests_rx_def rx_map_set rx_seq_set)

lemma parse_user_input_fields:
  "parse_user_input s = Inr r \<Longrightarrow>
   pi_date r = re_search date_rx s \<and> pi_time r = re_search time_rx s \<and> pi_contact r = re_search phone_rx s"
  by (auto simp: parse_user_input_def Let_def split: option.splits)

lemma sanitize_clean_part:
  "list_all (\<lambda>c. \<not> sanitize_forbidden c) (py_strip (filter (\<lambda>c. \<not> sanitize_forbidden c) s))"
  unfolding list_all_iff
proof
  fix c
  assume "c \<in> set (py_strip (filter (\<lambda>c. \<not> sanitize_forbidden c) s))"
  then have "c \<in> set (filter (\<lambda>c. \<not> sanitize_forbidden c) s)" using set_py_strip by blast
  then show "\<not> sanitize_forbidden c" by simp
qed

subsection \<open>Properties\<close>

text \<open>C24: On ASCII input the phone validator accepts exactly ten digits not starting with 0, optionally preceded by a plus sign, optionally followed by one final newline (which \<open>$\<close> lets through).\<close>
lemma validate_phone_number_iff:
  assumes "is_ascii p"
  shows "validate_phone_number p \<longleftrightarrow>
     (\<exists>d. ten_digit_number d \<and> (p = d \<or> p = d @ nl \<or> p = ''+'' @ d \<or> p = ''+'' @ d @ nl))"
proof
  assume "validate_phone_number p"
  then show "\<exists>d. ten_digit_number d \<and> (p = d \<or> p = d @ nl \<or> p = ''+'' @ d \<or> p = ''+'' @ d @ nl)"
    unfolding validate_phone_number_set phone_rx_set by auto
next
  assume "\<exists>d. ten_digit_number d \<and> (p = d \<or> p = d @ nl \<or> p = ''+'' @ d \<or> p = ''+'' @ d @ nl)"
  then obtain d where d: "ten_digit_number d"
    and p: "p = d \<or> p = d @ nl \<or> p = ''+'' @ d \<or> p = ''+'' @ d @ nl" by blast
  from p show "validate_phone_number p"
    unfolding validate_phone_number_set using phone_rx_whole [OF d] by (elim disjE) (force simp: nl_def)+
qed

lemma validate_phone_number_iff_witness:
  "validate_phone_number (''+'' @ ''9876543210'' @ nl)"
proof -
  have a: "is_ascii (''+'' @ ''9876543210'' @ nl)" by (simp add: is_ascii_def nl_def)
  have d: "ten_digit_number ''9876543210''" by code_simp
  show ?thesis using validate_phone_number_iff [OF a] d by blast
qed

text \<open>Every contact number that the booking-message parser extracts passes the phone validator.\<close>
lemma parse_contact_valid:
  "parse_user_input s = Inr r \<Longrightarrow> pi_contact r = Some c \<Longrightarrow> validate_phone_number c"
  by (auto dest!: parse_user_input_fields re_search_Some re_match_SomeD intro: phone_match_valid)

lemma parse_contact_valid_witness:
  "parse_user_input ''call 9876543210'' = Inr \<lparr>pi_date = None, pi_time = None, pi_guests = None, pi_contact = Some ''9876543210''\<rparr>
   \<and> pi_contact \<lparr>pi_date = None, pi_time = None, pi_guests = None, pi_contact = Some ''9876543210''\<rparr> = Some ''9876543210''
   \<and> validate_phone_number ''9876543210''"
proof -
  have p: "parse_user_input ''call 9876543210'' = Inr \<lparr>pi_date = None, pi_time = None, pi_guests = None, pi_contact = Some ''9876543210''\<rparr>"
    by code_simp
  show ?thesis using parse_contact_valid [OF p] p by simp
qed

text \<open>The booking-message parser never raises: the guest count it converts with \<open>int()\<close> is always a digit string.\<close>
lemma parse_user_input_total: "\<exists>r. parse_user_input s = Inr r"
  by (auto simp: parse_user_input_def Let_def py_int_digits dest!: guests_rx_digits split: option.splits)

text \<open>Finding: A number written with the country code, +91 followed by ten digits, is rejected by the validator, and the parser extracts a truncated contact: the plus sign, the 91 and only eight digits of the number.\<close>
lemma parse_country_code:
  "parse_user_input ''+919876543210'' =
     Inr \<lparr>pi_date = None, pi_time = None, pi_guests = None, pi_contact = Some ''+9198765432''\<rparr> \<and>
   \<not> validate_phone_number ''+919876543210''"
  by code_simp


text \<open>For every time that \<open>strptime(t, '%H:%M')\<close> accepts, \<open>get_time_slot\<close> does not raise and classifies the same hour.\<close>
lemma get_time_slot_strptime:
  "strptime_hm t = Some (h, m) \<Longrightarrow> get_time_slot t = Inr (time_slot_of_hour h)"
  by (drule strptime_hm_SomeD) (auto simp: get_time_slot_def takeWhile_digits_colon py_int_digits)

lemma get_time_slot_strptime_witness:
  "strptime_hm ''19:30'' = Some (19, 30) \<and> get_time_slot ''19:30'' = Inr (time_slot_of_hour 19)"
proof -
  have s: "strptime_hm ''19:30'' = Some (19, 30)" by code_simp
  show ?thesis using get_time_slot_strptime [OF s] s by simp
qed

text \<open>A 29 February date with a four-digit year from 0001 to 9999 is valid exactly in the leap years of the Gregorian calendar.\<close>
lemma validate_date_leap_day:
  assumes "length y = 4" "list_all is_digit y" "1 \<le> decimal_value y"
  shows "validate_date (y @ ''-02-29'') \<longleftrightarrow> is_leap (int (decimal_value y))"
proof -
  have "decimal_value y < 10000" using decimal_value_less [OF assms(2)] assms(1) by simp
  moreover have "py_int ''02'' = Some 2" "py_int ''29'' = Some 29" by code_simp+
  moreover have "py_int y = Some (int (decimal_value y))" using assms by (intro py_int_digits) auto
  ultimately show ?thesis using assms(3)
    by (simp add: validate_date_def date_format_rx_leap_day [OF assms(1,2)] valid_ymd_def days_in_month_def)
qed

lemma validate_date_leap_day_witness:
  "length ''2024'' = 4 \<and> list_all is_digit ''2024'' \<and> 1 \<le> decimal_value ''2024'' \<and>
   (validate_date (''2024'' @ ''-02-29'') \<longleftrightarrow> is_leap (int (decimal_value ''2024'')))"
proof -
  have h: "length ''2024'' = 4" "list_all is_digit ''2024''" "1 \<le> decimal_value ''2024''" by code_simp+
  show ?thesis using validate_date_leap_day [OF h] h by simp
qed

text \<open>The booking duration is always within 23.98 hours either way: both times are clock times of one day and the result is rounded to hundredths.\<close>
lemma calculate_booking_duration_bounds:
  "\<bar>calculate_booking_duration start_time end_time\<bar> \<le> 2398 / 100"
proof (cases "strptime_hm start_time")
  case (Some a)
  show ?thesis
  proof (cases "strptime_hm end_time")
    case (Some b)
    obtain sh sm eh em where ab: "a = (sh, sm)" "b = (eh, em)" by (cases a, cases b) auto
    have "0 \<le> sh \<and> sh \<le> 23 \<and> 0 \<le> sm \<and> sm \<le> 59" "0 \<le> eh \<and> eh \<le> 23 \<and> 0 \<le> em \<and> em \<le> 59"
      using \<open>strptime_hm start_time = Some a\<close> Some ab strptime_hm_range by blast+
    then have bnd: "\<bar>of_int ((eh * 60 + em) - (sh * 60 + sm)) / (60 :: rat)\<bar> \<le> 1439 / 60"
      by (simp add: abs_le_iff)
    have "calculate_booking_duration start_time end_time =
          py_round2 (of_int ((eh * 60 + em) - (sh * 60 + sm)) / 60)"
      using \<open>strptime_hm start_time = Some a\<close> Some ab by (simp add: calculate_booking_duration_def)
    then show ?thesis using py_round2_bound [OF bnd] by (simp only:)
  qed (simp add: calculate_booking_duration_def \<open>strptime_hm start_time = Some a\<close>)
qed (simp add: calculate_booking_duration_def)

text \<open>C25: A booking that ends on the next day gets a negative duration: both times are read as clock times of the same day (1900-01-01), so whenever the end time is earlier than the start time the result is below zero instead of the hours across midnight.\<close>
lemma calculate_booking_duration_negative:
  assumes "strptime_hm start_time = Some (sh, sm)" "strptime_hm end_time = Some (eh, em)"
    and "eh * 60 + em < sh * 60 + sm"
  shows "calculate_booking_duration start_time end_time < 0"
proof -
  have "of_int ((eh * 60 + em) - (sh * 60 + sm)) \<le> (- 1 :: rat)" using assms(3) by simp
  then have "of_int ((eh * 60 + em) - (sh * 60 + sm)) / 60 \<le> (- 1 / 60 :: rat)" by simp
  then show ?thesis using assms(1,2) py_round2_neg by (simp add: calculate_booking_duration_def)
qed

lemma calculate_booking_duration_negative_witness:
  "calculate_booking_duration ''22:00'' ''01:00'' < 0"
proof -
  have s: "strptime_hm ''22:00'' = Some (22, 0)" by code_simp
  have e: "strptime_hm ''01:00'' = Some (1, 0)" by code_simp
  show ?thesis using calculate_booking_duration_negative [OF s e] by simp
qed
text \<open>For a clock reading with a four-digit year, the booking reference is BN followed by 22 digits: the 14-digit timestamp and the character codes of its last four digits, so it is a function of the second in which it is made.\<close>
lemma generate_booking_reference_shape:
  assumes "1000 \<le> y" "y \<le> 9999" "mo < 100" "d < 100" "h < 100" "mi < 100" "sec < 100"
  shows "length (generate_booking_reference (y, mo, d, h, mi, sec)) = 24 \<and>
         take 2 (generate_booking_reference (y, mo, d, h, mi, sec)) = ''BN'' \<and>
         list_all is_digit (drop 2 (generate_booking_reference (y, mo, d, h, mi, sec)))"
proof -
  let ?ts = "strftime_ts (y, mo, d, h, mi, sec)"
  have ly: "length (nat_str y) = 4" using length_nat_str [of 3 y] assms(1,2) by simp
  have len: "length ?ts = 14" using assms by (simp add: strftime_ts_def ly length_pad2)
  have dig: "list_all is_digit ?ts" by (simp add: strftime_ts_def nat_str_digits pad2_digits)
  let ?suf = "concat (map (\<lambda>c. nat_str (of_char c)) (drop 10 ?ts))"
  have "length ?suf = 8"
    using dig len by (subst length_concat_two) (auto simp: length_nat_str_code list_all_iff dest: in_set_dropD)
  moreover have "list_all is_digit ?suf" by (simp add: list_all_iff nat_str_digits [unfolded list_all_iff])
  ultimately show ?thesis
    using len dig by (simp add: generate_booking_reference_def Let_def)
qed


lemma generate_booking_reference_shape_witness:
  "length (generate_booking_reference (2024, 3, 5, 9, 7, 59)) = 24 \<and>
   take 2 (generate_booking_reference (2024, 3, 5, 9, 7, 59)) = ''BN'' \<and>
   list_all is_digit (drop 2 (generate_booking_reference (2024, 3, 5, 9, 7, 59)))"
  by (rule generate_booking_reference_shape) simp_all

text \<open>Sanitising removes every bracket, brace, angle bracket and backslash, and sanitising twice is sanitising once.\<close>
lemma sanitize_input_clean:
  "list_all (\<lambda>c. \<not> sanitize_forbidden c) (sanitize_input s) \<and>
   sanitize_input (sanitize_input s) = sanitize_input s"
proof -
  let ?f = "filter (\<lambda>c. \<not> sanitize_forbidden c) s"
  have clean: "list_all (\<lambda>c. \<not> sanitize_forbidden c) (py_strip ?f)" by (rule sanitize_clean_part)
  then have "filter (\<lambda>c. \<not> sanitize_forbidden c) (py_strip ?f) = py_strip ?f"
    by (simp only: filter_id_conv list_all_iff)
  with clean show ?thesis by (simp only: sanitize_input_def py_strip_idem)
qed

text \<open>Finding: The time slot reads any integer hour: 25:00 is "Night" although no clock time has hour 25, and a time whose hour is not an integer raises ValueError.\<close>
lemma get_time_slot_out_of_range:
  "get_time_slot ''25:00'' = Inr ''Night'' \<and> \<not> validate_time ''25:00'' \<and>
   get_time_slot ''7pm'' = Inl ''ValueError''"
  by code_simp

end
