(* ===== verification/Legacy.thy ===== *)
theory Legacy
  imports Py_Prelude
begin

text \<open>
  The legacy Flask backend under \<open>src/barbeque-nation-chatbot/backend\<close>.  Its
  \<open>config\<close> module (\<open>DATA_PATH\<close>, \<open>MAX_TOKENS\<close>) is not in the repository, so both are
  parameters.  \<open>utils/token_utils.split_into_chunks\<close> takes the tokenizer as the
  function \<open>count_tokens\<close> (the length of \<open>tiktoken\<close>'s encoding); \<open>str.split\<close> with a
  separator is \<open>py_split\<close>.  \<open>utils/parser.parse_docx\<close> takes the document's paragraph
  texts.  The three blueprints are functions of the parsed JSON body or of the file
  system.
\<close>

text \<open>\<open>s.split(sep)\<close> for a nonempty separator: the pieces between the occurrences of
  \<open>sep\<close> found from left to right.  The code only splits on \<open>'. '\<close>.\<close>
function py_split_aux :: "string \<Rightarrow> string \<Rightarrow> string \<Rightarrow> string list" where
  "py_split_aux sep cur s =
     (if sep \<noteq> [] \<and> prefix sep s then rev cur # py_split_aux sep [] (drop (length sep) s)
      else (case s of [] \<Rightarrow> [rev cur] | c # r \<Rightarrow> py_split_aux sep (c # cur) r))"
  by pat_completeness auto
termination
proof (relation "measure (\<lambda>(sep, cur, s). length s)")
  fix sep cur s :: string
  assume "sep \<noteq> [] \<and> prefix sep s"
  then have "0 < length sep" "length sep \<le> length s" by (auto dest: prefix_length_le)
  then have "length s - length sep < length s" by arith
  then show "((sep, [], drop (length sep) s), sep, cur, s) \<in> measure (\<lambda>(sep, cur, s). length s)"
    by simp
qed auto

declare py_split_aux.simps [simp del]

definition py_split :: "string \<Rightarrow> string \<Rightarrow> string list" where
  "py_split sep s = py_split_aux sep [] s"

subsection \<open>\<open>split_into_chunks\<close>\<close>

definition sentence_sep :: string where
  "sentence_sep = ''. ''"

text \<open>One iteration of the loop over the sentences, on \<open>(chunks, current)\<close>.\<close>
definition chunk_step ::
    "(string \<Rightarrow> nat) \<Rightarrow> nat \<Rightarrow> string list \<times> string list \<Rightarrow> string \<Rightarrow> string list \<times> string list" where
  "chunk_step count_tokens max_tokens acc sentence =
     (case acc of (chunks, current) \<Rightarrow>
        (let current = current @ [sentence];
             tokens = count_tokens (py_join sentence_sep current)
         in if tokens \<ge> max_tokens
            then (chunks @ [py_join sentence_sep (butlast current)], [sentence])
            else (chunks, current)))"

definition split_into_chunks :: "(string \<Rightarrow> nat) \<Rightarrow> nat \<Rightarrow> string \<Rightarrow> string list" where
  "split_into_chunks count_tokens max_tokens text =
     (let words = py_split sentence_sep text;
          (chunks, current) = foldl (chunk_step count_tokens max_tokens) ([], []) words
      in if current \<noteq> [] then chunks @ [py_join sentence_sep current] else chunks)"

text \<open>What the loop keeps true of \<open>(chunks, current)\<close> when every sentence is in
  \<open>W\<close>: each chunk is under the limit or a single sentence, and so is \<open>current\<close>.\<close>
definition chunk_inv :: "(string \<Rightarrow> nat) \<Rightarrow> nat \<Rightarrow> string set \<Rightarrow> string list \<times> string list \<Rightarrow> bool" where
  "chunk_inv cnt mx W acc \<longleftrightarrow>
     list_all (\<lambda>c. cnt c < mx \<or> c \<in> W) (fst acc) \<and>
     (snd acc = [] \<or> cnt (py_join sentence_sep (snd acc)) < mx \<or> (\<exists>w\<in>W. snd acc = [w]))"

subsection \<open>\<open>parse_docx\<close> and the blueprints\<close>

definition parse_docx :: "string list \<Rightarrow> string" where
  "parse_docx paragraphs = docx_text paragraphs"

text \<open>\<open>POST /chat\<close>: the echo of \<open>data.get("message")\<close>.\<close>
definition legacy_chat :: "(string, string) py_dict \<Rightarrow> string" where
  "legacy_chat data = ''You said: '' @ py_str_opt (dict_get data ''message'')"

text \<open>\<open>GET /kb/<location>\<close>: \<open>jsonify(json.load(f))\<close> of \<open>DATA_PATH/<location>.json\<close>,
  or 404 when the file does not exist.  Decoding and re-encoding the JSON text is the
  parameter \<open>decode_json\<close> (\<open>None\<close> when the text is not JSON: \<open>json.load\<close> raises a
  \<open>ValueError\<close> that the view does not catch, and Flask answers 500).\<close>
definition get_kb ::
    "string \<Rightarrow> (string \<Rightarrow> string option) \<Rightarrow> (string \<Rightarrow> string option) \<Rightarrow> string \<Rightarrow> nat \<times> string" where
  "get_kb data_path files decode_json location =
     (case files (data_path @ ''/'' @ location @ ''.json'') of
        None \<Rightarrow> (404, ''{\"error\": \"Knowledge not found\"}'')
      | Some content \<Rightarrow>
          (case decode_json content of
             None \<Rightarrow> (500, ''Internal Server Error'')
           | Some j \<Rightarrow> (200, j)))"

definition legacy_postcall :: "(string, string) py_dict \<Rightarrow> string" where
  "legacy_postcall data = ''Post-call analysis captured''"

subsection \<open>Lemmas\<close>

lemma py_split_aux_ne: "py_split_aux sep cur s \<noteq> []"
  by (induction sep cur s rule: py_split_aux.induct) (subst py_split_aux.simps, auto split: list.splits)

lemma py_join_Cons: "ys \<noteq> [] \<Longrightarrow> py_join sep (x # ys) = x @ sep @ py_join sep ys"
  by (cases ys) auto

lemma py_join_snoc:
  "py_join sep (xs @ [y]) = (if xs = [] then y else py_join sep xs @ sep @ y)"
  by (induction sep xs rule: py_join.induct) auto

lemma py_join_merge: "py_join sep ((x @ sep @ w) # ws) = py_join sep (x # w # ws)"
  by (cases ws) auto

lemma py_join_split_aux:
  "sep \<noteq> [] \<Longrightarrow> py_join sep (py_split_aux sep cur s) = rev cur @ s"
proof (induction sep cur s rule: py_split_aux.induct)
  case (1 sep cur s)
  show ?case
  proof (cases "prefix sep s")
    case True
    then obtain t where "s = sep @ t" by (auto simp: prefix_def)
    with 1 True show ?thesis
      by (subst py_split_aux.simps) (simp add: py_join_Cons py_split_aux_ne)
  next
    case False
    with 1 show ?thesis by (subst py_split_aux.simps) (simp split: list.splits)
  qed
qed

lemma py_split_ne: "py_split sep s \<noteq> []"
  by (simp add: py_split_def py_split_aux_ne)

lemma py_join_app_last:
  "py_join sep (xs @ [a @ b]) = py_join sep (xs @ [a]) @ b"
  by (simp add: py_join_snoc)

lemma chunk_step_join:
  assumes "current \<noteq> []"
  shows "snd (chunk_step cnt mx (chunks, current) w) \<noteq> [] \<and>
         py_join sentence_sep (fst (chunk_step cnt mx (chunks, current) w) @
                               [py_join sentence_sep (snd (chunk_step cnt mx (chunks, current) w))]) =
         py_join sentence_sep (chunks @ [py_join sentence_sep current]) @ sentence_sep @ w"
  using assms
  by (auto simp: chunk_step_def Let_def py_join_snoc py_join_app_last [of _ _ "py_join sentence_sep current"])

lemma foldl_chunk_step_join:
  "current \<noteq> [] \<Longrightarrow>
   snd (foldl (chunk_step cnt mx) (chunks, current) ws) \<noteq> [] \<and>
   py_join sentence_sep (fst (foldl (chunk_step cnt mx) (chunks, current) ws) @
                         [py_join sentence_sep (snd (foldl (chunk_step cnt mx) (chunks, current) ws))]) =
   py_join sentence_sep (py_join sentence_sep (chunks @ [py_join sentence_sep current]) # ws)"
proof (induction ws arbitrary: chunks current)
  case Nil
  then show ?case by simp
next
  case (Cons w ws)
  obtain chunks' current' where st: "chunk_step cnt mx (chunks, current) w = (chunks', current')"
    by (cases "chunk_step cnt mx (chunks, current) w")
  from chunk_step_join [OF Cons.prems, of cnt mx chunks w] st
  have ne: "current' \<noteq> []" and j: "py_join sentence_sep (chunks' @ [py_join sentence_sep current']) =
      py_join sentence_sep (chunks @ [py_join sentence_sep current]) @ sentence_sep @ w" by simp_all
  show ?case using Cons.IH [OF ne, of chunks'] by (simp add: st j py_join_merge)
qed

lemma foldl_chunk_step_prefix:
  "\<exists>extra. fst (foldl (chunk_step cnt mx) (chunks, current) ws) = chunks @ extra"
proof (induction ws arbitrary: chunks current)
  case Nil
  then show ?case by simp
next
  case (Cons w ws)
  obtain chunks' current' where st: "chunk_step cnt mx (chunks, current) w = (chunks', current')"
    by (cases "chunk_step cnt mx (chunks, current) w")
  have "\<exists>e. chunks' = chunks @ e" using st by (auto simp: chunk_step_def Let_def split: if_splits)
  then show ?case using Cons.IH [of chunks' current'] by (auto simp: st)
qed

lemma chunk_step_inv:
  assumes "cnt [] = 0" "0 < mx" "w \<in> W" "chunk_inv cnt mx W acc"
  shows "chunk_inv cnt mx W (chunk_step cnt mx acc w)"
  using assms by (cases acc) (auto simp: chunk_inv_def chunk_step_def Let_def)

lemma foldl_chunk_step_inv:
  "cnt [] = 0 \<Longrightarrow> 0 < mx \<Longrightarrow> set ws \<subseteq> W \<Longrightarrow> chunk_inv cnt mx W acc \<Longrightarrow>
   chunk_inv cnt mx W (foldl (chunk_step cnt mx) acc ws)"
proof (induction ws arbitrary: acc)
  case (Cons w ws)
  then show ?case using chunk_step_inv [of cnt mx w W acc] by simp
qed simp

text \<open>Finding: when the first sentence alone reaches the token limit, the first chunk is
  the empty string (\<open>'. '.join(current[:-1])\<close> of a one-element list).\<close>
lemma split_into_chunks_empty_first:
  "mx \<le> cnt (hd (py_split sentence_sep text)) \<Longrightarrow> hd (split_into_chunks cnt mx text) = []"
proof -
  assume first: "mx \<le> cnt (hd (py_split sentence_sep text))"
  obtain w ws where words: "py_split sentence_sep text = w # ws"
    using py_split_ne by (cases "py_split sentence_sep text") auto
  have step1: "chunk_step cnt mx ([], []) w = ([[]], [w])"
    using first words by (simp add: chunk_step_def)
  obtain extra where "fst (foldl (chunk_step cnt mx) ([[]], [w]) ws) = [[]] @ extra"
    using foldl_chunk_step_prefix by blast
  then show ?thesis
    by (simp add: split_into_chunks_def words step1 case_prod_beta Let_def)
qed

subsection \<open>Properties\<close>

text \<open>Joining the pieces of \<open>str.split\<close> with the separator gives the string back.\<close>
lemma py_join_split: "sep \<noteq> [] \<Longrightarrow> py_join sep (py_split sep s) = s"
  by (simp add: py_split_def py_join_split_aux)

text \<open>C31: When the first sentence is under the limit, the chunks joined with \<open>'. '\<close> give the text back: chunking loses and adds nothing.\<close>
lemma split_into_chunks_join:
  "cnt (hd (py_split sentence_sep text)) < mx \<Longrightarrow>
   py_join sentence_sep (split_into_chunks cnt mx text) = text"
proof -
  assume first: "cnt (hd (py_split sentence_sep text)) < mx"
  obtain w ws where words: "py_split sentence_sep text = w # ws"
    using py_split_ne by (cases "py_split sentence_sep text") auto
  have step1: "chunk_step cnt mx ([], []) w = ([], [w])"
    using first words by (simp add: chunk_step_def)
  have jw: "py_join sentence_sep (w # ws) = text"
    using py_join_split [of sentence_sep "text"] words by (simp add: sentence_sep_def)
  have "py_join sentence_sep (fst (foldl (chunk_step cnt mx) ([], [w]) ws) @
          [py_join sentence_sep (snd (foldl (chunk_step cnt mx) ([], [w]) ws))]) = text"
       "snd (foldl (chunk_step cnt mx) ([], [w]) ws) \<noteq> []"
    using foldl_chunk_step_join [of "[w]" cnt mx "[]" ws] jw by simp_all
  then show ?thesis
    by (simp add: split_into_chunks_def words step1 case_prod_beta Let_def)
qed

lemma split_into_chunks_join_witness:
  "length (hd (py_split sentence_sep ''ab. cd. ef'')) < 5 \<and>
   py_join sentence_sep (split_into_chunks length 5 ''ab. cd. ef'') = ''ab. cd. ef''"
proof -
  have h: "length (hd (py_split sentence_sep ''ab. cd. ef'')) < 5" by code_simp
  show ?thesis using split_into_chunks_join [of length "''ab. cd. ef''" 5, OF h] h by simp
qed

text \<open>C32: For a tokenizer that counts the empty string as no tokens and a positive limit, every chunk is under the limit or is a single sentence of the text (a sentence over the limit is never cut).\<close>
lemma split_into_chunks_bound:
  assumes "cnt [] = 0" "0 < mx"
  shows "list_all (\<lambda>c. cnt c < mx \<or> c \<in> set (py_split sentence_sep text)) (split_into_chunks cnt mx text)"
proof -
  let ?W = "set (py_split sentence_sep text)"
  have "chunk_inv cnt mx ?W ([], [])" by (simp add: chunk_inv_def)
  then have "chunk_inv cnt mx ?W (foldl (chunk_step cnt mx) ([], []) (py_split sentence_sep text))"
    using assms by (intro foldl_chunk_step_inv) auto
  then show ?thesis by (auto simp: split_into_chunks_def chunk_inv_def case_prod_beta Let_def)
qed

lemma split_into_chunks_bound_witness:
  "length ([] :: string) = 0 \<and> 0 < (5 :: nat) \<and>
   list_all (\<lambda>c. length c < 5 \<or> c \<in> set (py_split sentence_sep ''ab. cdefgh. e''))
     (split_into_chunks length 5 ''ab. cdefgh. e'')"
  using split_into_chunks_bound [of length 5 "''ab. cdefgh. e''"] by simp

end
