(* ===== verification/Legacy_App.thy ===== *)
theory Legacy_App
  imports Legacy
begin

text \<open>
  The legacy Flask application of \<open>src/barbeque-nation-chatbot/backend/app.py\<close>: the
  three blueprints registered on one \<open>Flask\<close> app and the URL dispatch that runs their
  views.  A rule matches the whole path; \<open><location>\<close> is Werkzeug's default \<open>string\<close>
  converter, one non-empty segment without \<open>/\<close>.  A path no rule matches is 404; a
  matched rule answers \<open>OPTIONS\<close> itself and a method the rule does not allow with 405;
  a \<open>GET\<close> rule also serves \<open>HEAD\<close>, without the body.  The request's JSON body is
  \<open>request.json\<close> when it is an object (\<open>Some\<close>) or another JSON value (\<open>None\<close>);
  \<open>data.get\<close> on a non-object raises, which Flask answers with 500.  A request without
  a JSON content type is not modelled: Werkzeug's answer to it changed across versions.
\<close>

datatype legacy_endpoint = KbGet string | ChatbotChat | PostcallPostcall

text \<open>The rules of the blueprints, in registration order.\<close>
definition legacy_match :: "string \<Rightarrow> legacy_endpoint option" where
  "legacy_match path =
     (if prefix ''/kb/'' path \<and> drop 4 path \<noteq> [] \<and> CHR ''/'' \<notin> set (drop 4 path)
      then Some (KbGet (drop 4 path))
      else if path = ''/chat'' then Some ChatbotChat
      else if path = ''/postcall'' then Some PostcallPostcall
      else None)"

definition legacy_methods :: "legacy_endpoint \<Rightarrow> string list" where
  "legacy_methods ep = (case ep of KbGet _ \<Rightarrow> [''GET'', ''HEAD''] | _ \<Rightarrow> [''POST''])"

definition legacy_view ::
    "string \<Rightarrow> (string \<Rightarrow> string option) \<Rightarrow> (string \<Rightarrow> string option) \<Rightarrow>
     (string, string) py_dict option \<Rightarrow> legacy_endpoint \<Rightarrow> nat \<times> string" where
  "legacy_view data_path files decode_json body ep =
     (case ep of
        KbGet location \<Rightarrow> get_kb data_path files decode_json location
      | ChatbotChat \<Rightarrow> (case body of None \<Rightarrow> (500, ''Internal Server Error'') | Some data \<Rightarrow> (200, legacy_chat data))
      | PostcallPostcall \<Rightarrow> (200, legacy_postcall (case body of None \<Rightarrow> [] | Some data \<Rightarrow> data)))"

definition legacy_app ::
    "string \<Rightarrow> (string \<Rightarrow> string option) \<Rightarrow> (string \<Rightarrow> string option) \<Rightarrow>
     string \<Rightarrow> string \<Rightarrow> (string, string) py_dict option \<Rightarrow> nat \<times> string" where
  "legacy_app data_path files decode_json method path body =
     (case legacy_match path of
        None \<Rightarrow> (404, ''Not Found'')
      | Some ep \<Rightarrow>
          (if method = ''OPTIONS'' then (200, [])
           else if method \<notin> set (legacy_methods ep) then (405, ''Method Not Allowed'')
           else if method = ''HEAD'' then (fst (legacy_view data_path files decode_json body ep), [])
           else legacy_view data_path files decode_json body ep))"

text \<open>A file directly inside a directory.\<close>
definition in_dir :: "string \<Rightarrow> string \<Rightarrow> bool" where
  "in_dir d p \<longleftrightarrow> prefix (d @ ''/'') p \<and> CHR ''/'' \<notin> set (drop (length d + 1) p)"

subsection \<open>Lemmas\<close>

lemma legacy_app_status:
  "fst (legacy_app data_path files decode_json method path body) \<in> {200, 404, 405, 500}"
  by (simp add: legacy_app_def legacy_view_def get_kb_def
      split: option.splits legacy_endpoint.splits)

lemma legacy_match_kb_in_dir:
  "legacy_match path = Some (KbGet loc) \<Longrightarrow> in_dir d (d @ ''/'' @ loc @ ''.json'')"
  by (auto simp: legacy_match_def in_dir_def split: if_splits)

subsection \<open>Properties\<close>

text \<open>C33: The legacy Flask app reads no file outside DATA_PATH: the location segment of \<open>/kb/<location>\<close> cannot contain a slash, so two file systems that agree on the files directly inside DATA_PATH give every request, of any method, path and body and for any JSON decoding, the same status and payload.\<close>
lemma legacy_app_reads_data_path_only:
  assumes "\<forall>p. in_dir data_path p \<longrightarrow> files p = files' p"
  shows "legacy_app data_path files decode_json method path body =
         legacy_app data_path files' decode_json method path body"
proof (cases "legacy_match path")
  case (Some ep)
  show ?thesis
  proof (cases ep)
    case (KbGet loc)
    with Some have "files (data_path @ ''/'' @ loc @ ''.json'') = files' (data_path @ ''/'' @ loc @ ''.json'')"
      using assms legacy_match_kb_in_dir by blast
    with Some KbGet show ?thesis by (simp add: legacy_app_def legacy_view_def get_kb_def)
  qed (simp_all add: Some legacy_app_def legacy_view_def)
qed (simp add: legacy_app_def)

lemma legacy_app_reads_data_path_only_witness:
  "legacy_app ''data'' (\<lambda>p. if p = ''data/delhi.json'' then Some ''{}'' else None) Some ''GET'' ''/kb/../../etc/passwd'' None =
   legacy_app ''data''
     (\<lambda>p. if p = ''data/delhi.json'' then Some ''{}'' else if p = ''/etc/passwd.json'' then Some ''x'' else None)
     Some ''GET'' ''/kb/../../etc/passwd'' None"
proof -
  have h: "\<forall>p. in_dir ''data'' p \<longrightarrow>
      (\<lambda>p. if p = ''data/delhi.json'' then Some ''{}'' else None) p =
      (\<lambda>p. if p = ''data/delhi.json'' then Some ''{}'' else if p = ''/etc/passwd.json'' then Some ''x'' else None) p"
    by (simp add: in_dir_def)
  show ?thesis using legacy_app_reads_data_path_only [OF h, of Some "''GET''" "''/kb/../../etc/passwd''" None] by simp
qed

end
