(* ===== verification/Prompts.thy ===== *)
theory Prompts
  imports Conversation_State
begin

text \<open>
  The prompt templates of \<open>StateManager\<close> (\<open>src/app/services/state_manager.py\<close>):
  \<open>_read_docx\<close> on a document store (each path's paragraph texts, or \<open>None\<close> when
  python-docx fails), \<open>_load_prompt_templates\<close> as the total map from states to
  templates, and \<open>get_state_prompt\<close> with \<open>str.format\<close>.  \<open>py_format\<close> follows
  CPython's \<open>MarkupIterator\<close> left to right: \<open>{{\<close> and \<open>}}\<close> are literal braces, a single
  \<open>}\<close> or an unterminated field raises \<open>ValueError\<close>, an empty or numeric field is a
  positional index and raises \<open>IndexError\<close> (no positional arguments are passed), a
  name missing from the keywords raises \<open>KeyError\<close>.  Fields with a conversion
  (\<open>!r\<close>), a format spec (\<open>:...\<close>), attribute or index access or nested braces are
  outside the model (\<open>Unsupported\<close>).  Keyword values are rendered by \<open>str\<close>.
\<close>

datatype format_error =
    KeyError string
  | ValueError string
  | IndexError string
  | TypeError string
  | Unsupported

definition format_field :: "(string, string) py_dict \<Rightarrow> string \<Rightarrow> format_error + string" where
  "format_field kwargs field =
     (if \<exists>c \<in> set field. c \<in> set ''!:.[{'' then Inl Unsupported
      else if list_all (\<lambda>c. c \<in> set ''0123456789'') field
      then Inl (IndexError ''Replacement index 0 out of range for positional args tuple'')
      else (case dict_get kwargs field of None \<Rightarrow> Inl (KeyError field) | Some v \<Rightarrow> Inr v))"

function py_format :: "(string, string) py_dict \<Rightarrow> string \<Rightarrow> format_error + string" where
  "py_format kwargs s =
     (case s of
        [] \<Rightarrow> Inr []
      | c # r \<Rightarrow>
          (if c = CHR ''{'' then
             (case r of
                [] \<Rightarrow> Inl (ValueError ''Single '{' encountered in format string'')
              | d # r' \<Rightarrow>
                  (if d = CHR ''{'' then map_sum id (Cons c) (py_format kwargs r')
                   else if dropWhile (\<lambda>x. x \<noteq> CHR ''}'') r = []
                   then Inl (ValueError ''expected '}' before end of string'')
                   else
                     (case format_field kwargs (takeWhile (\<lambda>x. x \<noteq> CHR ''}'') r) of
                        Inl e \<Rightarrow> Inl e
                      | Inr v \<Rightarrow>
                          map_sum id (\<lambda>t. v @ t)
                            (py_format kwargs (tl (dropWhile (\<lambda>x. x \<noteq> CHR ''}'') r))))))
           else if c = CHR ''}'' then
             (case r of
                d # r' \<Rightarrow>
                  (if d = CHR ''}'' then map_sum id (Cons c) (py_format kwargs r')
                   else Inl (ValueError ''Single '}' encountered in format string''))
              | [] \<Rightarrow> Inl (ValueError ''Single '}' encountered in format string''))
           else map_sum id (Cons c) (py_format kwargs r)))"
  by pat_completeness auto
termination
proof (relation "measure (\<lambda>(kwargs, s). length s)")
  fix kwargs :: "(string, string) py_dict" and s r :: string and c :: char
  assume "s = c # r"
  moreover have "length (tl (dropWhile (\<lambda>x. x \<noteq> CHR ''}'') r)) \<le> length r"
    by (metis length_dropWhile_le length_tl diff_le_self order_trans)
  ultimately show "((kwargs, tl (dropWhile (\<lambda>x. x \<noteq> CHR ''}'') r)), kwargs, s)
      \<in> measure (\<lambda>(kwargs, s). length s)" by simp
qed auto

declare py_format.simps [simp del]

text \<open>The keyword arguments of the \<open>format\<close> call:
  \<open>city=..., restaurant=..., query_type=..., **(booking_details or {})\<close>; a booking key
  that repeats one of the three is a \<open>TypeError\<close> of the call.\<close>
definition format_kwargs :: "state_context \<Rightarrow> format_error + (string, string) py_dict" where
  "format_kwargs context =
     (let base = [(''city'', py_str_opt (city context)),
                  (''restaurant'', py_str_opt (restaurant context)),
                  (''query_type'', py_str_opt (query_type context))];
          extra = (case booking_details context of None \<Rightarrow> [] | Some d \<Rightarrow> d)
      in case find (\<lambda>(k, _). k \<in> set (map fst base)) extra of
           Some (k, _) \<Rightarrow>
             Inl (TypeError (''str.format() got multiple values for keyword argument '' @ [CHR 0x27] @ k @ [CHR 0x27]))
         | None \<Rightarrow> Inr (base @ extra))"

definition prompts_dir :: string where
  "prompts_dir = ''data/Prompt Templates''"

type_synonym docx_store = "string \<Rightarrow> string list option"

text \<open>\<open>_read_docx\<close>: the text of the document, or \<open>""\<close> when reading fails.\<close>
definition read_docx :: "docx_store \<Rightarrow> string \<Rightarrow> string" where
  "read_docx docs filename =
     (case docs (prompts_dir @ ''/'' @ filename) of None \<Rightarrow> [] | Some paragraphs \<Rightarrow> docx_text paragraphs)"

definition farewell_prompt :: string where
  "farewell_prompt = ''Thank you for choosing Barbeque Nation! Have a great day!''"

definition load_prompt_templates :: "docx_store \<Rightarrow> conversation_state \<Rightarrow> string" where
  "load_prompt_templates docs =
     (let master_collect = read_docx docs ''master_collect.docx'';
          master_inform = read_docx docs ''master_inform.docx'';
          collect_city = read_docx docs ''collect_city.docx'';
          collect_contact = read_docx docs ''collect_contact_information.docx''
      in (\<lambda>st. case st of
                INITIAL_GREETING \<Rightarrow> master_inform
              | CITY_SELECTION \<Rightarrow> collect_city
              | RESTAURANT_SELECTION \<Rightarrow> master_collect
              | QUERY_TYPE \<Rightarrow> master_collect
              | FAQ_HANDLING \<Rightarrow> master_inform
              | BOOKING_COLLECTION \<Rightarrow> collect_contact
              | BOOKING_CONFIRMATION \<Rightarrow> master_collect
              | FAREWELL \<Rightarrow> farewell_prompt))"

definition rephrase_reply :: string where
  "rephrase_reply = ''I'm sorry, I didn't understand that. Could you please rephrase?''"

text \<open>\<open>get_state_prompt\<close>: only \<open>KeyError\<close> is caught; every other exception of the
  \<open>format\<close> call propagates (\<open>Inl\<close>).\<close>
definition get_state_prompt ::
    "(conversation_state \<Rightarrow> string) \<Rightarrow> conversation_state \<Rightarrow> state_context \<Rightarrow> format_error + string" where
  "get_state_prompt state_prompts st context =
     (let prompt = state_prompts st
      in if prompt = [] then Inr rephrase_reply
         else (case format_kwargs context of
                 Inl e \<Rightarrow> Inl e
               | Inr kwargs \<Rightarrow>
                   (case py_format kwargs prompt of
                      Inl (KeyError _) \<Rightarrow> Inr prompt
                    | Inl e \<Rightarrow> Inl e
                    | Inr text \<Rightarrow> Inr text)))"

text \<open>The object \<open>StateManager()\<close>: \<open>__init__\<close> sets the directory, then loads the
  templates from it.\<close>
record state_manager =
  sm_prompts_dir :: string
  state_prompts :: "conversation_state \<Rightarrow> string"

definition StateManager :: "docx_store \<Rightarrow> state_manager" where
  "StateManager docs = \<lparr>sm_prompts_dir = prompts_dir, state_prompts = load_prompt_templates docs\<rparr>"

text \<open>Doubling every brace: the template that formats to a given text.\<close>
definition py_escape :: "string \<Rightarrow> string" where
  "py_escape s = concat (map (\<lambda>c. if c = CHR ''{'' \<or> c = CHR ''}'' then [c, c] else [c]) s)"

subsection \<open>Lemmas\<close>

lemma py_escape_Cons:
  "py_escape (c # s) = (if c = CHR ''{'' \<or> c = CHR ''}'' then [c, c] else [c]) @ py_escape s"
  by (simp add: py_escape_def)

lemma py_format_escape: "py_format kwargs (py_escape s) = Inr s"
proof (induction s)
  case Nil
  then show ?case by (simp add: py_escape_def py_format.simps)
next
  case (Cons c s)
  then show ?case
    by (cases "c = CHR ''{''"; cases "c = CHR ''}''") (simp_all add: py_escape_Cons py_format.simps)
qed

lemma get_state_prompt_no_KeyError: "get_state_prompt p st c \<noteq> Inl (KeyError k)"
  by (auto simp: get_state_prompt_def Let_def format_kwargs_def split: sum.splits format_error.splits option.splits)

lemma get_state_prompt_missing_doc:
  "docs (prompts_dir @ ''/collect_city.docx'') = None \<Longrightarrow>
   get_state_prompt (load_prompt_templates docs) CITY_SELECTION c = Inr rephrase_reply"
  by (simp add: get_state_prompt_def load_prompt_templates_def read_docx_def Let_def)

lemma py_format_plain:
  "CHR ''{'' \<notin> set s \<Longrightarrow> CHR ''}'' \<notin> set s \<Longrightarrow> py_format kwargs s = Inr s"
proof (induction s)
  case Nil
  then show ?case by (simp add: py_format.simps)
next
  case (Cons a s)
  then have "a \<noteq> CHR ''{''" "a \<noteq> CHR ''}''" by auto
  with Cons show ?case by (subst py_format.simps) simp
qed

text \<open>Whatever the documents, the farewell prompt of a fresh \<open>StateManager\<close> has no
  fields and formats to itself for a context without booking details.\<close>
lemma StateManager_farewell:
  assumes "booking_details c = None"
  shows "get_state_prompt (state_prompts (StateManager docs)) FAREWELL c = Inr farewell_prompt"
proof -
  have "CHR ''{'' \<notin> set farewell_prompt" "CHR ''}'' \<notin> set farewell_prompt"
    by (simp_all add: farewell_prompt_def)
  then show ?thesis using assms
    by (auto simp: get_state_prompt_def StateManager_def load_prompt_templates_def Let_def
        format_kwargs_def py_format_plain farewell_prompt_def)
qed

subsection \<open>Properties\<close>

text \<open>C30: When the booking details repeat one of the keywords \<open>city\<close>, \<open>restaurant\<close> or \<open>query_type\<close>, the \<open>format\<close> call raises a \<open>TypeError\<close> that \<open>get_state_prompt\<close> does not catch, even for the constant farewell prompt.\<close>
lemma get_state_prompt_booking_clash:
  assumes "booking_details c = Some d" "k \<in> {''city'', ''restaurant'', ''query_type''}" "k \<in> fst ` set d"
  shows "\<exists>msg. get_state_prompt (load_prompt_templates docs) FAREWELL c = Inl (TypeError msg)"
proof -
  have "find (\<lambda>(k, _). k \<in> {''city'', ''restaurant'', ''query_type''}) d \<noteq> None"
    using assms(2,3) by (auto simp: find_None_iff)
  then obtain k' v where "find (\<lambda>(k, _). k \<in> {''city'', ''restaurant'', ''query_type''}) d = Some (k', v)"
    by auto
  with assms(1) show ?thesis
    by (auto simp: get_state_prompt_def load_prompt_templates_def format_kwargs_def farewell_prompt_def Let_def)
qed

lemma get_state_prompt_booking_clash_witness:
  "booking_details ((new_context FAREWELL)\<lparr>booking_details := Some [(''city'', ''Delhi'')]\<rparr>) =
     Some [(''city'', ''Delhi'')] \<and>
   ''city'' \<in> {''city'', ''restaurant'', ''query_type''} \<and> ''city'' \<in> fst ` set [(''city'', ''Delhi'')] \<and>
   (\<exists>msg. get_state_prompt (load_prompt_templates (\<lambda>_. None)) FAREWELL
      ((new_context FAREWELL)\<lparr>booking_details := Some [(''city'', ''Delhi'')]\<rparr>) = Inl (TypeError msg))"
  using get_state_prompt_booking_clash
    [of "(new_context FAREWELL)\<lparr>booking_details := Some [(''city'', ''Delhi'')]\<rparr>" "[(''city'', ''Delhi'')]"
        "''city''" "\<lambda>_. None"] by simp

end
