(* ===== verification/Settings.thy ===== *)
theory Settings
  imports Config
begin

text \<open>
  The \<open>Settings\<close> object of \<open>src/app/core/config.py\<close>, built at import from the process
  environment.  \<open>load_dotenv()\<close> adds the variables of \<open>.env\<close> that the environment
  does not already set; the class body reads \<open>RETELL_API_KEY\<close> and \<open>DATABASE_URL\<close> with
  \<open>os.getenv\<close> for their defaults; \<open>Settings()\<close> (pydantic \<open>BaseSettings\<close>,
  case-sensitive) then takes every field whose exact name is set in the environment
  from there, converted to the field's type, and otherwise its default.  The
  conversions of the library (a string to \<open>int\<close>, the JSON text of a list) are
  parameters; a failed conversion makes the constructor raise, listing the failing
  fields in declaration order, and the import of the module fails with it.
  \<open>CITIES\<close> is a \<open>ClassVar\<close> and not a field, so the environment never changes it.
  The attributes \<open>KNOWLEDGE_BASE_DIR\<close> and \<open>MAX_TOKENS_PER_RESPONSE\<close> carry the suffix
  \<open>_attr\<close>: the names denote their class defaults in \<open>Config\<close>.
\<close>

type_synonym environ = "string \<Rightarrow> string option"

record Settings =
  PROJECT_NAME :: string
  VERSION :: string
  API_V1_STR :: string
  RETELL_API_KEY :: string
  DATABASE_URL :: "string option"
  KNOWLEDGE_BASE_DIR_attr :: string
  PROMPTS_DIR :: string
  MAX_TOKENS_PER_RESPONSE_attr :: int
  BACKEND_CORS_ORIGINS :: "string list"

text \<open>\<open>load_dotenv()\<close> with its default \<open>override=False\<close>.\<close>
definition load_dotenv :: "environ \<Rightarrow> environ \<Rightarrow> environ" where
  "load_dotenv environ dotenv = (\<lambda>k. case environ k of None \<Rightarrow> dotenv k | Some v \<Rightarrow> Some v)"

definition getenv :: "environ \<Rightarrow> string \<Rightarrow> string \<Rightarrow> string" where
  "getenv env k d = (case env k of None \<Rightarrow> d | Some v \<Rightarrow> v)"

text \<open>The class body: the defaults of the fields, two of them read from the environment.\<close>
definition settings_defaults :: "environ \<Rightarrow> Settings" where
  "settings_defaults env =
     \<lparr>PROJECT_NAME = ''Barbeque Nation Chatbot'', VERSION = ''1.0.0'', API_V1_STR = ''/api/v1'',
      RETELL_API_KEY = getenv env ''RETELL_API_KEY'' [],
      DATABASE_URL = Some (getenv env ''DATABASE_URL'' ''sqlite:///./chatbot.db''),
      KNOWLEDGE_BASE_DIR_attr = KNOWLEDGE_BASE_DIR, PROMPTS_DIR = ''data/prompts'',
      MAX_TOKENS_PER_RESPONSE_attr = int MAX_TOKENS_PER_RESPONSE, BACKEND_CORS_ORIGINS = [''*'']\<rparr>"

text \<open>A field of a converted type: the environment's value converted, or the default;
  a failed conversion reports the field's name.\<close>
definition env_field :: "environ \<Rightarrow> string \<Rightarrow> (string \<Rightarrow> 'a option) \<Rightarrow> 'a \<Rightarrow> string list + 'a" where
  "env_field env k conv d =
     (case env k of None \<Rightarrow> Inr d | Some v \<Rightarrow> (case conv v of None \<Rightarrow> Inl [k] | Some x \<Rightarrow> Inr x))"

definition field_errors :: "string list + 'a \<Rightarrow> string list" where
  "field_errors r = (case r of Inl e \<Rightarrow> e | Inr _ \<Rightarrow> [])"

text \<open>\<open>Settings()\<close>: a string field takes the environment's value as it is; every
  failing conversion is reported.\<close>
definition Settings_init ::
    "environ \<Rightarrow> (string \<Rightarrow> int option) \<Rightarrow> (string \<Rightarrow> string list option) \<Rightarrow> string list + Settings" where
  "Settings_init env parse_int parse_list =
     (let d = settings_defaults env;
          mt = env_field env ''MAX_TOKENS_PER_RESPONSE'' parse_int (MAX_TOKENS_PER_RESPONSE_attr d);
          co = env_field env ''BACKEND_CORS_ORIGINS'' parse_list (BACKEND_CORS_ORIGINS d)
      in case (mt, co) of
           (Inr m, Inr c) \<Rightarrow>
             Inr \<lparr>PROJECT_NAME = getenv env ''PROJECT_NAME'' (PROJECT_NAME d),
                  VERSION = getenv env ''VERSION'' (VERSION d),
                  API_V1_STR = getenv env ''API_V1_STR'' (API_V1_STR d),
                  RETELL_API_KEY = getenv env ''RETELL_API_KEY'' (RETELL_API_KEY d),
                  DATABASE_URL = (case env ''DATABASE_URL'' of None \<Rightarrow> DATABASE_URL d | Some v \<Rightarrow> Some v),
                  KNOWLEDGE_BASE_DIR_attr = getenv env ''KNOWLEDGE_BASE_DIR'' (KNOWLEDGE_BASE_DIR_attr d),
                  PROMPTS_DIR = getenv env ''PROMPTS_DIR'' (PROMPTS_DIR d),
                  MAX_TOKENS_PER_RESPONSE_attr = m, BACKEND_CORS_ORIGINS = c\<rparr>
         | _ \<Rightarrow> Inl (field_errors mt @ field_errors co))"

text \<open>\<open>settings = Settings()\<close> after \<open>load_dotenv()\<close>: the module's import.\<close>
definition settings_import ::
    "environ \<Rightarrow> environ \<Rightarrow> (string \<Rightarrow> int option) \<Rightarrow> (string \<Rightarrow> string list option) \<Rightarrow> string list + Settings" where
  "settings_import environ dotenv parse_int parse_list =
     Settings_init (load_dotenv environ dotenv) parse_int parse_list"

definition settings_fields :: "string list" where
  "settings_fields = [''PROJECT_NAME'', ''VERSION'', ''API_V1_STR'', ''RETELL_API_KEY'', ''DATABASE_URL'',
     ''KNOWLEDGE_BASE_DIR'', ''PROMPTS_DIR'', ''MAX_TOKENS_PER_RESPONSE'', ''BACKEND_CORS_ORIGINS'']"

lemma getenv_None [simp]: "env k = None \<Longrightarrow> getenv env k d = d"
  by (simp add: getenv_def)

lemma getenv_getenv [simp]: "getenv env k (getenv env k d) = getenv env k d"
  by (simp add: getenv_def split: option.splits)

lemma env_field_None [simp]: "env k = None \<Longrightarrow> env_field env k conv d = Inr d"
  by (simp add: env_field_def)

lemma Settings_init_clean_env:
  assumes "list_all (\<lambda>k. env k = None) settings_fields"
  shows "Settings_init env pi pl = Inr (settings_defaults env)"
  using assms by (simp add: Settings_init_def settings_fields_def settings_defaults_def Let_def)

lemma Settings_init_Inr:
  assumes "Settings_init env pi pl = Inr s"
  shows "RETELL_API_KEY s = getenv env ''RETELL_API_KEY'' [] \<and>
         KNOWLEDGE_BASE_DIR_attr s = getenv env ''KNOWLEDGE_BASE_DIR'' KNOWLEDGE_BASE_DIR"
  using assms
  by (auto simp: Settings_init_def Let_def settings_defaults_def split: sum.splits)

text \<open>A value of \<open>MAX_TOKENS_PER_RESPONSE\<close> that does not convert makes the import fail.\<close>
lemma Settings_init_bad_int:
  assumes "env ''MAX_TOKENS_PER_RESPONSE'' = Some v" "pi v = None"
  shows "\<exists>e. Settings_init env pi pl = Inl e \<and> ''MAX_TOKENS_PER_RESPONSE'' \<in> set e"
  using assms by (auto simp: Settings_init_def Let_def env_field_def field_errors_def split: sum.splits)

lemma load_dotenv_environ_wins: "environ k = Some v \<Longrightarrow> load_dotenv environ dotenv k = Some v"
  by (simp add: load_dotenv_def)

end
