(* ===== verification/Spec2Isabelle.thy ===== *)
theory Spec2Isabelle
  imports Dialogue Progress App Helpers Legacy_App Prompts Settings
begin

text \<open>
  \<^bold>\<open>A verification development of the Barbeque Nation restaurant chatbot.\<close>

  \<^bold>\<open>The program.\<close>  A FastAPI service (\<open>src/main.py\<close>) mounts three routers.  The
  core is the \<open>/chat\<close> endpoint of \<open>src/app/api/endpoints/chatbot.py\<close>: a per-session
  dialogue state machine over the enumeration \<open>ConversationState\<close> of
  \<open>src/app/services/state_manager.py\<close>.  A turn loads or creates the session's
  \<open>StateContext\<close> in the module-level dictionary \<open>sessions\<close> (a request may hint the
  state), lower-cases the message, interprets it in the current state (city selection
  against \<open>settings.CITIES\<close> of \<open>src/app/core/config.py\<close>, outlet and action
  selection by keyword), stores the next state and renders the reply from the new state,
  reading menus and FAQs from its own \<open>KnowledgeBase\<close> instance
  (\<open>src/app/services/knowledge_base.py\<close>), which is loaded once from \<open>.docx\<close>
  files.  The body runs under \<open>try\<close>; a fault deletes the session and answers 500.

  \<^bold>\<open>Theories.\<close>
  \<^item> \<open>Py_Prelude\<close>: the Python string operations the code uses (\<open>lower\<close>,
    \<open>capitalize\<close>, \<open>strip\<close>, \<open>in\<close>, \<open>endswith\<close>, \<open>replace\<close>, \<open>join\<close>), f-string
    rendering of \<open>None\<close>, and insertion-ordered dictionaries (\<open>dict_get\<close>,
    \<open>dict_set\<close>, \<open>dict_modify\<close>) with their lookup/update lemmas.  Characters are
    bytes; case mapping and whitespace are the ASCII ones.
  \<^item> \<open>Config\<close>: \<open>CITIES\<close>, \<open>city_keys\<close> (\<open>list(CITIES.keys())\<close>) and
    \<open>cities_get\<close> (\<open>CITIES.get(k, [])\<close>, with a possibly \<open>None\<close> key).
  \<^item> \<open>Settings\<close>: the \<open>Settings\<close> object of \<open>config.py\<close> built at import from the
    environment (\<open>load_dotenv\<close> without override, the \<open>os.getenv\<close> defaults,
    \<open>Settings_init\<close> taking each field by its exact name); the library's conversions of
    strings to \<open>int\<close> and to lists are parameters, a failed one lists the field and the
    import fails.  The other theories use the class defaults.
  \<^item> \<open>Conversation_State\<close>: the state enumeration and its value strings, the parse
    guarded by the membership test, \<open>StateContext\<close> as the record
    \<open>state_context\<close>, and the legacy table \<open>StateManager.get_next_state\<close>.
  \<^item> \<open>Knowledge_Base\<close>: \<open>restaurant_data\<close>, the paragraph handlers
    (\<open>process_general_info\<close>, \<open>section_loop\<close> shared by \<open>process_menu\<close> and
    \<open>process_faqs\<close>), loading (\<open>load_file\<close>, \<open>city_loop\<close>,
    \<open>load_knowledge_base\<close>) and the queries (\<open>get_menu\<close>, \<open>get_faqs\<close>, ...).
  \<^item> \<open>Prompts\<close>: the prompt templates of \<open>StateManager\<close>: \<open>read_docx\<close>,
    \<open>load_prompt_templates\<close> and \<open>get_state_prompt\<close>, with \<open>str.format\<close> as
    \<open>py_format\<close> (CPython's left-to-right parse; \<open>KeyError\<close>, \<open>ValueError\<close>,
    \<open>IndexError\<close> and the \<open>TypeError\<close> of duplicate keywords as values of
    \<open>format_error\<close>), and the object \<open>StateManager()\<close> as the record
    \<open>state_manager\<close>.  The instance is created when \<open>chatbot.py\<close> is imported, but no
    endpoint asks it for a prompt.
  \<^item> \<open>Chatbot\<close>: the turn.  \<open>load_context\<close> (session get-or-create with the hint),
    \<open>phase1\<close> and \<open>restaurant_selection_input\<close> (interpretation, with the early
    returns as \<open>Early\<close>), \<open>render\<close> and \<open>render_query_type\<close> (the reply of the new
    state), \<open>process_message\<close> (both phases), \<open>chat_handler\<close> (the try/except over a
    body that may raise) and \<open>chat\<close> (the endpoint: the handler on the real body).
    Because the source's \<open>context\<close> aliases the stored object, every path that
    returns persists the context it reached; the model writes it back.
  \<^item> \<open>Dialogue\<close>: the store as a state machine, \<open>reachable\<close> from the empty store by
    turns that an admission predicate allows (any request, or \<open>hint_free\<close> requests),
    the context invariant \<open>ctx_inv\<close> and the abstract transition graph
    \<open>successors\<close> that every turn follows.
  \<^item> \<open>Progress\<close>: several turns of one session (\<open>send_messages\<close>: the hint-free
    requests a client sends in order).
  \<^item> \<open>Endpoints\<close>: the read endpoints of \<open>chatbot.py\<close> (\<open>get_restaurants\<close>,
    \<open>get_restaurant_info\<close>, \<open>get_restaurant_menu\<close>, \<open>get_restaurant_faq\<close>) and the
    router of \<open>src/app/api/endpoints/knowledge_base.py\<close> over its own knowledge-base
    instance, with the attribute lookup of Python (\<open>kb_getattr\<close>: a missing method
    raises \<open>AttributeError\<close>, caught and answered 500) and the upload, which writes into
    a file-system map.  The application state \<open>app_state\<close> holds the two
    knowledge-base instances, the files and the sessions.
  \<^item> \<open>Post_Call\<close>: the analytics router of \<open>src/app/api/endpoints/post_call.py\<close>:
    \<open>call_analysis\<close> (\<open>CallAnalysis\<close>), the store \<open>call_analyses\<close> as an insertion-ordered
    dictionary, one definition per endpoint (\<open>analyze_call\<close>, \<open>get_call_analysis\<close>,
    \<open>list_call_analyses\<close>, \<open>get_metrics\<close>, \<open>get_pending_actions\<close>,
    \<open>export_analyses\<close>), and the router as a state machine: a datatype of requests,
    \<open>post_call_step\<close> and \<open>run_post_call\<close> over sequences of requests.
  \<^item> \<open>App\<close>: \<open>src/main.py\<close>.  Its module body statement by statement on a record
    of the \<open>FastAPI\<close> object (\<open>FastAPI\<close>, \<open>add_middleware\<close> with the CORS options,
    \<open>mount\<close>, \<open>include_router\<close> with each router's decorators, \<open>app_get\<close>; composed
    in \<open>main_app\<close>) and what the import prints (\<open>startup_output\<close>); and the
    application as one server: the state \<open>server_state\<close> joins
    \<open>app_state\<close> and the post-call store, \<open>route\<close> gives each request's method and
    path (prefix and decorator), \<open>api_step\<close> dispatches a request to its handler and
    \<open>run_api\<close> runs any interleaving of requests.
  \<^item> \<open>Legacy\<close>: the Flask backend under \<open>src/barbeque-nation-chatbot/backend\<close>:
    \<open>str.split\<close> (\<open>py_split\<close>, a \<open>function\<close> with a measure), the chunking loop of
    \<open>token_utils.split_into_chunks\<close> (\<open>chunk_step\<close> folded over the sentences, the
    tokenizer and the limit as parameters), \<open>parse_docx\<close> and the three blueprints.
  \<^item> \<open>Legacy_App\<close>: the Flask app of \<open>backend/app.py\<close> as its URL dispatch over the
    registered blueprints (\<open>legacy_match\<close>, with Werkzeug's \<open>string\<close> converter for
    \<open><location>\<close>; 404, 405, automatic \<open>OPTIONS\<close> and \<open>HEAD\<close>; 500 when
    \<open>request.json\<close> is not an object).
  \<^item> \<open>Py_Regex\<close>: Python's backtracking regular-expression engine on fixed patterns,
    as matchers returning their successes in the engine's order (\<open>rx_class\<close>,
    \<open>rx_lit\<close>, \<open>rx_seq\<close>, \<open>rx_alt\<close>, \<open>rx_opt\<close>, \<open>rx_rep\<close>, \<open>rx_star\<close>, \<open>rx_plus\<close>,
    \<open>rx_eol\<close> for \<open>$\<close>), with \<open>re_match\<close> and \<open>re_search\<close>.
  \<^item> \<open>Helpers\<close>: \<open>src/app/utils/helpers.py\<close>.  \<open>int()\<close> of a string
    (\<open>py_int\<close>), the validators (\<open>validate_phone_number\<close> through its pattern,
    \<open>validate_date\<close> and \<open>validate_time\<close> through the regular expressions that
    \<open>_strptime\<close> builds for \<open>%Y %m %d %H %M\<close> and the range checks of
    \<open>datetime\<close>), \<open>format_booking_details\<close>, \<open>generate_booking_reference\<close> (the clock
    reading is its argument), \<open>parse_user_input\<close> (four searches; the result dictionary
    with its four fixed keys is the record \<open>parsed_input\<close>),
    \<open>calculate_booking_duration\<close> (on rationals, see below), \<open>sanitize_input\<close>,
    \<open>format_currency\<close> (the float's exact value as a rational, rounded to cents half to
    even, digits grouped by three, the rupee sign as its UTF-8 bytes) and
    \<open>get_time_slot\<close> (\<open>ValueError\<close> as \<open>Inl\<close>).

  \<^bold>\<open>What is proved.\<close>  Per turn (\<open>Chatbot\<close>): the reply to an unknown city and to a
  known one, the effect of the menu keyword, that the booking-collection state never
  advances, that the reported state is the stored one, that a
  raising body resets the session (the real body never raises), and that re-sending a
  request that did not move the state is a fixed point.  Over all runs (\<open>Dialogue\<close>): by rule induction every reachable store
  satisfies \<open>ctx_inv\<close>, from which a menu or FAQ query always has a restaurant key and
  the outlet-name branch never fires; without hints the confirmation and farewell states
  are unreachable; every turn refines \<open>successors\<close>; and a hinted session reaches a
  menu query with no city.  Across turns (\<open>Progress\<close>): liveness of the menu path (a
  new session, or one waiting in the first three states, reaches the menu query after
  "hi", "delhi", "menu").  For the store (\<open>Knowledge_Base\<close>): the section loop equals
  a declarative reading (its \<open>break\<close> is dead), a chain-wide menu reaches only Delhi,
  reloading duplicates menu lines, and loading keeps keys distinct.  For the state
  encoding: parse and print are inverse; the legacy table completes a booking.

  For the endpoints (\<open>Endpoints\<close>): the FAQ endpoint always answers 500, the
  router endpoints that call missing methods always fail, an upload under a plain file
  name is not visible to either knowledge base, an upload whose name climbs out of the
  upload directory (\<open>../Knowledge Base/...\<close>) is written into the loader's directory and
  loaded, and non-\<open>.docx\<close> uploads are refused.  The upload path is
  \<open>os.path.join\<close> of the directory and the client's name (\<open>os_path_join\<close>), resolved
  component by component as \<open>open\<close> does (\<open>open_target\<close>).  For the helpers
  (\<open>Helpers\<close>): the exact language of the phone validator on ASCII strings (a final
  newline passes),
  that every contact the parser extracts validates, that the parser never raises, that a
  \<open>+91\<close> number is truncated, that \<open>get_time_slot\<close> agrees with
  \<open>strptime\<close> on valid times but classifies hour 25, leap days, the range of the
  booking duration, that a booking ending after midnight always gets a negative
  duration, the shape of booking references, and
  that sanitising is idempotent and removes the forbidden characters, and that the
  amount printed by \<open>format_currency\<close> reads back as the amount rounded to cents.  For the analytics
  router (\<open>Post_Call\<close>): every request sequence keeps the store well keyed, posting
  then fetching returns the analysis, a rating of 0 is always filtered out, and unrated calls count in the average's
  denominator.  For the whole server (\<open>App\<close>): the chat endpoint's knowledge base never changes,
  and in any interleaving of requests the post-call store and the session store end as
  if only their own requests had been sent (the routers share no state), and the startup printout lists the four documentation routes as of unknown type.
  For the legacy backend (\<open>Legacy\<close>): split and join are inverse, the
  chunks join back to the text unless the first sentence alone is over the limit (then
  the first chunk is empty), and every chunk is under the limit or a single sentence.
  For the legacy app (\<open>Legacy_App\<close>): every answer is 200, 404, 405 or 500, and no
  request reads a file outside \<open>DATA_PATH\<close>.  For the configuration (\<open>Settings\<close>):
  an environment without the field names gives the class defaults, the string
  settings follow the environment, and a bad token limit fails the import.
  For the templates (\<open>Prompts\<close>): escaping braces and formatting are inverse, only
  \<open>KeyError\<close> is absorbed, a missing document yields the rephrase reply, a booking
  detail named like a keyword makes every prompt raise \<open>TypeError\<close>.

  \<^bold>\<open>Bounds, fuel, termination.\<close>  No loop of the modelled code can diverge: every
  loop is over a finite list (paragraphs, files, city keys) and is a structural \<open>fun\<close>
  or \<open>fold\<close>; \<open>py_replace\<close> and \<open>py_split_aux\<close> recurse on a shorter suffix (a
  \<open>measure\<close>, the latter with its termination proof written out); so does
  \<open>py_format\<close>.  No fuel is needed.  \<open>re.search\<close> recurses on a shorter suffix.  The liveness property is a
  run of three turns, so it needs no fairness assumption or fuel.  Python integers are \<open>int\<close>
  and naturals; the one float, \<open>calculate_booking_duration\<close>, is a multiple of 1/60
  rounded to hundredths, which is never a tie, so the model computes it exactly on
  \<open>rat\<close> and Python returns the double nearest to it.  Characters are bytes: the
  Unicode digits and spaces that Python's \<open>\d\<close>, \<open>\s\<close>, \<open>int()\<close> and \<open>strip()\<close>
  also accept are not modelled, so the properties of the validators are stated for
  ASCII input, on which the two agree.

  \<^bold>\<open>Not modelled (yet).\<close>  Reading \<open>.docx\<close> files (python-docx) is abstracted to
  each file's list of paragraph texts or a read failure; \<open>str.format\<close> fields with a
  conversion, a format spec, attribute or index access (\<open>Unsupported\<close>); in
  \<open>src/main.py\<close> what the CORS middleware and \<open>StaticFiles\<close> do to a request
  (library behaviour; the app records their options and mount point); \<open>uvicorn.run\<close>
  and \<open>app.run\<close>; pydantic's string conversions to
  \<open>int\<close> and to lists (parameters of \<open>Settings_init\<close>); NaN and infinite amounts of
  \<open>format_currency\<close>; the JSON text that \<open>export_analyses\<close> writes (the file holds
  the store); a legacy request without a JSON content type, whose answer depends on the
  Werkzeug version; an upload into a directory that does not exist (\<open>open\<close> raises and
  the endpoint answers 500) and symbolic links on the upload path; the legacy
  \<open>get_kb\<close>'s \<open>OSError\<close>s other than a missing file (answered 500), and the JSON
  decoding itself (a parameter of \<open>get_kb\<close>; a text that does not decode is a 500).
\<close>

end
